(* ===== verification/Prelude.thy ===== *)
theory Prelude
  imports Main "HOL-Library.Sublist"
begin

text \<open>
  Shared vocabulary of the development: the Python exceptions the sources raise, as a
  datatype, so that every operation that can raise returns \<open>exn + 'a\<close>; the fact
  collections the component theories fill; and the list lemmas about evenly spaced
  timestamps and sliding windows that the rate limiter's proofs rest on.
\<close>

section \<open>Fact collections\<close>

named_theorems model_defs
  \<open>definitions of operations, unfolded when a concrete run is evaluated\<close>

named_theorems inv_intros
  \<open>facts that establish an invariant of a component\<close>

section \<open>Exceptions as values\<close>

text \<open>
  One constructor per exception class that the sources raise or catch. The string is the
  exception's argument; \<open>message\<close> is \<open>str(e)\<close>, which for a \<open>KeyError\<close> is the
  key in quotes.
\<close>

datatype exn =
    ValueError string
  | KeyError string
  | IndexError
  | TypeError string
  | AttributeError string
  | HttpError string
  | OtherError string

type_synonym 'a result = "exn + 'a"

abbreviation raise :: "exn \<Rightarrow> 'a result" where
  "raise e \<equiv> Inl e"

abbreviation return :: "'a \<Rightarrow> 'a result" where
  "return x \<equiv> Inr x"

definition message :: "exn \<Rightarrow> string" where
  "message e = (case e of
      ValueError m \<Rightarrow> m
    | KeyError k \<Rightarrow> [CHR 0x27] @ k @ [CHR 0x27]
    | IndexError \<Rightarrow> ''list index out of range''
    | TypeError m \<Rightarrow> m
    | AttributeError m \<Rightarrow> m
    | HttpError m \<Rightarrow> m
    | OtherError m \<Rightarrow> m)"

definition is_HttpError :: "exn \<Rightarrow> bool" where
  "is_HttpError e = (case e of HttpError _ \<Rightarrow> True | _ \<Rightarrow> False)"

definition is_KeyError :: "exn \<Rightarrow> bool" where
  "is_KeyError e = (case e of KeyError _ \<Rightarrow> True | _ \<Rightarrow> False)"

definition is_ok :: "'a result \<Rightarrow> bool" where
  "is_ok r = (case r of Inl _ \<Rightarrow> False | Inr _ \<Rightarrow> True)"

lemma is_ok_simps [simp]: "is_ok (Inr x)" "\<not> is_ok (Inl e)"
  by (simp_all add: is_ok_def)

lemma is_ok_iff: "is_ok r \<longleftrightarrow> (\<exists>x. r = Inr x)"
  by (cases r) simp_all

lemma is_HttpError_simps [simp]:
  "is_HttpError (HttpError m)" "\<not> is_HttpError (ValueError m)" "\<not> is_HttpError (KeyError m)"
  "\<not> is_HttpError IndexError" "\<not> is_HttpError (TypeError m)"
  "\<not> is_HttpError (AttributeError m)" "\<not> is_HttpError (OtherError m)"
  by (simp_all add: is_HttpError_def)

lemma is_KeyError_simps [simp]:
  "is_KeyError (KeyError m)" "\<not> is_KeyError (ValueError m)" "\<not> is_KeyError (HttpError m)"
  "\<not> is_KeyError IndexError" "\<not> is_KeyError (TypeError m)"
  "\<not> is_KeyError (AttributeError m)" "\<not> is_KeyError (OtherError m)"
  by (simp_all add: is_KeyError_def)

section \<open>Lists\<close>

lemma takeWhile_nonempty: "takeWhile P xs \<noteq> [] \<longleftrightarrow> (\<exists>c cs. xs = c # cs \<and> P c)"
  by (cases xs) auto

lemma dropWhile_all: "(\<forall>x\<in>set (dropWhile P xs). P x) \<longleftrightarrow> (\<forall>x\<in>set xs. P x)"
proof
  assume a: "\<forall>x\<in>set (dropWhile P xs). P x"
  have "dropWhile P xs = []"
  proof (rule ccontr)
    assume ne: "dropWhile P xs \<noteq> []"
    then have "\<not> P (hd (dropWhile P xs))" by (rule hd_dropWhile)
    with a ne show False by simp
  qed
  then show "\<forall>x\<in>set xs. P x" by (simp add: dropWhile_eq_Nil_conv)
qed (auto dest: set_dropWhileD)

lemma dropWhile_Cons_head: "dropWhile P xs = c # cs \<Longrightarrow> \<not> P c"
proof -
  assume e: "dropWhile P xs = c # cs"
  then have "dropWhile P xs \<noteq> []" by simp
  then have "\<not> P (hd (dropWhile P xs))" by (rule hd_dropWhile)
  with e show ?thesis by simp
qed

lemma rev_dropWhile_rev: "xs = rev (dropWhile P (rev xs)) @ rev (takeWhile P (rev xs))"
proof -
  have "rev xs = takeWhile P (rev xs) @ dropWhile P (rev xs)" by simp
  from arg_cong [OF this, of rev] show ?thesis by (simp only: rev_append rev_rev_ident)
qed

section \<open>Time\<close>

text \<open>
  A point in time is an integer number of microseconds, the resolution of Python's
  \<open>datetime\<close>; a duration is the difference of two of them.
\<close>

type_synonym timestamp = int

section \<open>Evenly spaced lists and sliding windows\<close>

text \<open>
  \<open>spaced q m xs\<close>: any element and the one \<open>q\<close> places after it are at least
  \<open>m\<close> apart. \<open>count_in_window t m xs\<close>: how many elements fall into the half-open
  window \<open>[t, t + m)\<close>. For a sorted list the first bounds the second by \<open>q\<close>.
\<close>

definition spaced :: "nat \<Rightarrow> int \<Rightarrow> int list \<Rightarrow> bool" where
  "spaced q m xs = list_all (\<lambda>(a, b). a + m \<le> b) (zip xs (drop q xs))"

definition count_in_window :: "int \<Rightarrow> int \<Rightarrow> int list \<Rightarrow> nat" where
  "count_in_window t m xs = length (filter (\<lambda>x. t \<le> x \<and> x < t + m) xs)"

lemma spaced_nth:
  "spaced q m xs \<longleftrightarrow> (\<forall>i. i + q < length xs \<longrightarrow> xs ! i + m \<le> xs ! (i + q))"
  by (auto simp: spaced_def list_all_length add.commute)

lemma spacedI:
  "(\<And>i. i + q < length xs \<Longrightarrow> xs ! i + m \<le> xs ! (i + q)) \<Longrightarrow> spaced q m xs"
  by (simp add: spaced_nth)

lemma spacedD: "spaced q m xs \<Longrightarrow> i + q < length xs \<Longrightarrow> xs ! i + m \<le> xs ! (i + q)"
  by (simp add: spaced_nth)

lemma spaced_Nil [simp]: "spaced q m []"
  by (simp add: spaced_def)

lemma spaced_drop:
  assumes "spaced q m xs"
  shows "spaced q m (drop j xs)"
proof (rule spacedI)
  fix i
  assume "i + q < length (drop j xs)"
  then have lt: "(j + i) + q < length xs" by simp
  from spacedD [OF assms lt] lt show "drop j xs ! i + m \<le> drop j xs ! (i + q)"
    by (simp add: add.assoc)
qed

lemma spaced_snocI:
  assumes old: "spaced q m xs"
    and new: "q \<le> length xs \<Longrightarrow> (xs @ [x]) ! (length xs - q) + m \<le> x"
  shows "spaced q m (xs @ [x])"
proof (rule spacedI)
  fix i
  assume "i + q < length (xs @ [x])"
  then consider "i + q < length xs" | "i + q = length xs" by fastforce
  then show "(xs @ [x]) ! i + m \<le> (xs @ [x]) ! (i + q)"
  proof cases
    case 1
    with spacedD [OF old 1] show ?thesis by (simp add: nth_append)
  next
    case 2
    then have "q \<le> length xs" and "i = length xs - q" by simp_all
    with new 2 show ?thesis by (simp add: nth_append)
  qed
qed

lemma sorted_filter_window:
  fixes t u :: "'a::linorder"
  assumes "sorted xs"
  shows "filter (\<lambda>x. t \<le> x \<and> x < u) xs = takeWhile (\<lambda>x. x < u) (dropWhile (\<lambda>x. x < t) xs)"
  using assms
proof (induction xs)
  case Nil
  then show ?case by simp
next
  case (Cons a xs)
  show ?case
  proof (cases "a < t")
    case True
    with Cons show ?thesis by auto
  next
    case False
    with Cons.prems have "\<forall>x\<in>set xs. \<not> x < t" by auto
    then have dw: "dropWhile (\<lambda>x. x < t) xs = xs"
      by (simp add: dropWhile_eq_self_iff hd_in_set)
    show ?thesis
    proof (cases "a < u")
      case True
      with \<open>\<not> a < t\<close> Cons dw show ?thesis by simp
    next
      case False
      with Cons.prems have "\<forall>x\<in>set xs. \<not> x < u" by auto
      then have "filter (\<lambda>x. t \<le> x \<and> x < u) xs = []"
        by (auto simp: filter_empty_conv)
      with False \<open>\<not> a < t\<close> show ?thesis by simp
    qed
  qed
qed

lemma window_bound:
  assumes "sorted xs" and "spaced q m xs"
  shows "count_in_window t m xs \<le> q"
proof (rule ccontr)
  let ?ds = "dropWhile (\<lambda>x. x < t) xs"
  let ?tw = "takeWhile (\<lambda>x. x < t + m) ?ds"
  assume "\<not> count_in_window t m xs \<le> q"
  then have len: "q < length ?tw"
    using assms(1) by (simp add: count_in_window_def sorted_filter_window)
  have "length ?tw \<le> length ?ds" by (rule length_takeWhile_le)
  with len have qds: "q < length ?ds" by simp
  then have "length ?ds \<noteq> 0" by linarith
  then have "?ds \<noteq> []" by (simp only: length_0_conv not_False_eq_True)
  then have "\<not> hd ?ds < t" by (rule hd_dropWhile)
  then have lo: "t \<le> ?ds ! 0" using \<open>?ds \<noteq> []\<close> by (simp add: hd_conv_nth)
  from len have "?tw ! q \<in> set ?tw" by simp
  then have "?tw ! q < t + m" by (auto dest: set_takeWhileD)
  with len have hi: "?ds ! q < t + m" by (simp add: takeWhile_nth)
  have "spaced q m ?ds"
    using assms(2) by (metis dropWhile_eq_drop spaced_drop)
  from spacedD [OF this, of 0] qds have "?ds ! 0 + m \<le> ?ds ! q" by simp
  with lo hi show False by simp
qed

text \<open>Where the element \<open>q\<close> places before the end of \<open>xs @ ys\<close> lies.\<close>

lemma nth_window_left:
  assumes "length ys < q" and "q \<le> length (xs @ ys)"
  shows "(xs @ ys @ zs) ! (length (xs @ ys) - q) \<in> set xs"
proof -
  from assms have "length (xs @ ys) - q < length xs" by simp
  then show ?thesis by (simp add: nth_append)
qed

lemma nth_window_exact:
  "length (y # ys) = q \<Longrightarrow> (xs @ (y # ys) @ zs) ! (length (xs @ y # ys) - q) = y"
  by (auto simp: nth_append)

end
