(* ===== verification/Py_String.thy ===== *)
theory Py_String
  imports Prelude
begin

text \<open>
  The operations on Python strings that the sources use, on \<open>string\<close>: the character
  classes of the regular expressions (\<open>\d\<close>, \<open>\w\<close>, \<open>\s\<close>), \<open>str.lower\<close>,
  \<open>str.strip\<close>, \<open>in\<close>, \<open>str.replace\<close>, \<open>int()\<close>, and \<open>re.search\<close> as the
  leftmost position where a matcher succeeds. A \<open>char\<close> is a byte, so the model is
  exact on ASCII text; bytes from 128 on belong to no character class and are left
  alone by \<open>lower\<close>.
\<close>

section \<open>Definitions\<close>

subsection \<open>Character classes\<close>

definition code :: "char \<Rightarrow> nat" where
  "code c = of_char c"

definition is_digit :: "char \<Rightarrow> bool" where
  "is_digit c \<longleftrightarrow> 48 \<le> code c \<and> code c \<le> 57"

definition is_upper :: "char \<Rightarrow> bool" where
  "is_upper c \<longleftrightarrow> 65 \<le> code c \<and> code c \<le> 90"

definition is_lower :: "char \<Rightarrow> bool" where
  "is_lower c \<longleftrightarrow> 97 \<le> code c \<and> code c \<le> 122"

text \<open>\<open>\w\<close>: letters, digits and the underscore.\<close>

definition is_word :: "char \<Rightarrow> bool" where
  "is_word c \<longleftrightarrow> is_digit c \<or> is_upper c \<or> is_lower c \<or> c = CHR ''_''"

text \<open>
  \<open>\s\<close> and \<open>str.isspace\<close>: tab, line feed, vertical tab, form feed, carriage return,
  the four separators 28 to 31, and the space.
\<close>

definition is_space :: "char \<Rightarrow> bool" where
  "is_space c \<longleftrightarrow> (9 \<le> code c \<and> code c \<le> 13) \<or> (28 \<le> code c \<and> code c \<le> 32)"

subsection \<open>String methods\<close>

definition lower_char :: "char \<Rightarrow> char" where
  "lower_char c = (if is_upper c then char_of (code c + 32) else c)"

definition lower :: "string \<Rightarrow> string" where
  "lower s = map lower_char s"

definition strip :: "string \<Rightarrow> string" where
  "strip s = rev (dropWhile is_space (rev (dropWhile is_space s)))"

text \<open>\<open>sub in s\<close>.\<close>

definition contains :: "string \<Rightarrow> string \<Rightarrow> bool" where
  "contains sub s = sublist sub s"

text \<open>
  \<open>s.replace(old, new)\<close>: the occurrences of \<open>old\<close> are replaced from the left and do
  not overlap. For the empty \<open>old\<close> Python puts \<open>new\<close> before every character and at
  the end.
\<close>

function replace_from :: "string \<Rightarrow> string \<Rightarrow> string \<Rightarrow> string" where
  "replace_from old new s =
     (if s = [] \<or> old = [] then s
      else if prefix old s then new @ replace_from old new (drop (length old) s)
      else hd s # replace_from old new (tl s))"
  by pat_completeness auto
termination
  by (relation "measure (\<lambda>(old, new, s). length s)") (auto simp: neq_Nil_conv)

definition replace :: "string \<Rightarrow> string \<Rightarrow> string \<Rightarrow> string" where
  "replace old new s =
     (if old = [] then new @ concat (map (\<lambda>c. c # new) s) else replace_from old new s)"

subsection \<open>\<open>int()\<close> of a string\<close>

definition digit_value :: "char \<Rightarrow> nat" where
  "digit_value c = code c - 48"

text \<open>
  The digits of an integer literal: groups of digits, separated by single underscores.
  The flag says whether the character before was a digit.
\<close>

fun digits_ok :: "bool \<Rightarrow> string \<Rightarrow> bool" where
  "digits_ok prev [] = prev"
| "digits_ok prev (c # cs) =
     (if is_digit c then digits_ok True cs else c = CHR ''_'' \<and> prev \<and> digits_ok False cs)"

text \<open>
  \<open>int(s)\<close> for a string: surrounding whitespace and one sign are allowed. The message
  of the \<open>ValueError\<close> quotes the string as it is (Python quotes its \<open>repr\<close>).
\<close>

definition digits_nat :: "string \<Rightarrow> nat" where
  "digits_nat ds = foldl (\<lambda>n c. 10 * n + digit_value c) 0 (filter is_digit ds)"

definition py_int :: "string \<Rightarrow> int result" where
  "py_int s =
     (let t = strip s;
          (neg, ds) = (case t of
              c # cs \<Rightarrow> if c = CHR ''-'' then (True, cs) else if c = CHR ''+'' then (False, cs)
                        else (False, t)
            | [] \<Rightarrow> (False, t))
      in if digits_ok False ds
         then return (if neg then - int (digits_nat ds) else int (digits_nat ds))
         else raise (ValueError (''invalid literal for int() with base 10: '' @
                [CHR 0x27] @ s @ [CHR 0x27])))"

subsection \<open>\<open>re.search\<close>\<close>

text \<open>
  A matcher looks at the text from one position on and gives the match's result there,
  if the pattern matches at that position. \<open>search\<close> tries the positions from the left,
  the end of the text included, as \<open>re.search\<close> does.
\<close>

fun search :: "(string \<Rightarrow> 'a option) \<Rightarrow> string \<Rightarrow> 'a option" where
  "search m [] = m []"
| "search m (c # cs) = (case m (c # cs) of Some r \<Rightarrow> Some r | None \<Rightarrow> search m cs)"

text \<open>A literal: the rest of the text after it.\<close>

definition match_lit :: "string \<Rightarrow> string \<Rightarrow> string option" where
  "match_lit lit s = (if prefix lit s then Some (drop (length lit) s) else None)"

section \<open>Lemmas\<close>

lemmas char_eval = code_def is_digit_def is_upper_def is_lower_def is_word_def is_space_def
  lower_char_def digit_value_def char_of_def bit_simps

declare lower_def [model_defs] strip_def [model_defs] contains_def [model_defs]
  match_lit_def [model_defs] replace_def [model_defs] py_int_def [model_defs]
  digits_nat_def [model_defs]

declare replace_from.simps [simp del]

subsection \<open>\<open>lower\<close> and \<open>strip\<close>\<close>

lemma length_lower [simp]: "length (lower s) = length s"
  by (simp add: lower_def)

lemma lower_Nil [simp]: "lower [] = []"
  by (simp add: lower_def)

lemma lower_append [simp]: "lower (s @ t) = lower s @ lower t"
  by (simp add: lower_def)

lemma code_char_of: "n < 256 \<Longrightarrow> code (char_of n) = n"
  by (simp add: code_def)

lemma lower_char_not_upper: "\<not> is_upper (lower_char c)"
  by (auto simp: lower_char_def is_upper_def code_char_of)

lemma lower_char_idem [simp]: "lower_char (lower_char c) = lower_char c"
  using lower_char_not_upper [of c] by (simp add: lower_char_def [of "lower_char c"])

lemma lower_idem [simp]: "lower (lower s) = lower s"
  by (simp add: lower_def)

lemma strip_Nil [simp]: "strip [] = []"
  by (simp add: strip_def)

lemma strip_blank: "strip s = [] \<longleftrightarrow> list_all is_space s"
  by (simp add: strip_def dropWhile_eq_Nil_conv list_all_iff dropWhile_all)

lemma strip_sublist: "sublist (strip s) s"
proof -
  have "suffix (dropWhile is_space s) s" by (rule suffix_dropWhile)
  moreover have "prefix (strip s) (dropWhile is_space s)"
    unfolding strip_def using rev_dropWhile_rev [of "dropWhile is_space s" is_space]
    by (rule prefixI)
  ultimately show ?thesis unfolding sublist_altdef' by blast
qed

lemma strip_ends:
  assumes "strip s = c # cs"
  shows "\<not> is_space c" and "\<not> is_space (last (c # cs))"
proof -
  let ?d = "dropWhile is_space s" and ?r = "dropWhile is_space (rev (dropWhile is_space s))"
  from assms have r: "?r = rev (c # cs)" by (simp add: strip_def rev_swap)
  then have ne: "?r \<noteq> []" by simp
  from r have "hd ?r = last (c # cs)" by (simp add: hd_rev del: rev.simps)
  with hd_dropWhile [OF ne] show "\<not> is_space (last (c # cs))" by simp
  have dne: "?d \<noteq> []"
  proof
    assume "?d = []"
    then have "?r = []" by (simp only: rev.simps dropWhile.simps)
    with ne show False ..
  qed
  have "last (takeWhile is_space (rev ?d) @ ?r) = last ?r" using ne by (rule last_appendR)
  then have "last (rev ?d) = last ?r" by (simp only: takeWhile_dropWhile_id)
  also from r have "\<dots> = c" by simp
  finally have "hd ?d = c" using dne by (simp add: last_rev)
  with hd_dropWhile [OF dne] show "\<not> is_space c" by simp
qed

lemma strip_idem [simp]: "strip (strip s) = strip s"
proof (cases "strip s")
  case Nil
  then show ?thesis by simp
next
  case (Cons c cs)
  from strip_ends [OF Cons] have "\<not> is_space c" and "\<not> is_space (last (c # cs))" .
  then have "dropWhile is_space (c # cs) = c # cs"
    and "dropWhile is_space (rev (c # cs)) = rev (c # cs)"
    by (simp_all add: dropWhile_eq_self_iff hd_rev del: rev.simps)
  with Cons show ?thesis by (simp add: strip_def [of "c # cs"] del: rev.simps)
qed

subsection \<open>\<open>search\<close>\<close>

lemma search_None: "search m s = None \<longleftrightarrow> (\<forall>t. suffix t s \<longrightarrow> m t = None)"
  by (induction s) (auto simp: suffix_Cons split: option.splits)

lemma search_Some:
  "search m s = Some r \<longleftrightarrow>
     (\<exists>pre t. s = pre @ t \<and> m t = Some r \<and> (\<forall>u. suffix u s \<and> length t < length u \<longrightarrow> m u = None))"
proof (induction s)
  case Nil
  then show ?case by auto
next
  case (Cons c cs)
  show ?case
  proof (cases "m (c # cs)")
    case (Some r')
    have "Some r' = Some r" if "c # cs = pre @ t" "m t = Some r"
      "\<forall>u. suffix u (c # cs) \<and> length t < length u \<longrightarrow> m u = None" for pre t
    proof (cases pre)
      case Nil
      with that Some show ?thesis by simp
    next
      case (Cons a list)
      with that(1) have "length (c # cs) = length (a # list) + length t" by simp
      then have "length t < length (c # cs)" by simp
      with that(3) have "m (c # cs) = None" by blast
      with Some show ?thesis by simp
    qed
    moreover have "\<exists>pre t. c # cs = pre @ t \<and> m t = Some r \<and>
       (\<forall>u. suffix u (c # cs) \<and> length t < length u \<longrightarrow> m u = None)" if "r' = r"
      using that Some by (intro exI [of _ "[]"] exI [of _ "c # cs"]) (auto dest: suffix_length_le)
    ultimately show ?thesis using Some by auto
  next
    case None
    have "(\<exists>pre t. c # cs = pre @ t \<and> m t = Some r \<and>
       (\<forall>u. suffix u (c # cs) \<and> length t < length u \<longrightarrow> m u = None)) \<longleftrightarrow>
      (\<exists>pre t. cs = pre @ t \<and> m t = Some r \<and>
       (\<forall>u. suffix u cs \<and> length t < length u \<longrightarrow> m u = None))" (is "?L \<longleftrightarrow> ?R")
    proof
      assume ?L
      then obtain pre t where *: "c # cs = pre @ t" "m t = Some r"
        "\<forall>u. suffix u (c # cs) \<and> length t < length u \<longrightarrow> m u = None" by blast
      with None obtain pre' where "pre = c # pre'" by (cases pre) auto
      with * show ?R by (intro exI [of _ pre'] exI [of _ t]) (auto simp: suffix_Cons)
    next
      assume ?R
      then obtain pre t where *: "cs = pre @ t" "m t = Some r"
        "\<forall>u. suffix u cs \<and> length t < length u \<longrightarrow> m u = None" by blast
      with None show ?L by (intro exI [of _ "c # pre"] exI [of _ t]) (auto simp: suffix_Cons)
    qed
    with None Cons.IH show ?thesis by simp
  qed
qed

lemma match_lit_Some: "match_lit lit s = Some rest \<longleftrightarrow> s = lit @ rest"
  by (auto simp: match_lit_def prefix_def)

lemma match_lit_None: "match_lit lit s = None \<longleftrightarrow> \<not> prefix lit s"
  by (simp add: match_lit_def)

subsection \<open>\<open>replace\<close>\<close>

lemma replace_from_Nil [simp]: "replace_from old new [] = []"
  by (simp add: replace_from.simps)

lemma replace_from_absent:
  "\<not> sublist old s \<Longrightarrow> replace_from old new s = s"
proof (induction s)
  case Nil
  then show ?case by simp
next
  case (Cons c cs)
  then have "\<not> prefix old (c # cs)" and "\<not> sublist old cs"
    by (auto simp: sublist_Cons_right)
  with Cons.IH show ?case by (simp add: replace_from.simps [of old new "c # cs"])
qed

end
