(* ===== verification/Video_Id.thy ===== *)
theory Video_Id
  imports Py_String
begin

text \<open>
  \<open>YouTubeCommentExtractor.extract_video_id\<close> (\<open>src/youtube_extractor.py\<close>): the
  three URL patterns, each a choice of literal prefixes followed by the group
  \<open>([\w-]+)\<close>, tried in order with \<open>re.search\<close>.
\<close>

section \<open>Definitions\<close>

text \<open>The class \<open>[\w-]\<close> of the captured group.\<close>

definition is_id_char :: "char \<Rightarrow> bool" where
  "is_id_char c \<longleftrightarrow> is_word c \<or> c = CHR ''-''"

text \<open>
  One pattern at one position: the alternatives of the non-capturing group are tried
  from the left; after a literal the group takes the longest run of id characters, which
  must not be empty (an empty run makes the regex engine go on to the next alternative).
\<close>

fun match_alternatives :: "string list \<Rightarrow> string \<Rightarrow> string option" where
  "match_alternatives [] s = None"
| "match_alternatives (p # ps) s =
     (case match_lit p s of
        None \<Rightarrow> match_alternatives ps s
      | Some rest \<Rightarrow>
          (let vid = takeWhile is_id_char rest
           in if vid \<noteq> [] then Some vid else match_alternatives ps s))"

text \<open>The list \<open>patterns\<close> of the source, each pattern as the list of its literals.\<close>

definition patterns :: "string list list" where
  "patterns =
     [[''youtube.com/watch?v='', ''youtu.be/''],
      [''youtube.com/embed/''],
      [''youtube.com/v/'']]"

text \<open>The \<open>for\<close> loop: the first pattern that is found anywhere in the URL wins.\<close>

fun first_match :: "string list list \<Rightarrow> string \<Rightarrow> string option" where
  "first_match [] url = None"
| "first_match (pattern # rest) url =
     (case search (match_alternatives pattern) url of
        Some vid \<Rightarrow> Some vid
      | None \<Rightarrow> first_match rest url)"

definition extract_video_id :: "string \<Rightarrow> string option" where
  "extract_video_id url = first_match patterns url"

section \<open>Lemmas\<close>

declare patterns_def [model_defs] extract_video_id_def [model_defs]

lemma match_alternatives_None:
  "match_alternatives ps s = None \<longleftrightarrow>
     (\<forall>p\<in>set ps. \<not> (\<exists>c. is_id_char c \<and> prefix (p @ [c]) s))"
proof (induction ps)
  case Nil
  then show ?case by simp
next
  case (Cons p ps)
  have "(\<exists>rest. match_lit p s = Some rest \<and> takeWhile is_id_char rest \<noteq> []) \<longleftrightarrow>
        (\<exists>c. is_id_char c \<and> prefix (p @ [c]) s)"
    by (auto simp: match_lit_Some takeWhile_nonempty prefix_def)
  with Cons.IH show ?case
    by (cases "match_lit p s") (auto simp: Let_def)
qed

lemma match_alternatives_Some:
  assumes "match_alternatives ps s = Some v"
  shows "\<exists>p\<in>set ps. \<exists>rest. s = p @ rest \<and> v = takeWhile is_id_char rest \<and> v \<noteq> []"
  using assms
  by (induction ps) (auto simp: Let_def match_lit_Some split: option.splits if_splits)

lemma first_match_None:
  "first_match pats url = None \<longleftrightarrow> (\<forall>pat\<in>set pats. search (match_alternatives pat) url = None)"
  by (induction pats) (auto split: option.splits)

lemma first_match_Some:
  "first_match pats url = Some v \<Longrightarrow> \<exists>pat\<in>set pats. search (match_alternatives pat) url = Some v"
  by (induction pats) (auto split: option.splits)

section \<open>Properties\<close>


text \<open>
  C9. A resolved identifier is a non-empty run of id characters that stands in the URL
  right after one of the five literals and is not followed by another id character.
\<close>

theorem extract_video_id_sound:
  assumes "extract_video_id url = Some v"
  shows "v \<noteq> [] \<and> list_all is_id_char v \<and>
    (\<exists>p\<in>set (concat patterns). \<exists>pre post. url = pre @ p @ v @ post \<and>
        (case post of [] \<Rightarrow> True | c # _ \<Rightarrow> \<not> is_id_char c))"
proof -
  from assms obtain pat where pat: "pat \<in> set patterns"
    and s: "search (match_alternatives pat) url = Some v"
    by (auto simp: extract_video_id_def dest: first_match_Some)
  from s obtain pre t where url: "url = pre @ t" and "match_alternatives pat t = Some v"
    by (auto simp: search_Some)
  then obtain p rest where p: "p \<in> set pat" and t: "t = p @ rest"
    and v: "v = takeWhile is_id_char rest" and ne: "v \<noteq> []"
    by (blast dest: match_alternatives_Some)
  have "rest = v @ dropWhile is_id_char rest" by (simp add: v)
  moreover have "case dropWhile is_id_char rest of [] \<Rightarrow> True | c # _ \<Rightarrow> \<not> is_id_char c"
    by (auto split: list.splits dest: dropWhile_Cons_head)
  ultimately have "\<exists>pre post. url = pre @ p @ v @ post \<and>
        (case post of [] \<Rightarrow> True | c # _ \<Rightarrow> \<not> is_id_char c)"
    using url t by (intro exI [of _ pre] exI [of _ "dropWhile is_id_char rest"]) simp
  moreover from v have "list_all is_id_char v"
    by (auto simp: list_all_iff dest: set_takeWhileD)
  ultimately show ?thesis using ne p pat by auto
qed

theorem extract_video_id_sound_witness:
  "extract_video_id ''https://youtu.be/ABC123?t=9'' = Some ''ABC123'' \<and>
   ''ABC123'' \<noteq> [] \<and> list_all is_id_char ''ABC123'' \<and>
    (\<exists>p\<in>set (concat patterns). \<exists>pre post. ''https://youtu.be/ABC123?t=9'' = pre @ p @ ''ABC123'' @ post \<and>
        (case post of [] \<Rightarrow> True | c # _ \<Rightarrow> \<not> is_id_char c))"
proof -
  have "extract_video_id ''https://youtu.be/ABC123?t=9'' = Some ''ABC123''" by code_simp
  from this extract_video_id_sound [OF this] show ?thesis by blast
qed

text \<open>
  C30. Resolution fails exactly for the URLs in which none of the five literals is
  followed by an id character.
\<close>

theorem extract_video_id_None:
  "extract_video_id url = None \<longleftrightarrow>
     \<not> (\<exists>p\<in>set (concat patterns). \<exists>c. is_id_char c \<and> sublist (p @ [c]) url)"
  by (auto simp: extract_video_id_def first_match_None search_None match_alternatives_None
      sublist_altdef')

end
