(* ===== verification/Rate_Limiter.thy ===== *)
theory Rate_Limiter
  imports Prelude
begin

text \<open>
  The sliding-window throttle of \<open>GeminiSentimentAnalyzer\<close>
  (\<open>src/sentiment_analyzer.py\<close>): the analyzer's limiter fields, the bounded deque of
  request timestamps, \<open>_apply_rate_limiting\<close> and the timestamp append of
  \<open>analyze_sentiment\<close>. The clock and \<open>time.sleep\<close> are the environment: a world
  holds the analyzer, the clock and the log of all dispatch times, and a step relation
  lets time pass and lets a call go through the limiter. The theorems show that the log
  of every reachable world keeps sixteen consecutive dispatches a minute apart.
\<close>

section \<open>The analyzer's limiter state\<close>

text \<open>\<open>timedelta(minutes=1)\<close>, in microseconds.\<close>

definition minute :: int where
  "minute = 60000000"

text \<open>
  The fields of \<open>__init__\<close> that the limiter reads. \<open>request_timestamps\<close> is the
  deque, oldest entry first; its \<open>maxlen\<close> is \<open>rate_limit\<close>. The API key, the model
  handle and \<open>request_interval\<close> (written once, never read) are left out.
\<close>

record analyzer =
  rate_limit :: nat
  request_timestamps :: "timestamp list"

definition init_analyzer :: analyzer where
  "init_analyzer = \<lparr>rate_limit = 15, request_timestamps = []\<rparr>"

text \<open>
  \<open>deque(maxlen=n).append(x)\<close>: the new entry goes to the right end and the deque keeps
  its last \<open>n\<close> entries (none when \<open>n = 0\<close>).
\<close>

definition deque_append :: "nat \<Rightarrow> 'a list \<Rightarrow> 'a \<Rightarrow> 'a list" where
  "deque_append maxlen q x = drop (Suc (length q) - maxlen) (q @ [x])"

text \<open>The eviction loop: \<open>popleft\<close> while the oldest entry is older than the limit.\<close>

fun evict_old :: "timestamp \<Rightarrow> timestamp list \<Rightarrow> timestamp list" where
  "evict_old limit [] = []"
| "evict_old limit (t # ts) = (if t < limit then evict_old limit ts else t # ts)"

text \<open>
  \<open>_apply_rate_limiting\<close>, given the clock reading \<open>now\<close>. The result is the time
  slept (0 when the call does not sleep) and the analyzer with the evicted deque;
  \<open>ts[0]\<close> on an empty deque is the \<open>IndexError\<close> Python would raise.
\<close>

definition apply_rate_limiting :: "timestamp \<Rightarrow> analyzer \<Rightarrow> (int \<times> analyzer) result" where
  "apply_rate_limiting now a =
     (if request_timestamps a = [] then return (0, a)
      else
        let oldest_allowed_timestamp = now - minute;
            ts = evict_old oldest_allowed_timestamp (request_timestamps a);
            a' = a\<lparr>request_timestamps := ts\<rparr>
        in if rate_limit a \<le> length ts
           then (case ts of
                   [] \<Rightarrow> raise IndexError
                 | oldest_timestamp # _ \<Rightarrow>
                     let wait_time = oldest_timestamp + minute - now
                     in if 0 < wait_time then return (wait_time, a') else return (0, a'))
           else return (0, a'))"

text \<open>\<open>self.request_timestamps.append(datetime.now())\<close> in \<open>analyze_sentiment\<close>.\<close>

definition record_request :: "timestamp \<Rightarrow> analyzer \<Rightarrow> analyzer" where
  "record_request now a =
     a\<lparr>request_timestamps := deque_append (rate_limit a) (request_timestamps a) now\<rparr>"

section \<open>The environment: clock, sleep and the dispatch log\<close>

text \<open>
  \<open>dispatched\<close> is a ghost log: every timestamp ever appended, in order. The code keeps
  only the deque; the log is what the quota is a statement about.
\<close>

record world =
  lim :: analyzer
  clock :: timestamp
  dispatched :: "timestamp list"

definition init_world :: "timestamp \<Rightarrow> world" where
  "init_world t0 = \<lparr>lim = init_analyzer, clock = t0, dispatched = []\<rparr>"

text \<open>
  \<open>tick\<close>: time passes. \<open>dispatch\<close>: one call of \<open>analyze_sentiment\<close> as far as the
  limiter sees it. The clock is read at \<open>now\<close>, not before the last reading; the call
  sleeps \<open>wait\<close>; the clock is read again at \<open>now'\<close>, after the sleep has ended, and
  that reading is appended. The clock never runs backwards and \<open>time.sleep\<close> never
  returns early: these are the two assumptions on the environment.
\<close>

inductive step :: "world \<Rightarrow> world \<Rightarrow> bool" where
  tick: "clock w \<le> t \<Longrightarrow> step w (w\<lparr>clock := t\<rparr>)"
| dispatch:
    "clock w \<le> now \<Longrightarrow> apply_rate_limiting now (lim w) = return (wait, a') \<Longrightarrow>
     now + wait \<le> now' \<Longrightarrow>
     step w \<lparr>lim = record_request now' a', clock = now', dispatched = dispatched w @ [now']\<rparr>"

inductive reachable :: "world \<Rightarrow> bool" where
  start: "reachable (init_world t0)"
| later: "reachable w \<Longrightarrow> step w w' \<Longrightarrow> reachable w'"

text \<open>
  A deterministic run for evaluation: the call starts \<open>d1\<close> microseconds after the last
  clock reading, and the second reading comes \<open>d2\<close> microseconds after the sleep ends.
\<close>

definition acquire :: "nat \<Rightarrow> nat \<Rightarrow> world \<Rightarrow> world result" where
  "acquire d1 d2 w =
     (let now = clock w + int d1 in
      case apply_rate_limiting now (lim w) of
        Inl e \<Rightarrow> raise e
      | Inr (wait, a') \<Rightarrow>
          let now' = now + wait + int d2
          in return \<lparr>lim = record_request now' a', clock = now',
                      dispatched = dispatched w @ [now']\<rparr>)"

fun run_calls :: "(nat \<times> nat) list \<Rightarrow> world \<Rightarrow> world result" where
  "run_calls [] w = return w"
| "run_calls ((d1, d2) # cs) w =
     (case acquire d1 d2 w of Inl e \<Rightarrow> raise e | Inr w' \<Rightarrow> run_calls cs w')"

section \<open>The invariant\<close>

text \<open>
  The deque is the tail of the log and holds at most \<open>rate_limit\<close> entries; the log is
  sorted and lies in the past; every logged entry that has left the deque is at least a
  minute old; and the log is spaced.
\<close>

definition limiter_inv :: "world \<Rightarrow> bool" where
  "limiter_inv w \<longleftrightarrow>
     (let q = rate_limit (lim w); ts = request_timestamps (lim w); h = dispatched w in
        0 < q \<and> length ts \<le> q \<and> suffix ts h \<and> sorted h \<and> list_all (\<lambda>x. x \<le> clock w) h \<and>
        list_all (\<lambda>x. x + minute \<le> clock w) (take (length h - length ts) h) \<and>
        spaced q minute h)"

declare init_analyzer_def [model_defs] init_world_def [model_defs] deque_append_def [model_defs]
  apply_rate_limiting_def [model_defs] record_request_def [model_defs] acquire_def [model_defs]
  minute_def [model_defs]

inductive_cases step_cases: "step w w'"

section \<open>The deque\<close>

lemma evict_old_eq: "evict_old limit ts = dropWhile (\<lambda>t. t < limit) ts"
  by (induction ts) auto

lemma evict_old_hd: "evict_old limit ts = x # xs \<Longrightarrow> limit \<le> x"
  by (induction ts) (auto split: if_splits)

lemma deque_append_length [simp]: "length (deque_append n q x) = min n (Suc (length q))"
  by (auto simp: deque_append_def)

lemma deque_append_not_full: "length q < n \<Longrightarrow> deque_append n q x = q @ [x]"
  by (simp add: deque_append_def)

lemma deque_append_full: "length (y # ys) = n \<Longrightarrow> deque_append n (y # ys) x = ys @ [x]"
  by (auto simp: deque_append_def)

lemma deque_append_suffix: "suffix (deque_append n q x) (q @ [x])"
  unfolding deque_append_def by (rule suffix_drop)

lemma deque_append_window:
  fixes t m :: int
  assumes len: "length ts \<le> q" and q: "0 < q"
    and old: "\<forall>x\<in>set old. x + m \<le> t"
    and full: "\<And>oldest rest. ts = oldest # rest \<Longrightarrow> q \<le> length (oldest # rest) \<Longrightarrow>
                 oldest + m \<le> t"
  obtains old' where "(old @ ts) @ [t] = old' @ deque_append q ts t"
    and "\<forall>x\<in>set old'. x + m \<le> t"
    and "q \<le> length (old @ ts) \<Longrightarrow> ((old @ ts) @ [t]) ! (length (old @ ts) - q) + m \<le> t"
proof (cases "length ts < q")
  case True
  from nth_window_left [OF True, of old "[t]"] old
  have "q \<le> length (old @ ts) \<Longrightarrow> ((old @ ts) @ [t]) ! (length (old @ ts) - q) + m \<le> t"
    by simp
  with True old that [of old] show thesis
    by (simp add: deque_append_not_full)
next
  case False
  show thesis
  proof (cases ts)
    case Nil
    with False q show thesis by simp
  next
    case (Cons oldest rest)
    with False len have eq: "length (oldest # rest) = q" by simp
    with full [OF Cons] have o: "oldest + m \<le> t" by simp
    from nth_window_exact [OF eq, of old "[t]"]
    have "((old @ ts) @ [t]) ! (length (old @ ts) - q) = oldest" by (simp add: Cons)
    with o old eq that [of "old @ [oldest]"] show thesis
      by (simp add: Cons deque_append_full)
  qed
qed

section \<open>One call of the limiter\<close>

lemma apply_rate_limiting_Inr:
  assumes "apply_rate_limiting now a = Inr (wait, a')"
  shows "rate_limit a' = rate_limit a"
    and "request_timestamps a' = dropWhile (\<lambda>t. t < now - minute) (request_timestamps a)"
    and "0 \<le> wait"
    and "request_timestamps a' = oldest # rest \<Longrightarrow> rate_limit a \<le> length (oldest # rest) \<Longrightarrow>
           oldest + minute \<le> now + wait"
  using assms
  by (auto simp: apply_rate_limiting_def Let_def evict_old_eq split: if_splits list.splits)

lemma apply_rate_limiting_ok:
  assumes "length (request_timestamps a) \<le> rate_limit a"
  shows "is_ok (apply_rate_limiting now a)"
proof (cases "request_timestamps a")
  case Nil
  then show ?thesis by (simp add: apply_rate_limiting_def)
next
  case (Cons t ts)
  with assms have "0 < rate_limit a" by auto
  then show ?thesis
    by (auto simp: apply_rate_limiting_def Let_def split: list.splits)
qed

section \<open>Preservation of the invariant\<close>

lemma limiter_invI:
  assumes "dispatched w = old @ request_timestamps (lim w)"
    and "0 < rate_limit (lim w)" and "length (request_timestamps (lim w)) \<le> rate_limit (lim w)"
    and "sorted (dispatched w)" and "\<forall>x\<in>set (dispatched w). x \<le> clock w"
    and "\<forall>x\<in>set old. x + minute \<le> clock w"
    and "spaced (rate_limit (lim w)) minute (dispatched w)"
  shows "limiter_inv w"
  using assms by (simp add: limiter_inv_def Let_def list_all_iff suffix_def)

lemma limiter_invE:
  assumes "limiter_inv w"
  obtains old where "dispatched w = old @ request_timestamps (lim w)"
    and "0 < rate_limit (lim w)" and "length (request_timestamps (lim w)) \<le> rate_limit (lim w)"
    and "sorted (dispatched w)" and "\<forall>x\<in>set (dispatched w). x \<le> clock w"
    and "\<forall>x\<in>set old. x + minute \<le> clock w"
    and "spaced (rate_limit (lim w)) minute (dispatched w)"
proof -
  let ?h = "dispatched w" and ?ts = "request_timestamps (lim w)"
  from assms have "suffix ?ts ?h" by (simp add: limiter_inv_def Let_def)
  then have "?h = take (length ?h - length ?ts) ?h @ ?ts" by (rule suffix_take)
  with assms that [of "take (length ?h - length ?ts) ?h"] show thesis
    by (simp add: limiter_inv_def Let_def list_all_iff)
qed

lemma limiter_inv_init [inv_intros]: "limiter_inv (init_world t0)"
  by (simp add: limiter_inv_def init_world_def init_analyzer_def)

lemma limiter_inv_tick [inv_intros]:
  assumes "limiter_inv w" and "clock w \<le> t"
  shows "limiter_inv (w\<lparr>clock := t\<rparr>)"
proof -
  from assms(1) obtain old where
    "dispatched w = old @ request_timestamps (lim w)" "0 < rate_limit (lim w)"
    "length (request_timestamps (lim w)) \<le> rate_limit (lim w)" "sorted (dispatched w)"
    "\<forall>x\<in>set (dispatched w). x \<le> clock w" "\<forall>x\<in>set old. x + minute \<le> clock w"
    "spaced (rate_limit (lim w)) minute (dispatched w)"
    by (rule limiter_invE)
  with assms(2) show ?thesis
    by (intro limiter_invI [where old = old]) (auto simp: ball_Un)
qed

lemma limiter_inv_dispatch [inv_intros]:
  assumes inv: "limiter_inv w" and clk: "clock w \<le> now"
    and arl: "apply_rate_limiting now (lim w) = Inr (wait, a')"
    and slept: "now + wait \<le> now'"
  shows "limiter_inv \<lparr>lim = record_request now' a', clock = now',
           dispatched = dispatched w @ [now']\<rparr>" (is "limiter_inv ?w'")
proof -
  let ?q = "rate_limit (lim w)" and ?ts = "request_timestamps (lim w)" and ?h = "dispatched w"
  let ?P = "\<lambda>t. t < now - minute"
  let ?ts' = "request_timestamps a'"
  from inv obtain old where h: "?h = old @ ?ts" and q: "0 < ?q" and len: "length ?ts \<le> ?q"
    and srt: "sorted ?h" and le: "\<forall>x\<in>set ?h. x \<le> clock w"
    and old: "\<forall>x\<in>set old. x + minute \<le> clock w" and sp: "spaced ?q minute ?h"
    by (rule limiter_invE)
  note facts = apply_rate_limiting_Inr [OF arl]
  have now': "now \<le> now'" using facts(3) slept by simp
  let ?old' = "old @ takeWhile ?P ?ts"
  have h': "?h = ?old' @ ?ts'" using h facts(2) by simp
  have "\<forall>x\<in>set ?old'. x + minute \<le> now'"
    using old clk now' by (fastforce dest: set_takeWhileD)
  moreover have "length ?ts' \<le> ?q"
    using len facts(2) length_dropWhile_le [of ?P ?ts] by simp
  moreover note q
  moreover have "oldest + minute \<le> now'"
    if "?ts' = oldest # rest" "?q \<le> length (oldest # rest)" for oldest rest
    using facts(4) [OF that] slept by simp
  ultimately obtain old'' where d: "?h @ [now'] = old'' @ deque_append ?q ?ts' now'"
    and o: "\<forall>x\<in>set old''. x + minute \<le> now'"
    and n: "?q \<le> length ?h \<Longrightarrow> (?h @ [now']) ! (length ?h - ?q) + minute \<le> now'"
    using deque_append_window [of ?ts' ?q ?old' minute now'] unfolding h' [symmetric] by blast
  show ?thesis
  proof (rule limiter_invI [where old = old''])
    show "dispatched ?w' = old'' @ request_timestamps (lim ?w')"
      using d by (simp add: record_request_def facts(1))
    show "sorted (dispatched ?w')"
      using srt le clk now' by (fastforce simp: sorted_append)
    show "\<forall>x\<in>set (dispatched ?w'). x \<le> clock ?w'"
      using le clk now' by fastforce
    show "spaced (rate_limit (lim ?w')) minute (dispatched ?w')"
      using sp n by (simp add: record_request_def facts(1) spaced_snocI)
  qed (use o q in \<open>simp_all add: record_request_def facts(1)\<close>)
qed

lemma limiter_inv_step: "step w w' \<Longrightarrow> limiter_inv w \<Longrightarrow> limiter_inv w'"
  by (induction rule: step.induct) (auto intro: inv_intros)

lemma step_rate_limit: "step w w' \<Longrightarrow> rate_limit (lim w') = rate_limit (lim w)"
  by (induction rule: step.induct)
    (auto simp: record_request_def dest: apply_rate_limiting_Inr(1))

lemma reachable_inv: "reachable w \<Longrightarrow> limiter_inv w \<and> rate_limit (lim w) = 15"
proof (induction rule: reachable.induct)
  case (start t0)
  show ?case by (simp add: limiter_inv_init) (simp add: init_world_def init_analyzer_def)
next
  case (later w w')
  then show ?case by (simp add: limiter_inv_step step_rate_limit)
qed

section \<open>The deterministic run is a run of the step relation\<close>

lemma acquire_step:
  assumes "acquire d1 d2 w = Inr w'"
  shows "step w w'"
proof -
  let ?now = "clock w + int d1"
  from assms obtain wait a' where arl: "apply_rate_limiting ?now (lim w) = Inr (wait, a')"
    and w': "w' = \<lparr>lim = record_request (?now + wait + int d2) a', clock = ?now + wait + int d2,
                 dispatched = dispatched w @ [?now + wait + int d2]\<rparr>"
    by (auto simp: acquire_def Let_def split: sum.splits)
  have "step w \<lparr>lim = record_request (?now + wait + int d2) a', clock = ?now + wait + int d2,
                 dispatched = dispatched w @ [?now + wait + int d2]\<rparr>"
    by (rule step.dispatch [OF _ arl]) simp_all
  with w' show ?thesis by simp
qed

lemma run_calls_reachable: "run_calls cs w = Inr w' \<Longrightarrow> reachable w \<Longrightarrow> reachable w'"
proof (induction cs arbitrary: w)
  case Nil
  then show ?case by simp
next
  case (Cons c cs)
  obtain d1 d2 where c: "c = (d1, d2)" by (cases c)
  with Cons.prems(1) obtain w1 where a: "acquire d1 d2 w = Inr w1" and r: "run_calls cs w1 = Inr w'"
    by (auto split: sum.splits)
  from Cons.prems(2) acquire_step [OF a] have "reachable w1" by (rule reachable.later)
  with r show ?case by (rule Cons.IH)
qed

lemma acquire_ok: "limiter_inv w \<Longrightarrow> is_ok (acquire d1 d2 w)"
proof -
  assume "limiter_inv w"
  then have "length (request_timestamps (lim w)) \<le> rate_limit (lim w)"
    by (simp add: limiter_inv_def Let_def)
  from apply_rate_limiting_ok [OF this, of "clock w + int d1"] show ?thesis
    by (auto simp: acquire_def Let_def is_ok_iff)
qed

text \<open>A burst of sixteen calls with no time between them, evaluated.\<close>

lemma burst_run:
  "run_calls (replicate 16 (0, 0)) (init_world 0) =
     Inr \<lparr>lim = \<lparr>rate_limit = 15, request_timestamps = replicate 14 0 @ [60000000]\<rparr>,
          clock = 60000000, dispatched = replicate 15 0 @ [60000000]\<rparr>"
  by code_simp

lemma burst_reachable:
  "reachable \<lparr>lim = \<lparr>rate_limit = 15, request_timestamps = replicate 14 0 @ [60000000]\<rparr>,
          clock = 60000000, dispatched = replicate 15 0 @ [60000000]\<rparr>"
  using run_calls_reachable [OF burst_run reachable.start] .

lemma reachable_spaced:
  assumes "reachable w"
  shows "sorted (dispatched w) \<and> spaced 15 minute (dispatched w)"
proof -
  from reachable_inv [OF assms] have "limiter_inv w" and "rate_limit (lim w) = 15"
    by simp_all
  then show ?thesis by (simp add: limiter_inv_def Let_def)
qed

lemma run_calls_ok: "limiter_inv w \<Longrightarrow> is_ok (run_calls cs w)"
proof (induction cs arbitrary: w)
  case Nil
  then show ?case by simp
next
  case (Cons c cs)
  obtain d1 d2 where c: "c = (d1, d2)" by (cases c)
  from acquire_ok [OF Cons.prems, of d1 d2] obtain w1 where a: "acquire d1 d2 w = Inr w1"
    by (auto simp: is_ok_iff)
  from limiter_inv_step [OF acquire_step [OF a] Cons.prems] have "is_ok (run_calls cs w1)"
    by (rule Cons.IH)
  with a c show ?case by simp
qed

lemma run_calls_length:
  "run_calls cs w = Inr w' \<Longrightarrow> length (dispatched w') = length (dispatched w) + length cs"
proof (induction cs arbitrary: w)
  case Nil
  then show ?case by simp
next
  case (Cons c cs)
  obtain d1 d2 where c: "c = (d1, d2)" by (cases c)
  with Cons.prems obtain w1 where a: "acquire d1 d2 w = Inr w1" and r: "run_calls cs w1 = Inr w'"
    by (auto split: sum.splits)
  from a have "length (dispatched w1) = Suc (length (dispatched w))"
    by (auto simp: acquire_def Let_def split: sum.splits)
  with Cons.IH [OF r] show ?case by simp
qed

lemma evict_old_append:
  "\<forall>t\<in>set old. t < limit \<Longrightarrow> evict_old limit (old @ ts) = evict_old limit ts"
  by (induction old) auto

lemma apply_rate_limiting_wait:
  assumes "apply_rate_limiting now a = Inr (wait, a')"
  shows "wait = 0 \<or> (\<exists>oldest rest. request_timestamps a' = oldest # rest \<and>
           wait = oldest + minute - now)"
  using assms
  by (auto simp: apply_rate_limiting_def Let_def split: if_splits list.splits)

section \<open>Properties\<close>

text \<open>
  C1. Of any sixteen consecutive dispatches of a run that starts from a fresh analyzer,
  the last is at least a minute after the first: the limiter never lets more than
  \<open>rate_limit = 15\<close> calls through in less than a minute, whatever the timing of the
  calls, as long as the clock does not run backwards and sleeping does not end early.
\<close>

theorem dispatch_spacing:
  assumes "reachable w" and "i + 15 < length (dispatched w)"
  shows "dispatched w ! i + minute \<le> dispatched w ! (i + 15)"
proof -
  from reachable_spaced [OF assms(1)] have "spaced 15 minute (dispatched w)" ..
  from spacedD [OF this assms(2)] show ?thesis .
qed

theorem dispatch_spacing_witness:
  "reachable \<lparr>lim = \<lparr>rate_limit = 15, request_timestamps = replicate 14 0 @ [60000000]\<rparr>,
          clock = 60000000, dispatched = replicate 15 0 @ [60000000]\<rparr> \<and>
   (replicate 15 0 @ [60000000 :: int]) ! 0 + minute \<le> (replicate 15 0 @ [60000000]) ! 15"
  using dispatch_spacing [OF burst_reachable, of 0] burst_reachable by simp

text \<open>
  C4. In every reachable world, any half-open window of one minute holds at most 15
  dispatches: the quota of the spec, for windows \<open>[t, t + minute)\<close>.
\<close>

theorem window_quota:
  assumes "reachable w"
  shows "count_in_window t minute (dispatched w) \<le> 15"
  using reachable_spaced [OF assms] by (simp add: window_bound)

theorem window_quota_witness:
  "reachable \<lparr>lim = \<lparr>rate_limit = 15, request_timestamps = replicate 14 0 @ [60000000]\<rparr>,
          clock = 60000000, dispatched = replicate 15 0 @ [60000000]\<rparr> \<and>
   count_in_window 0 minute (replicate 15 0 @ [60000000]) \<le> 15"
  using window_quota [OF burst_reachable, of 0] burst_reachable by simp


text \<open>
  Every step of the world keeps the invariant and the quota: the deque stays the tail
  of the log, bounded by \<open>rate_limit\<close>, the log stays sorted, in the past and spaced.
\<close>

theorem limiter_inv_preserved:
  assumes "limiter_inv w" and "step w w'"
  shows "limiter_inv w' \<and> rate_limit (lim w') = rate_limit (lim w)"
  using assms by (simp add: limiter_inv_step step_rate_limit)

theorem limiter_inv_preserved_witness:
  "limiter_inv (init_world 0) \<and> step (init_world 0) ((init_world 0)\<lparr>clock := 5\<rparr>) \<and>
   limiter_inv ((init_world 0)\<lparr>clock := 5\<rparr>) \<and>
   rate_limit (lim ((init_world 0)\<lparr>clock := 5\<rparr>)) = rate_limit (lim (init_world 0))"
proof -
  have s: "step (init_world 0) ((init_world 0)\<lparr>clock := 5\<rparr>)"
    by (rule step.tick) (simp add: init_world_def)
  from limiter_inv_preserved [OF limiter_inv_init s] s limiter_inv_init show ?thesis by simp
qed

text \<open>
  C24. Any finite schedule of calls on a fresh analyzer runs to its end: the limiter never
  raises (the \<open>IndexError\<close> of \<open>ts[0]\<close> is unreachable), every call is dispatched and
  logged, and the final world is a reachable one.
\<close>

theorem calls_never_raise:
  "\<exists>w. run_calls cs (init_world t0) = Inr w \<and> reachable w \<and> length (dispatched w) = length cs"
proof -
  from run_calls_ok [OF limiter_inv_init] obtain w where r: "run_calls cs (init_world t0) = Inr w"
    by (auto simp: is_ok_iff)
  from run_calls_reachable [OF r reachable.start] run_calls_length [OF r] r show ?thesis
    by (simp add: init_world_def)
qed

text \<open>
  The time slept is exactly what the oldest retained timestamp needs to become a
  minute old when the deque is full after the eviction, and zero otherwise.
\<close>

theorem wait_exact:
  assumes "apply_rate_limiting now a = Inr (wait, a')"
  shows "wait = (if request_timestamps a \<noteq> [] \<and> rate_limit a \<le> length (request_timestamps a')
                 then hd (request_timestamps a') + minute - now else 0)"
  using assms
  by (auto simp: apply_rate_limiting_def Let_def split: if_splits list.splits dest: evict_old_hd)

theorem wait_exact_witness:
  "apply_rate_limiting 30 \<lparr>rate_limit = 2, request_timestamps = [10, 20]\<rparr>
     = Inr (59999980, \<lparr>rate_limit = 2, request_timestamps = [10, 20]\<rparr>) \<and>
   (59999980 :: int) = hd [10, 20] + minute - 30"
  using wait_exact [of 30 "\<lparr>rate_limit = 2, request_timestamps = [10, 20]\<rparr>" 59999980
      "\<lparr>rate_limit = 2, request_timestamps = [10, 20]\<rparr>"]
  by (simp add: model_defs)

text \<open>
  The limiter never sleeps a negative time, and never more than a minute when the
  recorded timestamps are not in the future.
\<close>

theorem wait_bounds:
  assumes "apply_rate_limiting now a = Inr (wait, a')"
    and "list_all (\<lambda>t. t \<le> now) (request_timestamps a)"
  shows "0 \<le> wait \<and> wait \<le> minute"
proof -
  note facts = apply_rate_limiting_Inr [OF assms(1)]
  from apply_rate_limiting_wait [OF assms(1)] have "wait \<le> minute"
  proof
    assume "wait = 0"
    then show ?thesis by (simp add: minute_def)
  next
    assume "\<exists>oldest rest. request_timestamps a' = oldest # rest \<and> wait = oldest + minute - now"
    then obtain oldest rest where ts': "request_timestamps a' = oldest # rest"
      and w: "wait = oldest + minute - now" by blast
    from ts' facts(2) have "oldest \<in> set (request_timestamps a)"
      by (metis list.set_intros(1) set_dropWhileD)
    with assms(2) w show ?thesis by (simp add: list_all_iff)
  qed
  with facts(3) show ?thesis by simp
qed

theorem wait_bounds_witness:
  "apply_rate_limiting 30 \<lparr>rate_limit = 2, request_timestamps = [10, 20]\<rparr>
     = Inr (59999980, \<lparr>rate_limit = 2, request_timestamps = [10, 20]\<rparr>) \<and>
   list_all (\<lambda>t. t \<le> 30) [10, 20 :: int] \<and> (0 :: int) \<le> 59999980 \<and> 59999980 \<le> minute"
  using wait_bounds [of 30 "\<lparr>rate_limit = 2, request_timestamps = [10, 20]\<rparr>" 59999980
      "\<lparr>rate_limit = 2, request_timestamps = [10, 20]\<rparr>"]
  by (simp add: model_defs)

text \<open>
  The eviction loop removes exactly the longest prefix of entries older than the
  limit: what it returns is the rest of the deque, and that rest is empty or starts with
  an entry that is not older than the limit.
\<close>

theorem evict_old_spec:
  "evict_old limit ts = ts' \<longleftrightarrow>
     (\<exists>old. ts = old @ ts' \<and> list_all (\<lambda>t. t < limit) old \<and>
            (case ts' of [] \<Rightarrow> True | t # _ \<Rightarrow> limit \<le> t))"
proof
  assume e: "evict_old limit ts = ts'"
  have "ts = takeWhile (\<lambda>t. t < limit) ts @ ts'"
    unfolding e [symmetric] evict_old_eq by simp
  moreover have "case ts' of [] \<Rightarrow> True | t # _ \<Rightarrow> limit \<le> t"
    using evict_old_hd [of limit ts] e by (cases ts') auto
  ultimately show "\<exists>old. ts = old @ ts' \<and> list_all (\<lambda>t. t < limit) old \<and>
            (case ts' of [] \<Rightarrow> True | t # _ \<Rightarrow> limit \<le> t)"
    by (intro exI [of _ "takeWhile (\<lambda>t. t < limit) ts"])
      (auto simp: list_all_iff dest: set_takeWhileD)
next
  assume "\<exists>old. ts = old @ ts' \<and> list_all (\<lambda>t. t < limit) old \<and>
            (case ts' of [] \<Rightarrow> True | t # _ \<Rightarrow> limit \<le> t)"
  then obtain old where "ts = old @ ts'" "\<forall>t\<in>set old. t < limit"
    and hd: "case ts' of [] \<Rightarrow> True | t # _ \<Rightarrow> limit \<le> t"
    by (auto simp: list_all_iff)
  then have "evict_old limit ts = evict_old limit ts'" by (simp add: evict_old_append)
  also from hd have "\<dots> = ts'" by (cases ts') auto
  finally show "evict_old limit ts = ts'" .
qed

text \<open>
  Appending to the deque keeps its bound: after \<open>record_request\<close> the deque holds the
  new timestamp last and at most \<open>rate_limit\<close> entries, the newest of the old ones.
\<close>

theorem record_request_bounded:
  "length (request_timestamps (record_request t a)) = min (rate_limit a) (Suc (length (request_timestamps a)))
   \<and> suffix (request_timestamps (record_request t a)) (request_timestamps a @ [t])
   \<and> rate_limit (record_request t a) = rate_limit a"
  using deque_append_suffix [of "rate_limit a" "request_timestamps a" t]
  by (simp add: record_request_def)

end
