(* ===== verification/Youtube_Api.thy ===== *)
theory Youtube_Api
  imports Py_String
begin

text \<open>
  The YouTube Data API as \<open>src/youtube_extractor.py\<close> sees it: the shape of the four
  responses the extractor reads, the requests it sends, and the service as a record of
  four functions from a request to a response or an exception. A response is a JSON
  dictionary in the source; here it is a record whose fields are the keys the code reads,
  \<open>None\<close> for a key that is missing (the code's \<open>KeyError\<close>, \<open>in\<close> test or
  \<open>.get\<close> default). Keys that are present are taken to have the type the API documents.
\<close>

section \<open>Responses\<close>

text \<open>The \<open>snippet\<close> of a comment or of a reply.\<close>

record comment_snippet =
  textDisplay :: "string option"
  authorDisplayName :: "string option"
  likeCount :: "int option"
  publishedAt :: "string option"

text \<open>
  One item of \<open>commentThreads().list\<close>. \<open>topLevelComment\<close> is
  \<open>item['snippet']['topLevelComment']['snippet']\<close>, \<open>None\<close> when any of the three
  keys is missing; \<open>totalReplyCount\<close> is \<open>item['snippet'].get('totalReplyCount')\<close>;
  \<open>thread_id\<close> is \<open>item['id']\<close>.
\<close>

record thread_item =
  thread_id :: "string option"
  topLevelComment :: "comment_snippet option"
  totalReplyCount :: "int option"

record threads_page =
  thread_items :: "thread_item list option"
  nextPageToken :: "string option"

text \<open>One item of \<open>comments().list\<close>: \<open>reply['snippet']\<close>.\<close>

record reply_item =
  reply_snippet :: "comment_snippet option"

record replies_page =
  reply_items :: "reply_item list option"

text \<open>\<open>videos().list\<close>: the statistics and the snippet of a video.\<close>

record video_statistics =
  commentCount :: "string option"
  viewCount :: "string option"
  videoLikeCount :: "string option"

record video_snippet =
  videoTitle :: "string option"
  channelTitle :: "string option"
  videoPublishedAt :: "string option"
  channelId :: "string option"

record video_item =
  statistics :: "video_statistics option"
  snippet :: "video_snippet option"

record videos_response =
  video_items :: "video_item list option"

text \<open>
  One item of \<open>search().list\<close>. \<open>id_kind\<close> is \<open>item['id']['kind']\<close> and
  \<open>id_videoId\<close> is \<open>item['id']['videoId']\<close>, \<open>None\<close> when the access raises
  \<open>KeyError\<close> or \<open>TypeError\<close>.
\<close>

record search_snippet =
  resultChannelTitle :: "string option"
  resultDescription :: "string option"
  resultPublishedAt :: "string option"

record search_item =
  id_kind :: "string option"
  id_videoId :: "string option"
  result_snippet :: "search_snippet option"

record search_response =
  search_items :: "search_item list option"

section \<open>Requests\<close>

text \<open>
  The parameters of \<open>commentThreads().list\<close> that vary. \<open>extended\<close> says whether
  \<open>order='time'\<close> and \<open>moderationStatus='published'\<close> are sent (the first attempt) or
  not (the retry).
\<close>

record threads_request =
  videoId :: string
  maxResults :: int
  pageToken :: "string option"
  extended :: bool

text \<open>Every call the extractor makes, with its parameters: the entries of the call log.\<close>

datatype api_call =
    VideosList string string
  | ThreadsList threads_request
  | CommentsList string int
  | SearchList string int string

definition is_ThreadsList :: "api_call \<Rightarrow> bool" where
  "is_ThreadsList c = (case c of ThreadsList _ \<Rightarrow> True | _ \<Rightarrow> False)"

text \<open>The first attempt at a page of threads, as opposed to its retry.\<close>

definition is_first_attempt :: "api_call \<Rightarrow> bool" where
  "is_first_attempt c = (case c of ThreadsList req \<Rightarrow> extended req | _ \<Rightarrow> False)"

definition is_VideosList :: "api_call \<Rightarrow> bool" where
  "is_VideosList c = (case c of VideosList _ _ \<Rightarrow> True | _ \<Rightarrow> False)"

definition is_SearchList :: "api_call \<Rightarrow> bool" where
  "is_SearchList c = (case c of SearchList _ _ _ \<Rightarrow> True | _ \<Rightarrow> False)"

section \<open>The service\<close>

text \<open>
  \<open>self.youtube\<close>: each endpoint with \<open>.execute()\<close> applied, as a function of the
  request. \<open>videos_list part id\<close>, \<open>comments_list parentId maxResults\<close>,
  \<open>search_list channelId maxResults videoId\<close>.
\<close>

record youtube =
  videos_list :: "string \<Rightarrow> string \<Rightarrow> videos_response result"
  commentThreads_list :: "threads_request \<Rightarrow> threads_page result"
  comments_list :: "string \<Rightarrow> int \<Rightarrow> replies_page result"
  search_list :: "string \<Rightarrow> int \<Rightarrow> string \<Rightarrow> search_response result"

text \<open>
  A service that honours \<open>maxResults\<close>: a page of threads and a page of search
  results never hold more items than were asked for.
\<close>

definition honours_maxResults :: "youtube \<Rightarrow> bool" where
  "honours_maxResults api \<longleftrightarrow>
     (\<forall>req page. commentThreads_list api req = Inr page
        \<longrightarrow> int (length (case thread_items page of None \<Rightarrow> [] | Some items \<Rightarrow> items))
              \<le> max 0 (maxResults req)) \<and>
     (\<forall>c n v page. search_list api c n v = Inr page
        \<longrightarrow> int (length (case search_items page of None \<Rightarrow> [] | Some items \<Rightarrow> items))
              \<le> max 0 n)"

text \<open>
  A service that returns the parts it is asked for and no others: the answer to a request
  for \<open>statistics\<close> has no \<open>snippet\<close>.
\<close>

definition statistics_only :: "youtube \<Rightarrow> bool" where
  "statistics_only api \<longleftrightarrow>
     (\<forall>vid video_info. videos_list api ''statistics'' vid = Inr video_info
        \<longrightarrow> list_all (\<lambda>item. snippet item = None)
              (case video_items video_info of None \<Rightarrow> [] | Some items \<Rightarrow> items))"

lemma is_ThreadsList_simps [simp]:
  "is_ThreadsList (ThreadsList r)" "\<not> is_ThreadsList (VideosList p v)"
  "\<not> is_ThreadsList (CommentsList i n)" "\<not> is_ThreadsList (SearchList c n v)"
  by (simp_all add: is_ThreadsList_def)

lemma is_first_attempt_simps [simp]:
  "is_first_attempt (ThreadsList r) = extended r" "\<not> is_first_attempt (VideosList p v)"
  "\<not> is_first_attempt (CommentsList i n)" "\<not> is_first_attempt (SearchList c n v)"
  by (simp_all add: is_first_attempt_def)

lemma is_SearchList_simps [simp]:
  "is_SearchList (SearchList c n v)" "\<not> is_SearchList (VideosList p v)"
  "\<not> is_SearchList (CommentsList i n)" "\<not> is_SearchList (ThreadsList r)"
  by (simp_all add: is_SearchList_def)

lemma is_VideosList_simps [simp]:
  "is_VideosList (VideosList p v)" "\<not> is_VideosList (ThreadsList r)"
  "\<not> is_VideosList (CommentsList i n)" "\<not> is_VideosList (SearchList c n v)"
  by (simp_all add: is_VideosList_def)

end
