(* ===== verification/Comment_Extractor.thy ===== *)
theory Comment_Extractor
  imports Video_Id Youtube_Api
begin

text \<open>
  \<open>YouTubeCommentExtractor.get_comments\<close> and \<open>get_video_details\<close>
  (\<open>src/youtube_extractor.py\<close>): the comment rows, the extraction report, the
  availability check, the paging loop with its retry, the per-thread and per-reply
  processing, the alternative method and the final report. The state of one extraction
  is threaded through the operations; an operation that can raise returns the exception
  together with the state at the time of the raise.
\<close>

section \<open>Data\<close>

text \<open>The values of the \<open>type\<close> key of a comment row.\<close>

datatype comment_type = principal | resposta | alternativo

text \<open>
  A row of the result: the dictionary appended to \<open>comments\<close>. \<open>parent_author\<close> is
  present in the rows of replies only.
\<close>

record comment =
  author :: string
  content :: string
  likes :: int
  published_at :: string
  kind :: comment_type
  parent_author :: "string option"

text \<open>
  The messages appended to \<open>extraction_info["reasons"]\<close>, one constructor per message of
  the source, in the order of their first appearance.
\<close>

datatype reason =
    NoComments
  | OnlyAvailable int
  | OnlyReplies
  | OnlyMain
  | NoneSelected
  | EmptyPage
  | PageLimit
  | MaybeFiltered
  | TryingAlternative
  | AlternativeFailed string
  | NotAllExtracted
  | ApiLimitations
  | ApiError string

record extraction_info =
  requested :: int
  extracted :: int
  available :: int
  reasons :: "reason list"

text \<open>
  The local variables of \<open>get_comments\<close>, and the log of the calls made so far.
  \<open>total_available\<close> is always equal to \<open>extraction_info["available"]\<close> and has no
  field of its own.
\<close>

record xstate =
  comments :: "comment list"
  info :: extraction_info
  next_page_token :: "string option"
  empty_response :: bool
  calls :: "api_call list"

type_synonym 'a outcome = "(exn \<times> xstate) + 'a"

section \<open>Operations\<close>

definition add_reason :: "reason \<Rightarrow> xstate \<Rightarrow> xstate" where
  "add_reason r st = st\<lparr>info := (info st)\<lparr>reasons := reasons (info st) @ [r]\<rparr>\<rparr>"

definition log_call :: "api_call \<Rightarrow> xstate \<Rightarrow> xstate" where
  "log_call c st = st\<lparr>calls := calls st @ [c]\<rparr>"

definition append_comment :: "comment \<Rightarrow> xstate \<Rightarrow> xstate" where
  "append_comment c st = st\<lparr>comments := comments st @ [c]\<rparr>"

text \<open>\<open>len(comments)\<close>, as a Python integer.\<close>

definition n_comments :: "xstate \<Rightarrow> int" where
  "n_comments st = int (length (comments st))"

text \<open>The default author \<open>'An\^onimo'\<close>, in UTF-8.\<close>

definition anonimo :: string where
  "anonimo = ''An'' @ [CHR 0xC3, CHR 0xB4] @ ''nimo''"

text \<open>\<open>'textDisplay' in c and c['textDisplay'].strip()\<close>: the comment has content.\<close>

definition has_text :: "comment_snippet \<Rightarrow> bool" where
  "has_text c = (case textDisplay c of None \<Rightarrow> False | Some t \<Rightarrow> strip t \<noteq> [])"

definition main_comment :: "comment_snippet \<Rightarrow> comment" where
  "main_comment c =
     \<lparr>author = (case authorDisplayName c of None \<Rightarrow> anonimo | Some a \<Rightarrow> a),
      content = (case textDisplay c of None \<Rightarrow> [] | Some t \<Rightarrow> t),
      likes = (case likeCount c of None \<Rightarrow> 0 | Some n \<Rightarrow> n),
      published_at = (case publishedAt c of None \<Rightarrow> [] | Some p \<Rightarrow> p),
      kind = principal,
      parent_author = None\<rparr>"

definition reply_comment :: "comment_snippet \<Rightarrow> comment_snippet \<Rightarrow> comment" where
  "reply_comment parent c =
     \<lparr>author = (case authorDisplayName c of None \<Rightarrow> anonimo | Some a \<Rightarrow> a),
      content = (case textDisplay c of None \<Rightarrow> [] | Some t \<Rightarrow> t),
      likes = (case likeCount c of None \<Rightarrow> 0 | Some n \<Rightarrow> n),
      published_at = (case publishedAt c of None \<Rightarrow> [] | Some p \<Rightarrow> p),
      kind = resposta,
      parent_author = Some (case authorDisplayName parent of None \<Rightarrow> anonimo | Some a \<Rightarrow> a)\<rparr>"

text \<open>
  The loop over the replies of one thread. A reply without a snippet (\<open>KeyError\<close>) or
  without content is skipped; the loop breaks as soon as the budget is reached.
\<close>

fun add_replies :: "int \<Rightarrow> comment_snippet \<Rightarrow> reply_item list \<Rightarrow> xstate \<Rightarrow> xstate" where
  "add_replies max_comments parent [] st = st"
| "add_replies max_comments parent (reply # rest) st =
     (case reply_snippet reply of
        None \<Rightarrow> add_replies max_comments parent rest st
      | Some sn \<Rightarrow>
          if \<not> has_text sn then add_replies max_comments parent rest st
          else
            let st' = append_comment (reply_comment parent sn) st
            in if max_comments \<le> n_comments st' then st'
               else add_replies max_comments parent rest st')"

text \<open>
  The request for the replies of one thread and the loop over them: the inner \<open>try\<close>
  of the loop body. \<open>item['id']\<close> is read before the call, so a thread without an
  identifier makes no call. An \<open>HttpError\<close> of the call is caught here and a
  \<open>KeyError\<close> by the enclosing \<open>try\<close>: both go on with the next thread. Any other
  exception leaves the loop.
\<close>

definition fetch_replies ::
    "youtube \<Rightarrow> int \<Rightarrow> comment_snippet \<Rightarrow> thread_item \<Rightarrow> xstate \<Rightarrow> xstate outcome" where
  "fetch_replies api max_comments parent item st =
     (case thread_id item of
        None \<Rightarrow> Inr st
      | Some parent_id \<Rightarrow>
          let n = min 100 (max_comments - n_comments st);
              st1 = log_call (CommentsList parent_id n) st
          in (case comments_list api parent_id n of
                Inl e \<Rightarrow> if is_HttpError e \<or> is_KeyError e then Inr st1 else Inl (e, st1)
              | Inr replies \<Rightarrow>
                  (case reply_items replies of
                     None \<Rightarrow> Inr st1
                   | Some rs \<Rightarrow> Inr (add_replies max_comments parent rs st1))))"

text \<open>
  The body of the loop over the threads of a page, for one thread. A thread without a
  top-level comment (\<open>KeyError\<close>) is skipped, and so is one whose comment has no
  content when main comments are extracted.
\<close>

definition process_thread ::
    "youtube \<Rightarrow> int \<Rightarrow> bool \<Rightarrow> bool \<Rightarrow> thread_item \<Rightarrow> xstate \<Rightarrow> xstate outcome" where
  "process_thread api max_comments extract_main extract_replies item st =
     (case topLevelComment item of
        None \<Rightarrow> Inr st
      | Some c \<Rightarrow>
          if extract_main \<and> \<not> has_text c then Inr st
          else
            let st1 = (if extract_main then append_comment (main_comment c) st else st)
            in if extract_replies
                  \<and> 0 < (case totalReplyCount item of None \<Rightarrow> 0 | Some n \<Rightarrow> n)
                  \<and> n_comments st1 < max_comments
               then fetch_replies api max_comments c item st1
               else Inr st1)"

text \<open>\<open>for item in response['items']\<close>.\<close>

fun process_items ::
    "youtube \<Rightarrow> int \<Rightarrow> bool \<Rightarrow> bool \<Rightarrow> thread_item list \<Rightarrow> xstate \<Rightarrow> xstate outcome" where
  "process_items api max_comments extract_main extract_replies [] st = Inr st"
| "process_items api max_comments extract_main extract_replies (item # items) st =
     (case process_thread api max_comments extract_main extract_replies item st of
        Inl x \<Rightarrow> Inl x
      | Inr st' \<Rightarrow> process_items api max_comments extract_main extract_replies items st')"

text \<open>
  The request for one page. When the first attempt raises an \<open>HttpError\<close> whose text
  mentions \<open>moderationStatus\<close>, the request is sent once more without the two extra
  parameters; any other exception, and any exception of the second attempt, leaves the
  loop.
\<close>

definition fetch_page :: "youtube \<Rightarrow> string \<Rightarrow> int \<Rightarrow> xstate \<Rightarrow> (threads_page \<times> xstate) outcome" where
  "fetch_page api video_id max_comments st =
     (let req = \<lparr>videoId = video_id, maxResults = min 100 (max_comments - n_comments st),
                 pageToken = next_page_token st, extended = True\<rparr>;
          st1 = log_call (ThreadsList req) st
      in case commentThreads_list api req of
           Inr response \<Rightarrow> Inr (response, st1)
         | Inl e \<Rightarrow>
             if is_HttpError e \<and> contains ''moderationStatus'' (message e)
             then
               let req' = req\<lparr>extended := False\<rparr>;
                   st2 = log_call (ThreadsList req') st1
               in (case commentThreads_list api req' of
                     Inr response \<Rightarrow> Inr (response, st2)
                   | Inl e' \<Rightarrow> Inl (e', st2))
             else Inl (e, st1))"

text \<open>\<open>not next_page_token\<close>: no token, or the empty string.\<close>

definition no_token :: "string option \<Rightarrow> bool" where
  "no_token t = (case t of None \<Rightarrow> True | Some s \<Rightarrow> s = [])"

text \<open>\<open>response['items']\<close>, empty when the key is missing.\<close>

definition page_items :: "threads_page \<Rightarrow> thread_item list" where
  "page_items response = (case thread_items response of None \<Rightarrow> [] | Some items \<Rightarrow> items)"

text \<open>
  The \<open>while\<close> loop. \<open>page_count\<close> is the number of pages requested before this
  iteration; the loop ends after the tenth.
\<close>

function paging_loop ::
    "youtube \<Rightarrow> string \<Rightarrow> int \<Rightarrow> bool \<Rightarrow> bool \<Rightarrow> nat \<Rightarrow> xstate \<Rightarrow> xstate outcome" where
  "paging_loop api video_id max_comments extract_main extract_replies page_count st =
     (if \<not> n_comments st < max_comments then Inr st
      else
        case fetch_page api video_id max_comments st of
          Inl x \<Rightarrow> Inl x
        | Inr (response, st1) \<Rightarrow>
            if page_items response = []
            then Inr (add_reason EmptyPage (st1\<lparr>empty_response := True\<rparr>))
            else
              (case process_items api max_comments extract_main extract_replies
                      (page_items response) st1 of
                 Inl x \<Rightarrow> Inl x
               | Inr st2 \<Rightarrow>
                   let st3 = st2\<lparr>next_page_token := nextPageToken response\<rparr>
                   in if no_token (next_page_token st3) \<or> max_comments \<le> n_comments st3
                      then Inr st3
                      else if 10 \<le> Suc page_count then Inr (add_reason PageLimit st3)
                      else paging_loop api video_id max_comments extract_main extract_replies
                             (Suc page_count) st3))"
  by pat_completeness auto
termination
  by (relation "measure (\<lambda>(api, video_id, max_comments, extract_main, extract_replies,
        page_count, st). 10 - page_count)") auto

text \<open>
  The availability check at the start of \<open>get_comments\<close>: the video's statistics are
  requested and \<open>available\<close> is set from \<open>commentCount\<close>. The flag of the result says
  whether \<open>get_comments\<close> returns at once (the video has no comments).
\<close>

definition check_availability ::
    "youtube \<Rightarrow> string \<Rightarrow> int \<Rightarrow> xstate \<Rightarrow> (bool \<times> videos_response \<times> xstate) outcome" where
  "check_availability api video_id max_comments st =
     (let st1 = log_call (VideosList ''statistics'' video_id) st
      in case videos_list api ''statistics'' video_id of
           Inl e \<Rightarrow> Inl (e, st1)
         | Inr video_info \<Rightarrow>
             (case video_items video_info of
                None \<Rightarrow> Inl (KeyError ''items'', st1)
              | Some [] \<Rightarrow> Inr (False, video_info, st1)
              | Some (item # _) \<Rightarrow>
                  (case statistics item of
                     None \<Rightarrow> Inl (KeyError ''statistics'', st1)
                   | Some stats \<Rightarrow>
                       (case commentCount stats of
                          None \<Rightarrow> Inr (False, video_info, st1)
                        | Some count \<Rightarrow>
                            (case py_int count of
                               Inl e \<Rightarrow> Inl (e, st1)
                             | Inr total_available \<Rightarrow>
                                 let st2 = st1\<lparr>info := (info st1)\<lparr>available := total_available\<rparr>\<rparr>
                                 in if total_available = 0
                                    then Inr (True, video_info, add_reason NoComments st2)
                                    else if total_available < max_comments
                                    then Inr (False, video_info,
                                           add_reason (OnlyAvailable total_available) st2)
                                    else Inr (False, video_info, st2))))))"

text \<open>The note about the comment type filter.\<close>

definition note_filter :: "bool \<Rightarrow> bool \<Rightarrow> xstate \<Rightarrow> xstate" where
  "note_filter extract_main extract_replies st =
     (if \<not> extract_main \<and> extract_replies then add_reason OnlyReplies st
      else if extract_main \<and> \<not> extract_replies then add_reason OnlyMain st
      else st)"

text \<open>The row made of a search result; the search has no like count.\<close>

definition search_comment :: "search_snippet \<Rightarrow> comment" where
  "search_comment sn =
     \<lparr>author = (case resultChannelTitle sn of None \<Rightarrow> anonimo | Some a \<Rightarrow> a),
      content = (case resultDescription sn of None \<Rightarrow> [] | Some d \<Rightarrow> d),
      likes = 0,
      published_at = (case resultPublishedAt sn of None \<Rightarrow> [] | Some p \<Rightarrow> p),
      kind = alternativo,
      parent_author = None\<rparr>"

text \<open>
  The loop over the results of the search, with the set of identifiers seen so far. An
  item whose \<open>id\<close> cannot be read is skipped; an item without a snippet is skipped
  after its identifier has been added to the set.
\<close>

fun add_search_items :: "search_item list \<Rightarrow> string list \<Rightarrow> xstate \<Rightarrow> xstate" where
  "add_search_items [] comment_ids st = st"
| "add_search_items (item # rest) comment_ids st =
     (case id_kind item of
        None \<Rightarrow> add_search_items rest comment_ids st
      | Some k \<Rightarrow>
          if k \<noteq> ''youtube#comment'' then add_search_items rest comment_ids st
          else
            (case id_videoId item of
               None \<Rightarrow> add_search_items rest comment_ids st
             | Some comment_id \<Rightarrow>
                 if comment_id \<in> set comment_ids then add_search_items rest comment_ids st
                 else
                   (case result_snippet item of
                      None \<Rightarrow> add_search_items rest (comment_id # comment_ids) st
                    | Some sn \<Rightarrow>
                        add_search_items rest (comment_id # comment_ids)
                          (append_comment (search_comment sn) st))))"

text \<open>
  \<open>video_info['items'][0]['snippet']['channelId']\<close>, the argument of the search that
  is evaluated before the call.
\<close>

definition channel_of :: "videos_response \<Rightarrow> string result" where
  "channel_of video_info =
     (case video_items video_info of
        None \<Rightarrow> raise (KeyError ''items'')
      | Some [] \<Rightarrow> raise IndexError
      | Some (item # _) \<Rightarrow>
          (case snippet item of
             None \<Rightarrow> raise (KeyError ''snippet'')
           | Some sn \<Rightarrow>
               (case channelId sn of
                  None \<Rightarrow> raise (KeyError ''channelId'')
                | Some c \<Rightarrow> return c)))"

text \<open>
  The alternative method: the body of the inner \<open>try\<close> with its \<open>except Exception\<close>,
  which turns every exception into a reason.
\<close>

definition alternative_method ::
    "youtube \<Rightarrow> string \<Rightarrow> int \<Rightarrow> videos_response \<Rightarrow> xstate \<Rightarrow> xstate" where
  "alternative_method api video_id max_comments video_info st =
     (let comment_ids = (if comments st = [] then [] else [[]])
      in case channel_of video_info of
           Inl e \<Rightarrow> add_reason (AlternativeFailed (message e)) st
         | Inr channel \<Rightarrow>
             let n = min 50 (max_comments - n_comments st);
                 st1 = log_call (SearchList channel n video_id) st
             in (case search_list api channel n video_id of
                   Inl e \<Rightarrow> add_reason (AlternativeFailed (message e)) st1
                 | Inr search_response \<Rightarrow>
                     (case search_items search_response of
                        None \<Rightarrow> st1
                      | Some items \<Rightarrow> add_search_items items comment_ids st1)))"

text \<open>What follows the loop: the report, the alternative method, the last two reasons.\<close>

definition finish :: "youtube \<Rightarrow> string \<Rightarrow> int \<Rightarrow> videos_response \<Rightarrow> xstate \<Rightarrow> xstate" where
  "finish api video_id max_comments video_info st =
     (let total_available = available (info st);
          st1 = st\<lparr>info := (info st)\<lparr>extracted := n_comments st\<rparr>\<rparr>;
          st2 = (if n_comments st1 < max_comments \<and> \<not> empty_response st1
                    \<and> n_comments st1 < total_available
                 then add_reason MaybeFiltered st1 else st1);
          st3 = (if n_comments st2 < min max_comments total_available
                    \<and> n_comments st2 < total_available
                 then alternative_method api video_id max_comments video_info
                        (add_reason TryingAlternative st2)
                 else st2);
          st4 = st3\<lparr>info := (info st3)\<lparr>extracted := n_comments st3\<rparr>\<rparr>
      in if n_comments st4 < min max_comments total_available
         then add_reason ApiLimitations (add_reason NotAllExtracted st4)
         else st4)"

text \<open>The state at the start of \<open>get_comments\<close>.\<close>

definition init_state :: "int \<Rightarrow> xstate" where
  "init_state max_comments =
     \<lparr>comments = [],
      info = \<lparr>requested = max_comments, extracted = 0, available = 0, reasons = []\<rparr>,
      next_page_token = None, empty_response = False, calls = []\<rparr>"

text \<open>The body of the outer \<open>try\<close>.\<close>

definition extraction ::
    "youtube \<Rightarrow> string \<Rightarrow> int \<Rightarrow> bool \<Rightarrow> bool \<Rightarrow> xstate \<Rightarrow> xstate outcome" where
  "extraction api video_id max_comments extract_main extract_replies st =
     (case check_availability api video_id max_comments st of
        Inl x \<Rightarrow> Inl x
      | Inr (done, video_info, st1) \<Rightarrow>
          if done then Inr st1
          else
            let st2 = note_filter extract_main extract_replies st1
            in if \<not> extract_main \<and> \<not> extract_replies then Inr (add_reason NoneSelected st2)
               else
                 (case paging_loop api video_id max_comments extract_main extract_replies 0 st2 of
                    Inl x \<Rightarrow> Inl x
                  | Inr st3 \<Rightarrow> Inr (finish api video_id max_comments video_info st3)))"

text \<open>
  The message of the \<open>ValueError\<close> for a URL without a video identifier, in UTF-8, before
  the URL.
\<close>

definition no_id_message :: string where
  "no_id_message =
     ''N'' @ [CHR 0xC3, CHR 0xA3] @ ''o foi poss'' @ [CHR 0xC3, CHR 0xAD] @ ''vel extrair o ID do v''
       @ [CHR 0xC3, CHR 0xAD] @ ''deo da URL: ''"

text \<open>
  \<open>get_comments\<close>: the identifier is resolved first; an \<open>HttpError\<close> that leaves the
  body is recorded as a reason before it is raised again. The rows are what the
  \<open>DataFrame\<close> is built from.
\<close>

definition get_comments ::
    "youtube \<Rightarrow> string \<Rightarrow> int \<Rightarrow> bool \<Rightarrow> bool \<Rightarrow> xstate outcome" where
  "get_comments api video_url max_comments extract_main extract_replies =
     (case extract_video_id video_url of
        None \<Rightarrow> Inl (ValueError (no_id_message @ video_url), init_state max_comments)
      | Some video_id \<Rightarrow>
          (case extraction api video_id max_comments extract_main extract_replies
                  (init_state max_comments) of
             Inl (e, st) \<Rightarrow>
               if is_HttpError e then Inl (e, add_reason (ApiError (message e)) st)
               else Inl (e, st)
           | Inr st \<Rightarrow> Inr st))"

text \<open>What the caller receives: the rows and the report.\<close>

definition returned :: "xstate \<Rightarrow> comment list \<times> extraction_info" where
  "returned st = (comments st, info st)"

subsection \<open>\<open>get_video_details\<close>\<close>

text \<open>
  The dictionary of \<open>get_video_details\<close>. The three counters default to the integer 0 in
  the source and are strings otherwise; they are only displayed, so the default is the
  string \<open>0\<close> here.
\<close>

record video_details =
  title :: string
  channel :: string
  details_published_at :: string
  view_count :: string
  like_count :: string
  comment_count :: string

definition get_video_details :: "youtube \<Rightarrow> string \<Rightarrow> video_details option result" where
  "get_video_details api video_id =
     (case videos_list api ''snippet,statistics'' video_id of
        Inl e \<Rightarrow> if is_HttpError e then return None else raise e
      | Inr response \<Rightarrow>
          (case video_items response of
             None \<Rightarrow> raise (KeyError ''items'')
           | Some [] \<Rightarrow> return None
           | Some (video_info # _) \<Rightarrow>
               (case snippet video_info of
                  None \<Rightarrow> raise (KeyError ''snippet'')
                | Some sn \<Rightarrow>
                    (case statistics video_info of
                       None \<Rightarrow> raise (KeyError ''statistics'')
                     | Some stats \<Rightarrow>
                         (case videoTitle sn of
                            None \<Rightarrow> raise (KeyError ''title'')
                          | Some t \<Rightarrow>
                              (case channelTitle sn of
                                 None \<Rightarrow> raise (KeyError ''channelTitle'')
                               | Some c \<Rightarrow>
                                   (case videoPublishedAt sn of
                                      None \<Rightarrow> raise (KeyError ''publishedAt'')
                                    | Some p \<Rightarrow>
                                        return (Some
                                          \<lparr>title = t, channel = c, details_published_at = p,
                                           view_count =
                                             (case viewCount stats of None \<Rightarrow> ''0'' | Some v \<Rightarrow> v),
                                           like_count =
                                             (case videoLikeCount stats of
                                                None \<Rightarrow> ''0'' | Some v \<Rightarrow> v),
                                           comment_count =
                                             (case commentCount stats of
                                                None \<Rightarrow> ''0'' | Some v \<Rightarrow> v)\<rparr>))))))))"

section \<open>Reading the state\<close>

text \<open>
  What each of the three primitive updates does to every field, and the state an
  operation ends in, whether it returns or raises.
\<close>

declare paging_loop.simps [simp del]

lemma add_reason_simps [simp]:
  "comments (add_reason r st) = comments st"
  "calls (add_reason r st) = calls st"
  "next_page_token (add_reason r st) = next_page_token st"
  "empty_response (add_reason r st) = empty_response st"
  "reasons (info (add_reason r st)) = reasons (info st) @ [r]"
  "requested (info (add_reason r st)) = requested (info st)"
  "available (info (add_reason r st)) = available (info st)"
  "extracted (info (add_reason r st)) = extracted (info st)"
  "n_comments (add_reason r st) = n_comments st"
  by (simp_all add: add_reason_def n_comments_def)

lemma log_call_simps [simp]:
  "comments (log_call c st) = comments st"
  "calls (log_call c st) = calls st @ [c]"
  "next_page_token (log_call c st) = next_page_token st"
  "empty_response (log_call c st) = empty_response st"
  "info (log_call c st) = info st"
  "n_comments (log_call c st) = n_comments st"
  by (simp_all add: log_call_def n_comments_def)

lemma append_comment_simps [simp]:
  "comments (append_comment c st) = comments st @ [c]"
  "calls (append_comment c st) = calls st"
  "next_page_token (append_comment c st) = next_page_token st"
  "empty_response (append_comment c st) = empty_response st"
  "info (append_comment c st) = info st"
  "n_comments (append_comment c st) = n_comments st + 1"
  by (simp_all add: append_comment_def n_comments_def)

lemma n_comments_simps [simp]:
  "n_comments (st\<lparr>info := i\<rparr>) = n_comments st"
  "n_comments (st\<lparr>next_page_token := t\<rparr>) = n_comments st"
  "n_comments (st\<lparr>empty_response := b\<rparr>) = n_comments st"
  "0 \<le> n_comments st"
  by (simp_all add: n_comments_def)

lemma init_state_simps [simp]:
  "comments (init_state mx) = []" "calls (init_state mx) = []"
  "reasons (info (init_state mx)) = []" "requested (info (init_state mx)) = mx"
  "available (info (init_state mx)) = 0" "extracted (info (init_state mx)) = 0"
  "n_comments (init_state mx) = 0"
  by (simp_all add: init_state_def n_comments_def)

definition state_after :: "('a \<Rightarrow> xstate) \<Rightarrow> 'a outcome \<Rightarrow> xstate" where
  "state_after f r = (case r of Inl (e, st) \<Rightarrow> st | Inr x \<Rightarrow> f x)"

abbreviation state_of :: "xstate outcome \<Rightarrow> xstate" where
  "state_of \<equiv> state_after (\<lambda>st. st)"

lemma state_after_simps [simp]:
  "state_after f (Inl (e, st)) = st" "state_after f (Inr x) = f x"
  by (simp_all add: state_after_def)

lemma state_after_cases:
  obtains (error) e st where "r = Inl (e, st)" "state_after f r = st"
        | (ok) x where "r = Inr x" "state_after f r = f x"
  by (cases r) auto

end
