(* ===== verification/Extractor_Loops.thy ===== *)
theory Extractor_Loops
  imports Comment_Extractor
begin

text \<open>
  Reasoning rules for the loops of \<open>get_comments\<close>: a case rule for one iteration of
  the paging loop, induction over the pages that are left, and the rule that what every
  iteration preserves the loop preserves. On top of them the frame of an extraction:
  rows, calls and reasons are only ever appended, and \<open>requested\<close> and
  \<open>available\<close> are not touched once the availability check is over.
\<close>

section \<open>The frame of an extraction\<close>

text \<open>
  \<open>extends st st'\<close>: \<open>st'\<close> has the rows, the calls and the reasons of \<open>st\<close>
  and possibly more after them, and the same \<open>requested\<close> and \<open>available\<close>.
\<close>

definition extends :: "xstate \<Rightarrow> xstate \<Rightarrow> bool" where
  "extends st st' \<longleftrightarrow>
     prefix (comments st) (comments st') \<and> prefix (calls st) (calls st') \<and>
     prefix (reasons (info st)) (reasons (info st')) \<and>
     requested (info st') = requested (info st) \<and> available (info st') = available (info st)"

section \<open>Rules for the loops\<close>

text \<open>What every thread preserves, the loop over the threads preserves.\<close>

lemma process_items_preserves:
  assumes "P st"
    and "\<And>item s. P s \<Longrightarrow> P (state_of (process_thread api mx m r item s))"
  shows "P (state_of (process_items api mx m r items st))"
  using assms(1)
proof (induction items arbitrary: st)
  case Nil
  then show ?case by simp
next
  case (Cons item items)
  from assms(2) [OF Cons.prems, of item] Cons.IH show ?case
    by (cases "process_thread api mx m r item st" rule: state_after_cases [where f = "\<lambda>st. st"])
      simp_all
qed

text \<open>One iteration of \<open>paging_loop\<close>, by the way it ends.\<close>

lemma paging_loop_cases [case_names stop fetch_error empty items_error last limit continue]:
  fixes api vid mx m r pc st
  defines "loop \<equiv> paging_loop api vid mx m r"
  obtains "\<not> n_comments st < mx" "loop pc st = Inr st"
  | x where "n_comments st < mx" "fetch_page api vid mx st = Inl x" "loop pc st = Inl x"
  | response st1 where "n_comments st < mx" "fetch_page api vid mx st = Inr (response, st1)"
      "page_items response = []"
      "loop pc st = Inr (add_reason EmptyPage (st1\<lparr>empty_response := True\<rparr>))"
  | response st1 x where "n_comments st < mx" "fetch_page api vid mx st = Inr (response, st1)"
      "page_items response \<noteq> []"
      "process_items api mx m r (page_items response) st1 = Inl x" "loop pc st = Inl x"
  | response st1 st2 where "n_comments st < mx" "fetch_page api vid mx st = Inr (response, st1)"
      "page_items response \<noteq> []"
      "process_items api mx m r (page_items response) st1 = Inr st2"
      "no_token (nextPageToken response) \<or> mx \<le> n_comments st2"
      "loop pc st = Inr (st2\<lparr>next_page_token := nextPageToken response\<rparr>)"
  | response st1 st2 where "n_comments st < mx" "fetch_page api vid mx st = Inr (response, st1)"
      "page_items response \<noteq> []"
      "process_items api mx m r (page_items response) st1 = Inr st2"
      "\<not> no_token (nextPageToken response)" "n_comments st2 < mx" "10 \<le> Suc pc"
      "loop pc st = Inr (add_reason PageLimit (st2\<lparr>next_page_token := nextPageToken response\<rparr>))"
  | response st1 st2 where "n_comments st < mx" "fetch_page api vid mx st = Inr (response, st1)"
      "page_items response \<noteq> []"
      "process_items api mx m r (page_items response) st1 = Inr st2"
      "\<not> no_token (nextPageToken response)" "n_comments st2 < mx" "Suc pc < 10"
      "loop pc st = loop (Suc pc) (st2\<lparr>next_page_token := nextPageToken response\<rparr>)"
  unfolding loop_def
  by (cases "fetch_page api vid mx st";
      cases "process_items api mx m r (page_items (fst (projr (fetch_page api vid mx st))))
               (snd (projr (fetch_page api vid mx st)))")
    (auto simp: paging_loop.simps [of api vid mx m r pc st] Let_def not_le, blast, meson not_le)

text \<open>Induction over the pages that are left.\<close>

lemma paging_loop_induct [case_names page]:
  assumes "\<And>pc st. (\<And>st'. Suc pc < 10 \<Longrightarrow> Q (Suc pc) st') \<Longrightarrow> Q pc st"
  shows "Q pc st"
proof (induction "10 - pc" arbitrary: pc st rule: less_induct)
  case less
  show ?case by (rule assms) (rule less, simp)
qed

text \<open>What every step of an iteration preserves, the paging loop preserves.\<close>

lemma paging_loop_preserves:
  assumes "P st"
    and fetch: "\<And>s. P s \<Longrightarrow> P (state_after snd (fetch_page api vid mx s))"
    and items: "\<And>items s. P s \<Longrightarrow> P (state_of (process_items api mx m r items s))"
    and reason: "\<And>x s. P s \<Longrightarrow> P (add_reason x s)"
    and token: "\<And>t s. P s \<Longrightarrow> P (s\<lparr>next_page_token := t\<rparr>)"
    and empty: "\<And>b s. P s \<Longrightarrow> P (s\<lparr>empty_response := b\<rparr>)"
  shows "P (state_of (paging_loop api vid mx m r pc st))"
  using assms(1)
proof (induction pc st rule: paging_loop_induct)
  case (page pc st)
  note f = fetch [OF page.prems, simplified]
  show ?case
  proof (cases rule: paging_loop_cases [of st mx api vid m r pc])
    case stop
    with page.prems show ?thesis by simp
  next
    case (fetch_error x)
    with f show ?thesis by (cases x) simp
  next
    case (empty response st1)
    with f reason assms(6) show ?thesis by simp
  next
    case (items_error response st1 x)
    with f items [of st1 "page_items response"] show ?thesis by (cases x) simp
  next
    case (last response st1 st2)
    with f items [of st1 "page_items response"] token show ?thesis by simp
  next
    case (limit response st1 st2)
    with f items [of st1 "page_items response"] token reason show ?thesis by simp
  next
    case (continue response st1 st2)
    with f items [of st1 "page_items response"] token page.IH show ?thesis by simp
  qed
qed

section \<open>Every operation extends the state\<close>

lemma extends_refl [simp]: "extends st st"
  by (simp add: extends_def)

lemma extends_trans [trans]: "extends a b \<Longrightarrow> extends b c \<Longrightarrow> extends a c"
  by (auto simp: extends_def)

lemma extends_basic [simp]:
  "extends st st' \<Longrightarrow> extends st (add_reason r st')"
  "extends st st' \<Longrightarrow> extends st (log_call c st')"
  "extends st st' \<Longrightarrow> extends st (append_comment x st')"
  "extends st st' \<Longrightarrow> extends st (st'\<lparr>next_page_token := t\<rparr>)"
  "extends st st' \<Longrightarrow> extends st (st'\<lparr>empty_response := b\<rparr>)"
  "extends st st' \<Longrightarrow> extends st (st'\<lparr>info := (info st')\<lparr>extracted := n\<rparr>\<rparr>)"
  by (auto simp: extends_def)

lemma extends_add_replies [simp]:
  "extends st st' \<Longrightarrow> extends st (add_replies mx parent rs st')"
  by (induction rs arbitrary: st') (auto simp: Let_def split: option.splits)

lemma extends_fetch_replies [simp]:
  "extends st st' \<Longrightarrow> extends st (state_of (fetch_replies api mx parent item st'))"
  by (auto simp: fetch_replies_def Let_def split: option.splits sum.splits)

lemma extends_process_thread [simp]:
  "extends st st' \<Longrightarrow> extends st (state_of (process_thread api mx m r item st'))"
  by (auto simp: process_thread_def Let_def split: option.splits)

lemma extends_process_items [simp]:
  "extends st st' \<Longrightarrow> extends st (state_of (process_items api mx m r items st'))"
  by (rule process_items_preserves) simp_all

lemma extends_fetch_page [simp]:
  "extends st st' \<Longrightarrow> extends st (state_after snd (fetch_page api vid mx st'))"
  by (auto simp: fetch_page_def Let_def split: sum.splits)

lemma extends_paging_loop [simp]:
  "extends st st' \<Longrightarrow> extends st (state_of (paging_loop api vid mx m r pc st'))"
  by (rule paging_loop_preserves) simp_all

lemma extends_add_search_items [simp]:
  "extends st st' \<Longrightarrow> extends st (add_search_items items ids st')"
  by (induction items ids st' rule: add_search_items.induct) (simp_all split: option.splits)

lemma extends_alternative_method [simp]:
  "extends st st' \<Longrightarrow> extends st (alternative_method api vid mx video_info st')"
  by (simp add: alternative_method_def Let_def split: sum.splits option.splits)

lemma extends_finish [simp]: "extends st st' \<Longrightarrow> extends st (finish api vid mx video_info st')"
  by (simp add: finish_def Let_def)

lemma extends_note_filter [simp]: "extends st st' \<Longrightarrow> extends st (note_filter m r st')"
  by (simp add: note_filter_def)

text \<open>What an extension keeps.\<close>

lemma extendsD:
  assumes "extends st st'"
  shows "set (reasons (info st)) \<subseteq> set (reasons (info st'))"
    and "requested (info st') = requested (info st)"
    and "available (info st') = available (info st)"
    and "n_comments st \<le> n_comments st'"
  using assms by (auto simp: extends_def n_comments_def dest: set_mono_prefix prefix_length_le)

section \<open>The straight-line parts\<close>

text \<open>
  What the availability check leaves behind, and the three ways in which
  \<open>get_comments\<close> returns: at once because the video has no comments, at once
  because no type of comment is selected, or after the loop and the final report.
\<close>

lemma check_availability_Inl:
  "check_availability api vid mx st = Inl (e, st1) \<Longrightarrow>
     st1 = log_call (VideosList ''statistics'' vid) st"
  by (auto simp: check_availability_def Let_def split: sum.splits option.splits list.splits if_splits)

lemma check_availability_Inr:
  assumes "check_availability api vid mx st = Inr (d, video_info, st1)"
  shows "comments st1 = comments st"
    and "calls st1 = calls st @ [VideosList ''statistics'' vid]"
    and "requested (info st1) = requested (info st)"
    and "extracted (info st1) = extracted (info st)"
    and "next_page_token st1 = next_page_token st"
    and "empty_response st1 = empty_response st"
    and "n_comments st1 = n_comments st"
    and "videos_list api ''statistics'' vid = Inr video_info"
  using assms
  by (auto simp: check_availability_def Let_def
      split: sum.splits option.splits list.splits if_splits)

lemma check_availability_reasons:
  assumes "check_availability api vid mx st = Inr (d, video_info, st1)"
    and "available (info st) = 0"
  shows "reasons (info st1) = reasons (info st) @
           (if d then [NoComments]
            else if available (info st1) \<noteq> 0 \<and> available (info st1) < mx
            then [OnlyAvailable (available (info st1))] else [])"
    and "d \<Longrightarrow> available (info st1) = 0"
  using assms
  by (auto simp: check_availability_def Let_def
      split: sum.splits option.splits list.splits if_splits)

lemma note_filter_simps [simp]:
  "comments (note_filter m r st) = comments st"
  "calls (note_filter m r st) = calls st"
  "n_comments (note_filter m r st) = n_comments st"
  "next_page_token (note_filter m r st) = next_page_token st"
  "empty_response (note_filter m r st) = empty_response st"
  "requested (info (note_filter m r st)) = requested (info st)"
  "available (info (note_filter m r st)) = available (info st)"
  "extracted (info (note_filter m r st)) = extracted (info st)"
  "note_filter False False st = st" "note_filter True True st = st"
  by (simp_all add: note_filter_def)

lemma get_comments_InrE [consumes 1, case_names no_comments none_selected extracted]:
  assumes "get_comments api url mx m r = Inr st"
  obtains vid video_info where "extract_video_id url = Some vid"
      "check_availability api vid mx (init_state mx) = Inr (True, video_info, st)"
  | vid video_info st1 where "extract_video_id url = Some vid"
      "check_availability api vid mx (init_state mx) = Inr (False, video_info, st1)"
      "\<not> m" "\<not> r" "st = add_reason NoneSelected st1"
  | vid video_info st1 st3 where "extract_video_id url = Some vid"
      "check_availability api vid mx (init_state mx) = Inr (False, video_info, st1)"
      "m \<or> r" "paging_loop api vid mx m r 0 (note_filter m r st1) = Inr st3"
      "st = finish api vid mx video_info st3" "extends st1 st3" "extends st1 st"
proof -
  have "extends st1 st3 \<and> extends st1 (finish api vid mx video_info st3)"
    if "paging_loop api vid mx m r 0 (note_filter m r st1) = Inr st3" for vid video_info st1 st3
    using extends_paging_loop [of st1 "note_filter m r st1" api vid mx m r 0] that by simp
  with assms that show thesis
    by (auto simp: get_comments_def extraction_def Let_def
        split: option.splits sum.splits prod.splits if_splits)
qed

text \<open>The five ways in which the body of \<open>get_comments\<close> ends, and the three of the whole.\<close>

lemma extraction_cases [case_names check_error no_comments none_selected loop_error extracted]:
  fixes api vid mx m r st
  defines "result \<equiv> extraction api vid mx m r st"
  obtains e st1 where "check_availability api vid mx st = Inl (e, st1)" "result = Inl (e, st1)"
  | video_info st1 where "check_availability api vid mx st = Inr (True, video_info, st1)"
      "result = Inr st1"
  | video_info st1 where "check_availability api vid mx st = Inr (False, video_info, st1)"
      "\<not> m" "\<not> r" "result = Inr (add_reason NoneSelected st1)"
  | video_info st1 e st3 where "check_availability api vid mx st = Inr (False, video_info, st1)"
      "m \<or> r" "paging_loop api vid mx m r 0 (note_filter m r st1) = Inl (e, st3)"
      "result = Inl (e, st3)"
  | video_info st1 st3 where "check_availability api vid mx st = Inr (False, video_info, st1)"
      "m \<or> r" "paging_loop api vid mx m r 0 (note_filter m r st1) = Inr st3"
      "result = Inr (finish api vid mx video_info st3)"
  unfolding result_def extraction_def
  by (cases m; cases r; cases "check_availability api vid mx st";
      cases "paging_loop api vid mx m r 0
        (note_filter m r (snd (snd (projr (check_availability api vid mx st)))))")
    (auto simp: Let_def, blast+)

lemma get_comments_cases [case_names no_id raised returned]:
  fixes api url mx m r
  defines "result \<equiv> get_comments api url mx m r"
  obtains "extract_video_id url = None"
      "result = Inl (ValueError (no_id_message @ url), init_state mx)"
  | vid e st where "extract_video_id url = Some vid"
      "extraction api vid mx m r (init_state mx) = Inl (e, st)"
      "result = Inl (e, if is_HttpError e then add_reason (ApiError (message e)) st else st)"
  | vid st where "extract_video_id url = Some vid"
      "extraction api vid mx m r (init_state mx) = Inr st" "result = Inr st"
  unfolding result_def get_comments_def
  by (cases "extract_video_id url"; cases "extraction api (the (extract_video_id url)) mx m r (init_state mx)")
    auto

end
