(* ===== verification/Sample_Service.thy ===== *)
theory Sample_Service
  imports Youtube_Api
begin

text \<open>
  Small services on which the theorems about the extractor are applied. The first answers
  every request: a video with four comments according to its statistics, two threads
  with one reply each. The second refuses the request for threads that carries
  \<open>moderationStatus\<close> and answers the retry. The third does not report the number of
  comments, the one after it reports none, and so does the next, which unlike it returns the
  parts it is asked for. The fifth refuses like the second and then answers every retry with one
  thread and a token for the next page. The last two fail: one on every request for a video, the other, out of quota, on
  every request for threads. All of them
  honour \<open>maxResults\<close>.
\<close>

definition sample_snippet :: "string \<Rightarrow> string \<Rightarrow> comment_snippet" where
  "sample_snippet a t =
     \<lparr>textDisplay = Some t, authorDisplayName = Some a, likeCount = Some 1,
      publishedAt = Some ''2024-01-01T00:00:00Z''\<rparr>"

definition sample_thread :: "string \<Rightarrow> string \<Rightarrow> string \<Rightarrow> thread_item" where
  "sample_thread i a t =
     \<lparr>thread_id = Some i, topLevelComment = Some (sample_snippet a t), totalReplyCount = Some 1\<rparr>"

definition sample_videos :: "string \<Rightarrow> string \<Rightarrow> videos_response result" where
  "sample_videos part vid =
     return \<lparr>video_items = Some
       [\<lparr>statistics = Some \<lparr>commentCount = Some ''4'', viewCount = Some ''100'',
                             videoLikeCount = None\<rparr>,
         snippet = (if part = ''statistics'' then None
                    else Some \<lparr>videoTitle = Some ''A video'', channelTitle = Some ''A channel'',
                               videoPublishedAt = Some ''2024-01-01T00:00:00Z'',
                               channelId = Some ''UC1''\<rparr>)\<rparr>]\<rparr>"

definition sample_page :: "threads_request \<Rightarrow> threads_page" where
  "sample_page req =
     \<lparr>thread_items = Some (take (nat (maxResults req))
        [sample_thread ''t1'' ''ann'' ''first'', sample_thread ''t2'' ''bob'' ''second'']),
      nextPageToken = None\<rparr>"

definition sample_replies :: "string \<Rightarrow> int \<Rightarrow> replies_page result" where
  "sample_replies parent n =
     return \<lparr>reply_items = Some (take (nat n)
       [\<lparr>reply_snippet = Some (sample_snippet ''cy'' (''re '' @ parent))\<rparr>])\<rparr>"

definition sample_service :: youtube where
  "sample_service =
     \<lparr>videos_list = sample_videos,
      commentThreads_list = (\<lambda>req. return (sample_page req)),
      comments_list = sample_replies,
      search_list = (\<lambda>c n v. raise (HttpError ''bad request''))\<rparr>"

definition moderated_service :: youtube where
  "moderated_service =
     sample_service\<lparr>commentThreads_list :=
       (\<lambda>req. if extended req then raise (HttpError ''unknown parameter moderationStatus'')
              else return (sample_page req))\<rparr>"

definition uncounted_service :: youtube where
  "uncounted_service =
     sample_service\<lparr>videos_list :=
       (\<lambda>part vid. return \<lparr>video_items = Some
          [\<lparr>statistics = Some \<lparr>commentCount = None, viewCount = Some ''100'',
                                videoLikeCount = None\<rparr>,
            snippet = None\<rparr>]\<rparr>)\<rparr>"

definition commentless_service :: youtube where
  "commentless_service =
     sample_service\<lparr>videos_list :=
       (\<lambda>part vid. return \<lparr>video_items = Some
          [\<lparr>statistics = Some \<lparr>commentCount = Some ''0'', viewCount = Some ''100'',
                                videoLikeCount = None\<rparr>,
            snippet = None\<rparr>]\<rparr>)\<rparr>"

definition silent_service :: youtube where
  "silent_service =
     sample_service\<lparr>videos_list :=
       (\<lambda>part vid. return \<lparr>video_items = Some
          [\<lparr>statistics = Some \<lparr>commentCount = Some ''0'', viewCount = Some ''100'',
                                videoLikeCount = None\<rparr>,
            snippet = (if part = ''statistics'' then None
                       else Some \<lparr>videoTitle = Some ''A video'', channelTitle = Some ''A channel'',
                                  videoPublishedAt = Some ''2024-01-01T00:00:00Z'',
                                  channelId = Some ''UC1''\<rparr>)\<rparr>]\<rparr>)\<rparr>"

definition endless_service :: youtube where
  "endless_service =
     moderated_service\<lparr>commentThreads_list :=
       (\<lambda>req. if extended req then raise (HttpError ''unknown parameter moderationStatus'')
              else return \<lparr>thread_items = Some (take (nat (maxResults req))
                       [sample_thread ''t1'' ''ann'' ''first'']),
                     nextPageToken = Some ''more''\<rparr>)\<rparr>"

definition unreachable_service :: youtube where
  "unreachable_service =
     sample_service\<lparr>videos_list := (\<lambda>part vid. raise (HttpError ''backendError''))\<rparr>"

definition exhausted_service :: youtube where
  "exhausted_service =
     sample_service\<lparr>commentThreads_list := (\<lambda>req. raise (HttpError ''quotaExceeded''))\<rparr>"

declare sample_snippet_def [model_defs] sample_thread_def [model_defs]
  sample_videos_def [model_defs] sample_page_def [model_defs] sample_replies_def [model_defs]
  sample_service_def [model_defs] moderated_service_def [model_defs]
  exhausted_service_def [model_defs] uncounted_service_def [model_defs]
  endless_service_def [model_defs] commentless_service_def [model_defs]
  unreachable_service_def [model_defs] silent_service_def [model_defs]

lemma sample_honours [simp]: "honours_maxResults sample_service"
  by (auto simp: honours_maxResults_def sample_service_def sample_page_def)

lemma moderated_honours [simp]: "honours_maxResults moderated_service"
  by (auto simp: honours_maxResults_def moderated_service_def sample_service_def sample_page_def)

lemma sample_statistics_only [simp]: "statistics_only sample_service"
  by (simp add: statistics_only_def sample_service_def sample_videos_def)

lemma exhausted_honours [simp]: "honours_maxResults exhausted_service"
  by (simp add: honours_maxResults_def exhausted_service_def sample_service_def)

end
