(* ===== verification/Extractor_Budget.thy ===== *)
theory Extractor_Budget
  imports Extractor_Loops Sample_Service
begin

text \<open>
  How many rows an extraction returns and how many requests it sends. The budget \<open>max_comments\<close> is checked before
  every request and after every reply, but not after a main comment: with both types
  selected a page can run over the budget by one row per thread after the first, 99 at
  most; with one type selected the budget holds.
\<close>

section \<open>Bounds\<close>

text \<open>
  \<open>page_bound\<close>: the number of rows after a page of \<open>k\<close> threads that started
  with \<open>n\<close> rows. \<open>overshoot\<close>: by how much the budget can be exceeded.
\<close>

definition page_bound :: "int \<Rightarrow> bool \<Rightarrow> bool \<Rightarrow> nat \<Rightarrow> int \<Rightarrow> int" where
  "page_bound mx m r k n =
     (if \<not> r then n + int k else if \<not> m then max mx n else max (mx + int k - 1) (n + int k))"

definition overshoot :: "bool \<Rightarrow> bool \<Rightarrow> int" where
  "overshoot m r = (if m \<and> r then 99 else 0)"

text \<open>\<open>call_count P\<close>: how many of the calls made so far satisfy \<open>P\<close>.\<close>

definition call_count :: "(api_call \<Rightarrow> bool) \<Rightarrow> xstate \<Rightarrow> nat" where
  "call_count P st = length (filter P (calls st))"

section \<open>The budget through the operations\<close>

lemma honours_threads:
  "honours_maxResults api \<Longrightarrow> fetch_page api vid mx st = Inr (response, st1) \<Longrightarrow>
     n_comments st < mx \<Longrightarrow>
     int (length (page_items response)) \<le> min 100 (mx - n_comments st) \<and> n_comments st1 = n_comments st"
  by (auto simp: honours_maxResults_def fetch_page_def page_items_def Let_def
      split: sum.splits if_splits dest!: spec)

lemma add_replies_budget:
  "n_comments st < mx \<Longrightarrow> n_comments (add_replies mx parent rs st) \<le> mx"
  by (induction rs arbitrary: st) (auto simp: Let_def split: option.splits)

lemma fetch_replies_budget:
  "n_comments st < mx \<Longrightarrow> n_comments (state_of (fetch_replies api mx parent item st)) \<le> mx"
  by (auto simp: fetch_replies_def Let_def add_replies_budget split: option.splits sum.splits)

text \<open>One thread: one main comment at most, and replies up to the budget.\<close>

lemma process_thread_budget:
  "n_comments (state_of (process_thread api mx m r item st))
     \<le> (if r then max mx (n_comments st + (if m then 1 else 0)) else n_comments st + 1)"
  using fetch_replies_budget [of st mx api _ item]
    fetch_replies_budget [of "append_comment _ st" mx api _ item]
  by (auto simp: process_thread_def Let_def split: option.splits)


lemma page_bound_step:
  "n1 \<le> (if r then max mx (n + (if m then 1 else 0)) else n + 1) \<Longrightarrow>
     n1 \<le> page_bound mx m r (Suc k) n \<and> page_bound mx m r k n1 \<le> page_bound mx m r (Suc k) n"
  by (auto simp: page_bound_def)

lemma process_items_budget:
  "n_comments (state_of (process_items api mx m r items st))
     \<le> page_bound mx m r (length items) (n_comments st)"
proof (induction items arbitrary: st)
  case Nil
  then show ?case by (simp add: page_bound_def)
next
  case (Cons item items)
  note step = page_bound_step [OF process_thread_budget [of api mx m r item st], of "length items"]
  show ?case
  proof (cases "process_thread api mx m r item st" rule: state_after_cases [where f = "\<lambda>st. st"])
    case (error e s)
    with step show ?thesis by simp
  next
    case (ok s)
    with step Cons.IH [of s] show ?thesis by simp
  qed
qed

lemma page_bound_honoured:
  "n < mx \<Longrightarrow> int k \<le> min 100 (mx - n) \<Longrightarrow>
     page_bound mx m r k n \<le> mx + (if m \<and> r then 99 else 0)"
  by (auto simp: page_bound_def)

lemma paging_loop_budget:
  assumes "honours_maxResults api"
  shows "n_comments (state_of (paging_loop api vid mx m r pc st))
           \<le> max (n_comments st) (mx + overshoot m r)"
proof (induction pc st rule: paging_loop_induct)
  case (page pc st)
  have items: "n_comments (state_of (process_items api mx m r (page_items response) st1))
      \<le> mx + overshoot m r"
    if "fetch_page api vid mx st = Inr (response, st1)" "n_comments st < mx" for response st1
    using honours_threads [OF assms that] that(2)
      process_items_budget [of api mx m r "page_items response" st1]
      page_bound_honoured [of "n_comments st" mx "length (page_items response)" m r]
    by (simp add: overshoot_def)
  show ?case
  proof (cases rule: paging_loop_cases [of st mx api vid m r pc])
    case stop
    then show ?thesis by simp
  next
    case (fetch_error x)
    then show ?thesis by (cases x) (auto simp: fetch_page_def Let_def split: sum.splits if_splits)
  next
    case (empty response st1)
    with honours_threads [OF assms empty(2)] show ?thesis by simp
  next
    case (items_error response st1 x)
    with items [OF items_error(2)] show ?thesis by (cases x) simp
  next
    case (last response st1 st2)
    with items [OF last(2)] show ?thesis by simp
  next
    case (limit response st1 st2)
    with items [OF limit(2)] show ?thesis by simp
  next
    case (continue response st1 st2)
    with items [OF continue(2)] page.IH [OF continue(7), of "st2\<lparr>next_page_token := nextPageToken response\<rparr>"]
    show ?thesis by (simp add: overshoot_def split: if_splits)
  qed
qed


lemma add_search_items_budget:
  "n_comments (add_search_items items ids st) \<le> n_comments st + int (length items)"
proof (induction items arbitrary: ids st)
  case Nil
  then show ?case by simp
next
  case (Cons item items)
  have skip: "n_comments (add_search_items items ids' st) \<le> n_comments st + (1 + int (length items))"
    for ids'
    using Cons [of ids' st] by linarith
  have add: "n_comments (add_search_items items ids' (append_comment c st))
      \<le> n_comments st + (1 + int (length items))" for ids' c
    using Cons [of ids' "append_comment c st"] by simp
  from skip add show ?case by (simp split: option.splits)
qed

lemma honours_search:
  "honours_maxResults api \<Longrightarrow> search_list api c n v = Inr page \<Longrightarrow> search_items page = Some items
     \<Longrightarrow> int (length items) \<le> max 0 n"
  by (auto simp: honours_maxResults_def dest!: spec)

lemma alternative_method_budget:
  assumes "honours_maxResults api" and "n_comments st < mx"
  shows "n_comments (alternative_method api vid mx video_info st) \<le> mx"
proof (cases "channel_of video_info")
  case (Inl e)
  with assms(2) show ?thesis by (simp add: alternative_method_def)
next
  case (Inr c)
  let ?n = "min 50 (mx - n_comments st)"
  let ?st1 = "log_call (SearchList c ?n vid) st"
  show ?thesis
  proof (cases "search_list api c ?n vid")
    case (Inl e)
    with assms(2) Inr show ?thesis by (simp add: alternative_method_def Let_def)
  next
    case page: (Inr page)
    show ?thesis
    proof (cases "search_items page")
      case None
      with assms(2) Inr page show ?thesis by (simp add: alternative_method_def Let_def)
    next
      case (Some items)
      from honours_search [OF assms(1) page Some] assms(2)
      have "int (length items) \<le> mx - n_comments st" by simp
      with add_search_items_budget [of items "[]" ?st1]
        add_search_items_budget [of items "[[]]" ?st1] Inr page Some
      show ?thesis by (simp add: alternative_method_def Let_def)
    qed
  qed
qed

lemma finish_budget:
  assumes "honours_maxResults api"
  shows "n_comments (finish api vid mx video_info st) \<le> max mx (n_comments st)"
  using alternative_method_budget [OF assms, of "add_reason TryingAlternative _" mx vid video_info]
  by (simp add: finish_def Let_def)

section \<open>The budget of an extraction\<close>

text \<open>
  C2. When the service honours \<open>maxResults\<close> and the budget is not negative, a
  successful \<open>get_comments\<close> returns at most \<open>max_comments\<close> rows when only main
  comments or only replies are selected, and at most \<open>max_comments + 99\<close> rows when
  both are.
\<close>

theorem comment_budget:
  assumes "honours_maxResults api" and "0 \<le> mx" and "get_comments api url mx m r = Inr st"
  shows "n_comments st \<le> mx + overshoot m r"
  using assms(3)
proof (cases rule: get_comments_InrE)
  case (no_comments vid video_info)
  from check_availability_Inr(7) [OF no_comments(2)] assms(2) show ?thesis
    by (simp add: init_state_def n_comments_def overshoot_def)
next
  case (none_selected vid video_info st1)
  from check_availability_Inr(7) [OF none_selected(2)] assms(2) none_selected(5) show ?thesis
    by (simp add: init_state_def n_comments_def overshoot_def)
next
  case (extracted vid video_info st1 st3)
  have "n_comments st1 = 0"
    using check_availability_Inr(7) [OF extracted(2)] by (simp add: init_state_def n_comments_def)
  with paging_loop_budget [OF assms(1), of vid mx m r 0 "note_filter m r st1"] extracted(4) assms(2)
  have "n_comments st3 \<le> mx + overshoot m r" by (simp add: overshoot_def split: if_splits)
  with finish_budget [OF assms(1), of vid mx video_info st3] extracted(5) show ?thesis
    by (simp add: overshoot_def split: if_splits)
qed

theorem comment_budget_witness:
  "\<exists>st. get_comments sample_service ''https://youtu.be/abc'' 5 True False = Inr st
     \<and> n_comments st \<le> 5 + overshoot True False"
proof -
  have run: "get_comments sample_service ''https://youtu.be/abc'' 5 True False
      = Inr (state_of (get_comments sample_service ''https://youtu.be/abc'' 5 True False))"
    by code_simp
  have "n_comments (state_of (get_comments sample_service ''https://youtu.be/abc'' 5 True False))
      \<le> 5 + overshoot True False"
    by (rule comment_budget [OF sample_honours _ run]) simp
  with run show ?thesis by blast
qed


section \<open>Requests\<close>

text \<open>
  Only \<open>fetch_page\<close> asks for threads: once or twice per page, and the loop has ten
  pages at most.
\<close>

lemma call_count_simps [simp]:
  "call_count P (log_call c st) = call_count P st + (if P c then 1 else 0)"
  "call_count P (add_reason x st) = call_count P st"
  "call_count P (append_comment y st) = call_count P st"
  "call_count P (st\<lparr>info := i\<rparr>) = call_count P st"
  "call_count P (st\<lparr>next_page_token := t\<rparr>) = call_count P st"
  "call_count P (st\<lparr>empty_response := b\<rparr>) = call_count P st"
  by (simp_all add: call_count_def)

lemma call_count_add_replies [simp]:
  "call_count P (add_replies mx parent rs st) = call_count P st"
  by (induction rs arbitrary: st) (auto simp: Let_def split: option.splits)

lemma call_count_process_thread:
  assumes "\<And>c. P c \<Longrightarrow> is_ThreadsList c"
  shows "call_count P (state_of (process_thread api mx m r item st)) = call_count P st"
proof -
  have other: "\<not> P (CommentsList i n)" for i n
    using assms [of "CommentsList i n"] by auto
  then have "call_count P (state_of (fetch_replies api mx parent item s)) = call_count P s"
    for parent s
    by (simp add: fetch_replies_def Let_def split: option.splits sum.splits)
  then show ?thesis by (simp add: process_thread_def Let_def split: option.splits)
qed

lemma call_count_process_items:
  assumes "\<And>c. P c \<Longrightarrow> is_ThreadsList c"
  shows "call_count P (state_of (process_items api mx m r items st)) = call_count P st"
  by (rule process_items_preserves [where P = "\<lambda>s. call_count P s = call_count P st"])
    (simp_all add: call_count_process_thread [OF assms])

lemma call_count_fetch_page:
  "call_count is_ThreadsList (state_after snd (fetch_page api vid mx st))
     \<le> call_count is_ThreadsList st + 2"
  "call_count is_first_attempt (state_after snd (fetch_page api vid mx st))
     = call_count is_first_attempt st + 1"
  by (auto simp: fetch_page_def Let_def split: sum.splits)

lemma call_count_paging_loop:
  assumes threads: "\<And>c. P c \<Longrightarrow> is_ThreadsList c"
    and fetch: "\<And>s. call_count P (state_after snd (fetch_page api vid mx s)) \<le> call_count P s + k"
    and "pc < 10"
  shows "call_count P (state_of (paging_loop api vid mx m r pc st))
           \<le> call_count P st + k * (10 - pc)"
  using assms(3)
proof (induction pc st rule: paging_loop_induct)
  case (page pc st)
  let ?loop = "paging_loop api vid mx m r"
  note items = call_count_process_items [where P = P and api = api and mx = mx and m = m and r = r,
      OF threads]
  have "call_count P (state_of (?loop pc st)) \<le> call_count P st + k \<or>
    (\<exists>st3. Suc pc < 10 \<and> ?loop pc st = ?loop (Suc pc) st3 \<and> call_count P st3 \<le> call_count P st + k)"
  proof (cases rule: paging_loop_cases [of st mx api vid m r pc])
    case stop
    then show ?thesis by simp
  next
    case (fetch_error x)
    with fetch [of st] show ?thesis by (cases x) simp
  next
    case (empty response st1)
    with fetch [of st] show ?thesis by simp
  next
    case (items_error response st1 x)
    with fetch [of st] items [where items = "page_items response" and st = st1] show ?thesis
      by (cases x) simp
  next
    case (last response st1 st2)
    with fetch [of st] items [where items = "page_items response" and st = st1] show ?thesis
      by simp
  next
    case (limit response st1 st2)
    with fetch [of st] items [where items = "page_items response" and st = st1] show ?thesis
      by simp
  next
    case (continue response st1 st2)
    with fetch [of st] items [where items = "page_items response" and st = st1] show ?thesis
      by (intro disjI2 exI [of _ "st2\<lparr>next_page_token := nextPageToken response\<rparr>"]) simp
  qed
  then show ?case
  proof (elim disjE exE conjE)
    from page.prems have "k * 1 \<le> k * (10 - pc)" by (intro mult_le_mono2) simp
    then have "k \<le> k * (10 - pc)" by (simp only: mult_1_right)
    moreover assume "call_count P (state_of (?loop pc st)) \<le> call_count P st + k"
    ultimately show ?thesis by linarith
  next
    fix st3
    assume more: "Suc pc < 10" and eq: "?loop pc st = ?loop (Suc pc) st3"
      and le: "call_count P st3 \<le> call_count P st + k"
    from more have "k * (10 - Suc pc) + k = k * (10 - pc)"
      by (simp add: Suc_diff_Suc [symmetric] del: Suc_diff_Suc)
    with page.IH [OF more more, of st3] le show ?thesis unfolding eq by linarith
  qed
qed


lemma call_count_add_search_items [simp]:
  "call_count P (add_search_items items ids st) = call_count P st"
  by (induction items ids st rule: add_search_items.induct) (simp_all split: option.splits)

lemma call_count_finish:
  assumes "\<And>c. P c \<Longrightarrow> is_ThreadsList c"
  shows "call_count P (finish api vid mx video_info st) = call_count P st"
proof -
  have "\<not> P (SearchList c n v)" for c n v
    using assms [of "SearchList c n v"] by auto
  then have "call_count P (alternative_method api vid mx video_info s) = call_count P s" for s
    by (simp add: alternative_method_def Let_def split: sum.splits option.splits)
  then show ?thesis by (simp add: finish_def Let_def)
qed

lemma call_count_check_availability:
  assumes "\<And>c. P c \<Longrightarrow> is_ThreadsList c"
  shows "call_count P (state_after (\<lambda>(d, v, s). s) (check_availability api vid mx st))
    = call_count P st"
proof -
  have "\<not> P (VideosList p v)" for p v
    using assms [of "VideosList p v"] by auto
  then show ?thesis
    by (cases "check_availability api vid mx st" rule: state_after_cases [where f = "\<lambda>(d, v, s). s"])
      (auto simp: call_count_def dest!: check_availability_Inl check_availability_Inr(2))
qed


lemma call_count_note_filter [simp]: "call_count P (note_filter m r st) = call_count P st"
  by (simp add: note_filter_def)

lemma call_count_init [simp]: "call_count P (init_state mx) = 0"
  by (simp add: call_count_def init_state_def)

lemma call_count_extraction:
  assumes threads: "\<And>c. P c \<Longrightarrow> is_ThreadsList c"
    and fetch: "\<And>s. call_count P (state_after snd (fetch_page api vid mx s)) \<le> call_count P s + k"
  shows "call_count P (state_of (extraction api vid mx m r st)) \<le> call_count P st + k * 10"
proof -
  note check = call_count_check_availability [where P = P and api = api and vid = vid
      and mx = mx and st = st, OF threads]
  note loop = call_count_paging_loop [where P = P and pc = 0 and m = m and r = r, OF threads fetch]
  show ?thesis
  proof (cases rule: extraction_cases [of api vid mx st m r])
    case (check_error e st1)
    with check show ?thesis by simp
  next
    case (no_comments video_info st1)
    with check show ?thesis by simp
  next
    case (none_selected video_info st1)
    with check show ?thesis by simp
  next
    case (loop_error video_info st1 e st3)
    with check loop [where st = "note_filter m r st1"] show ?thesis by simp
  next
    case (extracted video_info st1 st3)
    with check loop [where st = "note_filter m r st1"] show ?thesis
      by (simp add: call_count_finish [where P = P, OF threads])
  qed
qed

lemma call_count_get_comments:
  assumes threads: "\<And>c. P c \<Longrightarrow> is_ThreadsList c"
    and fetch: "\<And>vid s. call_count P (state_after snd (fetch_page api vid mx s)) \<le> call_count P s + k"
  shows "call_count P (state_of (get_comments api url mx m r)) \<le> k * 10"
proof (cases rule: get_comments_cases [of url api mx m r])
  case no_id
  then show ?thesis by simp
next
  case (raised vid e st)
  with call_count_extraction [where P = P and vid = vid and m = m and r = r
    and st = "init_state mx", OF threads fetch] show ?thesis by simp
next
  case (returned vid st)
  with call_count_extraction [where P = P and vid = vid and m = m and r = r
    and st = "init_state mx", OF threads fetch] show ?thesis by simp
qed

lemma first_attempt_threads: "is_first_attempt c \<Longrightarrow> is_ThreadsList c"
  by (cases c) simp_all

text \<open>
  C3. However \<open>get_comments\<close> ends, it has asked for at most ten pages of threads,
  and with the retries it has sent at most twenty requests for threads.
\<close>

theorem page_limit:
  "call_count is_first_attempt (state_of (get_comments api url mx m r)) \<le> 10 \<and>
   call_count is_ThreadsList (state_of (get_comments api url mx m r)) \<le> 20"
proof -
  have "call_count is_first_attempt (state_of (get_comments api url mx m r)) \<le> 1 * 10"
    by (rule call_count_get_comments) (simp_all add: call_count_fetch_page first_attempt_threads)
  moreover have "call_count is_ThreadsList (state_of (get_comments api url mx m r)) \<le> 2 * 10"
    by (rule call_count_get_comments) (assumption, rule call_count_fetch_page(1))
  ultimately show ?thesis by simp
qed

text \<open>
  The limit is reached: against a service that rejects \<open>moderationStatus\<close> and
  always has a next page, \<open>get_comments\<close> asks for exactly ten pages with twenty
  requests, returns the ten rows it found and gives the page limit as its last reason.
\<close>

theorem page_limit_reached:
  "map_sum fst (\<lambda>st. (call_count is_first_attempt st, call_count is_ThreadsList st,
       n_comments st, last (reasons (info st))))
     (get_comments endless_service ''https://youtu.be/abc'' 100 True False)
   = Inr (10, 20, 10, PageLimit)"
  by code_simp

end
