(* ===== verification/Extractor_Rows.thy ===== *)
theory Extractor_Rows
  imports Extractor_Budget
begin

text \<open>
  The rows and the calls of an extraction. A property that the rows made of threads and of replies
  have, and that the final report preserves, holds of every row \<open>get_comments\<close> has
  collected, however it ends, and likewise for the calls it has made. The rows are well
  formed: main comments and replies have
  content and appear only when their type is selected, replies and only replies name the
  author of their parent.
\<close>

section \<open>Properties of rows\<close>

text \<open>
  \<open>row_ok m r\<close>: what a row looks like when main comments are selected (\<open>m\<close>) and
  replies are (\<open>r\<close>). \<open>all_rows Q\<close>: every row collected so far satisfies \<open>Q\<close>.
  \<open>thread_rows m r Q\<close>: the rows that the loop over the threads appends satisfy
  \<open>Q\<close>.
\<close>

definition row_ok :: "bool \<Rightarrow> bool \<Rightarrow> comment \<Rightarrow> bool" where
  "row_ok m r c =
     (case kind c of
        principal \<Rightarrow> m \<and> strip (content c) \<noteq> [] \<and> parent_author c = None
      | resposta \<Rightarrow> r \<and> strip (content c) \<noteq> [] \<and> parent_author c \<noteq> None
      | alternativo \<Rightarrow> likes c = 0 \<and> parent_author c = None)"

definition all_rows :: "(comment \<Rightarrow> bool) \<Rightarrow> xstate \<Rightarrow> bool" where
  "all_rows Q st = list_all Q (comments st)"

definition thread_rows :: "bool \<Rightarrow> bool \<Rightarrow> (comment \<Rightarrow> bool) \<Rightarrow> bool" where
  "thread_rows m r Q \<longleftrightarrow>
     (\<forall>c. m \<and> has_text c \<longrightarrow> Q (main_comment c)) \<and>
     (\<forall>parent c. r \<and> has_text c \<longrightarrow> Q (reply_comment parent c))"

text \<open>The rows a page yields when only main comments are selected.\<close>

definition main_rows :: "thread_item list \<Rightarrow> comment list" where
  "main_rows items = map main_comment (filter has_text (List.map_filter topLevelComment items))"

text \<open>\<open>all_calls Q\<close>: every call made so far satisfies \<open>Q\<close>.\<close>

definition all_calls :: "(api_call \<Rightarrow> bool) \<Rightarrow> xstate \<Rightarrow> bool" where
  "all_calls Q st = list_all Q (calls st)"

section \<open>Through the operations\<close>

lemma all_rows_simps [simp]:
  "all_rows Q (append_comment c st) \<longleftrightarrow> all_rows Q st \<and> Q c"
  "all_rows Q (log_call x st) = all_rows Q st"
  "all_rows Q (add_reason y st) = all_rows Q st"
  "all_rows Q (st\<lparr>info := i\<rparr>) = all_rows Q st"
  "all_rows Q (st\<lparr>next_page_token := t\<rparr>) = all_rows Q st"
  "all_rows Q (st\<lparr>empty_response := b\<rparr>) = all_rows Q st"
  "all_rows Q (note_filter m' r' st) = all_rows Q st"
  "all_rows Q (init_state mx)"
  by (auto simp: all_rows_def note_filter_def init_state_def)

lemma thread_rows_row_ok [simp]: "thread_rows m r (row_ok m r)"
  by (auto simp: thread_rows_def row_ok_def has_text_def main_comment_def reply_comment_def
      split: option.splits)

lemma all_rows_add_replies:
  "thread_rows m True Q \<Longrightarrow> all_rows Q st \<Longrightarrow> all_rows Q (add_replies mx parent rs st)"
  by (induction rs arbitrary: st) (auto simp: Let_def thread_rows_def split: option.splits)

lemma all_rows_fetch_replies:
  "thread_rows m True Q \<Longrightarrow> all_rows Q st \<Longrightarrow>
     all_rows Q (state_of (fetch_replies api mx parent item st))"
  by (auto simp: fetch_replies_def Let_def all_rows_add_replies split: option.splits sum.splits)

lemma all_rows_process_thread:
  assumes "thread_rows m r Q" and "all_rows Q st"
  shows "all_rows Q (state_of (process_thread api mx m r item st))"
proof -
  have "all_rows Q (state_of (fetch_replies api mx parent item s))" if "r" "all_rows Q s"
    for parent s
    using all_rows_fetch_replies [of m Q s] assms(1) that by simp
  moreover have "Q (main_comment c)" if "m" "has_text c" for c
    using assms(1) that by (simp add: thread_rows_def)
  ultimately show ?thesis
    using assms(2) by (simp add: process_thread_def Let_def split: option.splits)
qed

lemma all_rows_fetch_page:
  "all_rows Q st \<Longrightarrow> all_rows Q (state_after snd (fetch_page api vid mx st))"
  by (auto simp: fetch_page_def Let_def split: sum.splits)

lemma all_rows_paging_loop:
  "thread_rows m r Q \<Longrightarrow> all_rows Q st \<Longrightarrow>
     all_rows Q (state_of (paging_loop api vid mx m r pc st))"
  by (rule paging_loop_preserves)
    (simp_all add: all_rows_fetch_page process_items_preserves all_rows_process_thread)

lemma all_rows_add_search_items:
  "(\<And>sn. Q (search_comment sn)) \<Longrightarrow> all_rows Q st \<Longrightarrow>
     all_rows Q (add_search_items items ids st)"
  by (induction items ids st rule: add_search_items.induct) (simp_all split: option.splits)

lemma all_rows_check_availability:
  "all_rows Q st \<Longrightarrow>
     all_rows Q (state_after (\<lambda>(d, v, s). s) (check_availability api vid mx st))"
  by (cases "check_availability api vid mx st" rule: state_after_cases [where f = "\<lambda>(d, v, s). s"])
    (auto simp: all_rows_def dest!: check_availability_Inl check_availability_Inr(1))

text \<open>
  The rule for the whole of \<open>get_comments\<close>: a property of rows that the rows of
  threads have, and that \<open>finish\<close> preserves, holds of every row of the result.
\<close>

lemma all_rows_get_comments:
  assumes rows: "thread_rows m r Q"
    and finish: "\<And>vid video_info st. videos_list api ''statistics'' vid = Inr video_info \<Longrightarrow>
      all_rows Q st \<Longrightarrow> all_rows Q (finish api vid mx video_info st)"
  shows "all_rows Q (state_of (get_comments api url mx m r))"
proof -
  have "all_rows Q (state_of (extraction api vid mx m r (init_state mx)))" for vid
  proof -
    note check = all_rows_check_availability [of Q "init_state mx" api vid mx]
    note loop = all_rows_paging_loop [OF rows, of "note_filter m r _" api vid mx 0]
    show ?thesis
    proof (cases rule: extraction_cases [of api vid mx "init_state mx" m r])
      case (loop_error video_info st1 e st3)
      then show ?thesis using check loop [of st1] by simp
    next
      case (extracted video_info st1 st3)
      then show ?thesis
        using check loop [of st1] finish [OF check_availability_Inr(8) [OF extracted(1)], of st3]
        by simp
    qed (use check in simp_all)
  qed
  from this [of "the (extract_video_id url)"] show ?thesis
    by (cases rule: get_comments_cases [of url api mx m r]) auto
qed

lemma all_rows_finish:
  "(\<And>sn. Q (search_comment sn)) \<Longrightarrow> all_rows Q st \<Longrightarrow>
     all_rows Q (finish api vid mx video_info st)"
  by (simp add: finish_def alternative_method_def Let_def all_rows_add_search_items
      split: sum.splits option.splits)

section \<open>Calls through the operations\<close>

lemma all_calls_simps [simp]:
  "all_calls Q (log_call c st) \<longleftrightarrow> all_calls Q st \<and> Q c"
  "all_calls Q (append_comment x st) = all_calls Q st"
  "all_calls Q (add_reason y st) = all_calls Q st"
  "all_calls Q (st\<lparr>info := i\<rparr>) = all_calls Q st"
  "all_calls Q (st\<lparr>next_page_token := t\<rparr>) = all_calls Q st"
  "all_calls Q (st\<lparr>empty_response := b\<rparr>) = all_calls Q st"
  "all_calls Q (note_filter m r st) = all_calls Q st"
  "all_calls Q (init_state mx)"
  by (auto simp: all_calls_def note_filter_def)

lemma all_calls_add_replies [simp]:
  "all_calls Q (add_replies mx parent rs st) = all_calls Q st"
  by (induction rs arbitrary: st) (auto simp: Let_def split: option.splits)

lemma all_calls_add_search_items [simp]:
  "all_calls Q (add_search_items items ids st) = all_calls Q st"
  by (induction items ids st rule: add_search_items.induct) (simp_all split: option.splits)

lemma all_calls_process_thread:
  assumes "\<And>i n. Q (CommentsList i n)" and "all_calls Q st"
  shows "all_calls Q (state_of (process_thread api mx m r item st))"
  using assms
  by (simp add: process_thread_def fetch_replies_def Let_def split: option.splits sum.splits)

lemma all_calls_fetch_page:
  assumes "\<And>req. Q (ThreadsList req)" and "all_calls Q st"
  shows "all_calls Q (state_after snd (fetch_page api vid mx st))"
  using assms by (simp add: fetch_page_def Let_def split: sum.splits)

lemma all_calls_paging_loop:
  assumes "\<And>i n. Q (CommentsList i n)" and "\<And>req. Q (ThreadsList req)" and "all_calls Q st"
  shows "all_calls Q (state_of (paging_loop api vid mx m r pc st))"
  by (rule paging_loop_preserves)
    (simp_all add: assms all_calls_fetch_page process_items_preserves all_calls_process_thread)

lemma all_calls_check_availability:
  assumes "\<And>p v. Q (VideosList p v)" and "all_calls Q st"
  shows "all_calls Q (state_after (\<lambda>(d, v, s). s) (check_availability api vid mx st))"
  using assms
  by (cases "check_availability api vid mx st" rule: state_after_cases [where f = "\<lambda>(d, v, s). s"])
    (auto simp: all_calls_def dest!: check_availability_Inl check_availability_Inr(2))

text \<open>The rule for the whole of \<open>get_comments\<close>, as for the rows.\<close>

lemma all_calls_get_comments:
  assumes calls: "\<And>i n. Q (CommentsList i n)" "\<And>req. Q (ThreadsList req)"
      "\<And>p v. Q (VideosList p v)"
    and finish: "\<And>vid video_info st. videos_list api ''statistics'' vid = Inr video_info \<Longrightarrow>
      all_calls Q st \<Longrightarrow> all_calls Q (finish api vid mx video_info st)"
  shows "all_calls Q (state_of (get_comments api url mx m r))"
proof -
  have "all_calls Q (state_of (extraction api vid mx m r (init_state mx)))" for vid
  proof -
    note check = all_calls_check_availability [of Q "init_state mx" api vid mx, OF calls(3)]
    note loop = all_calls_paging_loop [of Q "note_filter m r _" api vid mx m r 0, OF calls(1,2)]
    show ?thesis
    proof (cases rule: extraction_cases [of api vid mx "init_state mx" m r])
      case (loop_error video_info st1 e st3)
      then show ?thesis using check loop [of st1] by simp
    next
      case (extracted video_info st1 st3)
      then show ?thesis
        using check loop [of st1] finish [OF check_availability_Inr(8) [OF extracted(1)], of st3]
        by simp
    qed (use check in simp_all)
  qed
  from this [of "the (extract_video_id url)"] show ?thesis
    by (cases rule: get_comments_cases [of url api mx m r]) auto
qed

section \<open>Well-formed rows\<close>

text \<open>
  C5. Every row that \<open>get_comments\<close> has collected, whether it returns or raises, is
  well formed: a main comment appears only when main comments are selected, a reply only
  when replies are, both have content that is not blank, a reply names its parent's
  author and no other row does, and a row of the alternative method has no likes.
\<close>

theorem rows_well_formed: "all_rows (row_ok m r) (state_of (get_comments api url mx m r))"
  by (rule all_rows_get_comments)
    (simp_all add: all_rows_finish row_ok_def search_comment_def)

section \<open>Main comments only\<close>

lemma main_rows_simps [simp]:
  "main_rows [] = []"
  "main_rows (item # items) =
     (case topLevelComment item of
        None \<Rightarrow> main_rows items
      | Some c \<Rightarrow> if has_text c then main_comment c # main_rows items else main_rows items)"
  by (simp_all add: main_rows_def List.map_filter_simps split: option.splits)

text \<open>
  With main comments only, the loop over the threads of a page is a filter and a map:
  it never raises, makes no call, and appends, in the order of the page, the row of every
  thread that has a top-level comment with content, whatever the budget.
\<close>

theorem main_only_rows:
  "process_items api mx True False items st = Inr (st\<lparr>comments := comments st @ main_rows items\<rparr>)"
proof (induction items arbitrary: st)
  case Nil
  then show ?case by simp
next
  case (Cons item items)
  then show ?case
    by (simp add: process_thread_def append_comment_def split: option.splits)
qed

end
