(* ===== verification/Extractor_Report.thy ===== *)
theory Extractor_Report
  imports Extractor_Rows
begin

text \<open>
  What \<open>get_comments\<close> reports: the counters of the report, the reasons it gives for
  a shortfall, and the errors it raises. Each theorem is about the whole of
  \<open>get_comments\<close> and rests on the case rules and the frame of
  \<open>Extractor_Loops\<close>.
\<close>

section \<open>The final report\<close>

lemma finish_report:
  "extracted (info (finish api vid mx video_info st)) = n_comments (finish api vid mx video_info st)"
  by (simp add: finish_def Let_def)

lemma finish_shortfall:
  assumes "n_comments (finish api vid mx video_info st) < min mx (available (info st))"
  shows "TryingAlternative \<in> set (reasons (info (finish api vid mx video_info st)))"
    and "\<exists>rs. reasons (info (finish api vid mx video_info st)) = rs @ [NotAllExtracted, ApiLimitations]"
proof -
  let ?alt = "alternative_method api vid mx video_info"
  have alt: "extends (add_reason TryingAlternative s) (?alt (add_reason TryingAlternative s))" for s
    by simp
  note mono = extendsD(1,4) [OF alt]
  from assms mono show "TryingAlternative \<in> set (reasons (info (finish api vid mx video_info st)))"
    by (fastforce simp: finish_def Let_def split: if_splits)
  from assms show "\<exists>rs. reasons (info (finish api vid mx video_info st))
      = rs @ [NotAllExtracted, ApiLimitations]"
    by (auto simp: finish_def Let_def split: if_splits)
qed

section \<open>The report\<close>

text \<open>
  C6. When \<open>get_comments\<close> returns, the report says what was asked for and what is
  returned: \<open>requested\<close> is \<open>max_comments\<close> and \<open>extracted\<close> is the number of
  rows.
\<close>

theorem report_consistent:
  assumes "get_comments api url mx m r = Inr st"
  shows "requested (info st) = mx \<and> extracted (info st) = n_comments st"
  using assms
proof (cases rule: get_comments_InrE)
  case (no_comments vid video_info)
  from check_availability_Inr [OF this(2)] show ?thesis by simp
next
  case (none_selected vid video_info st1)
  from check_availability_Inr [OF this(2)] none_selected(5) show ?thesis by simp
next
  case (extracted vid video_info st1 st3)
  from extendsD(2) [OF extracted(7)] check_availability_Inr(3) [OF extracted(2)] extracted(5)
  show ?thesis by (simp add: finish_report)
qed

theorem report_consistent_witness:
  "requested (info (state_of (get_comments sample_service ''https://youtu.be/abc'' 5 True True))) = 5 \<and>
   extracted (info (state_of (get_comments sample_service ''https://youtu.be/abc'' 5 True True)))
     = n_comments (state_of (get_comments sample_service ''https://youtu.be/abc'' 5 True True))"
  by (rule report_consistent [where api = sample_service and url = "''https://youtu.be/abc''" and m = True and r = True]) code_simp

text \<open>
  C28. When the video reports fewer comments than were asked for (and not none), the
  reasons of a returned report say how many are available.
\<close>

theorem low_availability:
  assumes "get_comments api url mx m r = Inr st"
    and "available (info st) \<noteq> 0" and "available (info st) < mx"
  shows "OnlyAvailable (available (info st)) \<in> set (reasons (info st))"
  using assms(1)
proof (cases rule: get_comments_InrE)
  case (no_comments vid video_info)
  from check_availability_reasons(2) [OF this(2)] assms(2) show ?thesis by simp
next
  case (none_selected vid video_info st1)
  from check_availability_reasons(1) [OF this(2)] assms(2,3) none_selected(5) show ?thesis
    by simp
next
  case (extracted vid video_info st1 st3)
  from extendsD(3) [OF extracted(7)] assms(2,3) check_availability_reasons(1) [OF extracted(2)]
  have "OnlyAvailable (available (info st)) \<in> set (reasons (info st1))" by simp
  with extendsD(1) [OF extracted(7)] show ?thesis by blast
qed

theorem low_availability_witness:
  "OnlyAvailable (available (info (state_of (get_comments sample_service ''https://youtu.be/abc'' 5 True True))))
     \<in> set (reasons (info (state_of (get_comments sample_service ''https://youtu.be/abc'' 5 True True))))"
  by (rule low_availability [where api = sample_service and url = "''https://youtu.be/abc''" and m = True and r = True and mx = 5]) code_simp+

text \<open>
  C26. With neither type of comment selected, \<open>get_comments\<close> returns no rows after the
  availability check alone: one call, none of them for threads, and the last reason says
  that nothing is selected, unless the video has no comments, which is then the only
  reason.
\<close>

theorem nothing_selected:
  assumes "get_comments api url mx False False = Inr st"
  shows "comments st = [] \<and> call_count is_ThreadsList st = 0 \<and> length (calls st) = 1 \<and>
    (last (reasons (info st)) = NoneSelected \<or> reasons (info st) = [NoComments])"
  using assms
proof (cases rule: get_comments_InrE)
  case (no_comments vid video_info)
  from check_availability_Inr [OF this(2)] check_availability_reasons(1) [OF this(2)]
  show ?thesis by (simp add: call_count_def)
next
  case (none_selected vid video_info st1)
  from check_availability_Inr [OF this(2)] none_selected(5) show ?thesis
    by (simp add: call_count_def)
qed simp

theorem nothing_selected_witness:
  "comments (state_of (get_comments sample_service ''https://youtu.be/abc'' 5 False False)) = [] \<and>
   call_count is_ThreadsList (state_of (get_comments sample_service ''https://youtu.be/abc'' 5 False False)) = 0 \<and>
   length (calls (state_of (get_comments sample_service ''https://youtu.be/abc'' 5 False False))) = 1 \<and>
   (last (reasons (info (state_of (get_comments sample_service ''https://youtu.be/abc'' 5 False False))))
      = NoneSelected \<or>
    reasons (info (state_of (get_comments sample_service ''https://youtu.be/abc'' 5 False False)))
      = [NoComments])"
  by (rule nothing_selected [where api = sample_service and url = "''https://youtu.be/abc''" and mx = 5]) code_simp

text \<open>
  C27. A shortfall against both the budget and the reported number of comments is
  explained: when \<open>get_comments\<close> returns fewer rows than both, with a type selected,
  the reasons say that the alternative method was tried and end with the two closing
  explanations.
\<close>

theorem shortfall_explained:
  assumes "get_comments api url mx m r = Inr st" and "m \<or> r"
    and "n_comments st < min mx (available (info st))"
  shows "TryingAlternative \<in> set (reasons (info st)) \<and>
    (\<exists>rs. reasons (info st) = rs @ [NotAllExtracted, ApiLimitations])"
  using assms(1)
proof (cases rule: get_comments_InrE)
  case (no_comments vid video_info)
  from check_availability_reasons(2) [OF this(2)] check_availability_Inr(7) [OF this(2)] assms(3)
  show ?thesis by simp
next
  case (none_selected vid video_info st1)
  with assms(2) show ?thesis by simp
next
  case (extracted vid video_info st1 st3)
  have "available (info st3) = available (info st)"
    using extendsD(3) [OF extracted(6)] extendsD(3) [OF extracted(7)] by simp
  with finish_shortfall [of api vid mx video_info st3] assms(3) extracted(5) show ?thesis
    by simp
qed


theorem shortfall_explained_witness:
  "TryingAlternative
     \<in> set (reasons (info (state_of (get_comments sample_service ''https://youtu.be/abc'' 3 True False)))) \<and>
   (\<exists>rs. reasons (info (state_of (get_comments sample_service ''https://youtu.be/abc'' 3 True False)))
      = rs @ [NotAllExtracted, ApiLimitations])"
  by (rule shortfall_explained [where api = sample_service and url = "''https://youtu.be/abc''" and m = True and r = False and mx = 3]) code_simp+


text \<open>
  C29. A video whose statistics report zero comments: \<open>get_comments\<close> returns at once
  with no rows, the single reason that there are no comments, and the availability check
  as its only call.
\<close>

theorem no_comments_short_circuit:
  assumes "extract_video_id url = Some vid"
    and "videos_list api ''statistics'' vid = Inr video_info"
    and "video_items video_info = Some (item # rest)"
    and "statistics item = Some stats" and "commentCount stats = Some ''0''"
  shows "get_comments api url mx m r =
    Inr \<lparr>comments = [],
         info = \<lparr>requested = mx, extracted = 0, available = 0, reasons = [NoComments]\<rparr>,
         next_page_token = None, empty_response = False,
         calls = [VideosList ''statistics'' vid]\<rparr>"
proof -
  have "py_int ''0'' = Inr 0" by code_simp
  with assms show ?thesis
    by (simp add: get_comments_def extraction_def check_availability_def init_state_def
        add_reason_def log_call_def)
qed

theorem no_comments_short_circuit_witness:
  "get_comments commentless_service ''https://youtu.be/abc'' 5 True True =
    Inr \<lparr>comments = [],
         info = \<lparr>requested = 5, extracted = 0, available = 0, reasons = [NoComments]\<rparr>,
         next_page_token = None, empty_response = False,
         calls = [VideosList ''statistics'' ''abc'']\<rparr>"
  by (rule no_comments_short_circuit [where stats =
        "\<lparr>commentCount = Some ''0'', viewCount = Some ''100'', videoLikeCount = None\<rparr>"])
    (code_simp | simp add: model_defs)+

section \<open>Errors\<close>

text \<open>
  A URL in which no video identifier is found: \<open>get_comments\<close> raises
  \<open>ValueError\<close> with the URL in its message, before any call is made.
\<close>

theorem no_video_id:
  assumes "extract_video_id url = None"
  shows "get_comments api url mx m r = Inl (ValueError (no_id_message @ url), init_state mx)
    \<and> calls (init_state mx) = []"
  using assms by (simp add: get_comments_def)


theorem no_video_id_witness:
  "get_comments sample_service ''https://example.com/'' 5 True True
     = Inl (ValueError (no_id_message @ ''https://example.com/''), init_state 5)
   \<and> calls (init_state 5) = []"
  by (rule no_video_id) code_simp

text \<open>
  C7. An \<open>HttpError\<close> that leaves \<open>get_comments\<close> has been recorded: the last
  reason of the report at the time of the raise is the error's message.
\<close>

theorem http_error_recorded:
  assumes "get_comments api url mx m r = Inl (e, st)" and "is_HttpError e"
  shows "reasons (info st) \<noteq> [] \<and> last (reasons (info st)) = ApiError (message e)"
  using assms by (cases rule: get_comments_cases [of url api mx m r]) auto

theorem http_error_recorded_witness:
  "reasons (info (snd (projl (get_comments exhausted_service ''https://youtu.be/abc'' 5 True True)))) \<noteq> [] \<and>
   last (reasons (info (snd (projl (get_comments exhausted_service ''https://youtu.be/abc'' 5 True True)))))
     = ApiError (message (fst (projl (get_comments exhausted_service ''https://youtu.be/abc'' 5 True True))))"
  by (rule http_error_recorded [where api = exhausted_service and url = "''https://youtu.be/abc''" and m = True and r = True and mx = 5]) code_simp+

section \<open>The alternative method\<close>

text \<open>
  The availability check asks for the part \<open>statistics\<close> only, and the alternative
  method reads the channel from the \<open>snippet\<close> of that same response: against a
  service that returns the parts it is asked for, the method fails before its call.
\<close>

lemma alternative_method_statistics_only:
  assumes "statistics_only api" and "videos_list api ''statistics'' vid = Inr video_info"
  shows "\<exists>e. alternative_method api vid mx video_info st = add_reason (AlternativeFailed (message e)) st"
proof -
  from assms have "\<exists>e. channel_of video_info = Inl e"
    by (auto simp: statistics_only_def channel_of_def split: option.splits list.splits dest!: spec)
  then show ?thesis by (auto simp: alternative_method_def)
qed

lemma finish_statistics_only:
  assumes "statistics_only api" and "videos_list api ''statistics'' vid = Inr video_info"
  shows "all_rows Q st \<Longrightarrow> all_rows Q (finish api vid mx video_info st)"
    and "all_calls Q' st \<Longrightarrow> all_calls Q' (finish api vid mx video_info st)"
proof -
  from alternative_method_statistics_only [OF assms]
  obtain e where "alternative_method api vid mx video_info s = add_reason (AlternativeFailed (message (e s))) s" for s
    by metis
  then show "all_rows Q st \<Longrightarrow> all_rows Q (finish api vid mx video_info st)"
    and "all_calls Q' st \<Longrightarrow> all_calls Q' (finish api vid mx video_info st)"
    by (simp_all add: finish_def Let_def)
qed

text \<open>
  C31. Against a service that answers a request for \<open>statistics\<close> without a
  \<open>snippet\<close>, the alternative method is dead: however \<open>get_comments\<close> ends, no
  row comes from the alternative method and no search has been requested.
\<close>

theorem alternative_method_dead:
  assumes "statistics_only api"
  shows "all_rows (\<lambda>c. kind c \<noteq> alternativo) (state_of (get_comments api url mx m r)) \<and>
    all_calls (\<lambda>c. \<not> is_SearchList c) (state_of (get_comments api url mx m r))"
proof
  show "all_rows (\<lambda>c. kind c \<noteq> alternativo) (state_of (get_comments api url mx m r))"
    by (rule all_rows_get_comments)
      (simp_all add: thread_rows_def main_comment_def reply_comment_def
        finish_statistics_only(1) [OF assms])
  show "all_calls (\<lambda>c. \<not> is_SearchList c) (state_of (get_comments api url mx m r))"
    by (rule all_calls_get_comments) (simp_all add: finish_statistics_only(2) [OF assms])
qed

theorem alternative_method_dead_witness:
  "(all_rows (\<lambda>c. kind c \<noteq> alternativo)
      (state_of (get_comments sample_service ''https://youtu.be/abc'' 3 True False)) \<and>
    all_calls (\<lambda>c. \<not> is_SearchList c)
      (state_of (get_comments sample_service ''https://youtu.be/abc'' 3 True False))) \<and>
   reasons (info (state_of (get_comments sample_service ''https://youtu.be/abc'' 3 True False)))
     = [OnlyMain, MaybeFiltered, TryingAlternative,
        AlternativeFailed (message (KeyError ''snippet'')), NotAllExtracted, ApiLimitations]"
  by (rule conjI, rule alternative_method_dead [OF sample_statistics_only]) code_simp

section \<open>\<open>get_video_details\<close>\<close>

text \<open>
  \<open>get_video_details\<close> turns an \<open>HttpError\<close> of its request into the result
  \<open>None\<close>.
\<close>

theorem video_details_http_error:
  assumes "videos_list api ''snippet,statistics'' vid = Inl e" and "is_HttpError e"
  shows "get_video_details api vid = return None"
  using assms by (simp add: get_video_details_def)

theorem video_details_http_error_witness:
  "get_video_details unreachable_service ''abc'' = return None"
  by (rule video_details_http_error [where e = "HttpError ''backendError''"])
    (simp_all add: unreachable_service_def)

text \<open>
  What \<open>get_video_details\<close> returns for the sample video: the fields of the
  response, with \<open>0\<close> for the missing count of likes.
\<close>

theorem video_details_sample:
  "get_video_details sample_service ''abc'' =
     return (Some \<lparr>title = ''A video'', channel = ''A channel'',
                    details_published_at = ''2024-01-01T00:00:00Z'', view_count = ''100'',
                    like_count = ''0'', comment_count = ''4''\<rparr>)"
  by code_simp

end
