(* ===== verification/Extractor_Retry.thy ===== *)
theory Extractor_Retry
  imports Extractor_Loops Sample_Service
begin

text \<open>
  The retry of the request for a page (\<open>get_comments\<close> in
  \<open>src/youtube_extractor.py\<close>, the \<open>except HttpError\<close> inside the loop): a service
  that rejects the two extra parameters of the first attempt is, for the caller, the
  service without that restriction, at the price of a second request for every page.
  The proof is a simulation of one extraction by the other, in which the two states agree
  on everything but the log of the calls, and the logs are related by a parameter of the
  simulation. With the trivial relation the simulation shows that the log, which the code
  does not have, never influences what the code computes.
\<close>

section \<open>Definitions\<close>

text \<open>
  \<open>forget\<close> erases the log of the calls, which the code does not have; two states are
  the same by \<open>L\<close> when they differ at most in it and \<open>L\<close> relates their logs.
  \<open>observable\<close> is what a caller of \<open>get_comments\<close> can see of an outcome: the
  exception or the return, the rows and the report.
\<close>

definition forget :: "xstate \<Rightarrow> xstate" where
  "forget st = st\<lparr>calls := []\<rparr>"

definition same_by :: "(api_call list \<Rightarrow> api_call list \<Rightarrow> bool) \<Rightarrow> xstate \<Rightarrow> xstate \<Rightarrow> bool" where
  "same_by L st st' \<longleftrightarrow> forget st = forget st' \<and> L (calls st) (calls st')"

abbreviation any_log :: "api_call list \<Rightarrow> api_call list \<Rightarrow> bool" where
  "any_log \<equiv> \<lambda>xs ys. True"

text \<open>A relation of logs that a call to another endpoint than the threads keeps.\<close>

definition appends :: "(api_call list \<Rightarrow> api_call list \<Rightarrow> bool) \<Rightarrow> bool" where
  "appends L \<longleftrightarrow> (\<forall>xs ys c. L xs ys \<and> \<not> is_ThreadsList c \<longrightarrow> L (xs @ [c]) (ys @ [c]))"

text \<open>
  The log of a service that rejects the extra parameters, from the log of the service
  that accepts them: every request for a page is followed by the same request without
  them.
\<close>

definition retried :: "api_call \<Rightarrow> api_call list" where
  "retried c = (case c of ThreadsList req \<Rightarrow> [c, ThreadsList (req\<lparr>extended := False\<rparr>)] | _ \<Rightarrow> [c])"

definition retry_log :: "api_call list \<Rightarrow> api_call list" where
  "retry_log cs = concat (map retried cs)"

definition with_retries :: "api_call list \<Rightarrow> api_call list \<Rightarrow> bool" where
  "with_retries xs ys \<longleftrightarrow> ys = retry_log xs"

definition observable :: "xstate outcome \<Rightarrow> xstate outcome" where
  "observable = map_sum (map_prod id forget) forget"

text \<open>
  Two outcomes are alike when both raise the same exception in the same state, or both
  return values that \<open>R\<close> relates.
\<close>

definition alike ::
    "(api_call list \<Rightarrow> api_call list \<Rightarrow> bool) \<Rightarrow> ('a \<Rightarrow> 'a \<Rightarrow> bool) \<Rightarrow> 'a outcome \<Rightarrow> 'a outcome \<Rightarrow> bool" where
  "alike L R = rel_sum (rel_prod (=) (same_by L)) R"

abbreviation same_outcome ::
    "(api_call list \<Rightarrow> api_call list \<Rightarrow> bool) \<Rightarrow> xstate outcome \<Rightarrow> xstate outcome \<Rightarrow> bool" where
  "same_outcome L \<equiv> alike L (same_by L)"

text \<open>
  \<open>rejects_extended api api'\<close>: the service \<open>api'\<close> answers a request for threads
  that carries the extra parameters with an \<open>HttpError\<close> that names
  \<open>moderationStatus\<close>, and a request without them as \<open>api\<close> answers the one with
  them; \<open>api\<close> itself never raises such an error; the other endpoints are the same.
\<close>

definition rejects_extended :: "youtube \<Rightarrow> youtube \<Rightarrow> bool" where
  "rejects_extended api api' \<longleftrightarrow>
     videos_list api' = videos_list api \<and> comments_list api' = comments_list api \<and>
     search_list api' = search_list api \<and>
     (\<forall>req. \<exists>msg. commentThreads_list api' (req\<lparr>extended := True\<rparr>) = raise (HttpError msg)
                  \<and> contains ''moderationStatus'' msg) \<and>
     (\<forall>req. commentThreads_list api' (req\<lparr>extended := False\<rparr>)
              = commentThreads_list api (req\<lparr>extended := True\<rparr>)) \<and>
     (\<forall>req msg. commentThreads_list api req = raise (HttpError msg)
              \<longrightarrow> \<not> contains ''moderationStatus'' msg)"

text \<open>
  \<open>pages_alike L api api'\<close>: the requests for a page of the two services have like
  outcomes from like states, and the services agree on the other endpoints. The loops are
  compared under this interface; one service with any two logs, and a service with the
  retry beside the service without, implement it.
\<close>

definition pages_alike :: "(api_call list \<Rightarrow> api_call list \<Rightarrow> bool) \<Rightarrow> youtube \<Rightarrow> youtube \<Rightarrow> bool" where
  "pages_alike L api api' \<longleftrightarrow>
     appends L \<and> videos_list api' = videos_list api \<and> comments_list api' = comments_list api \<and>
     search_list api' = search_list api \<and>
     (\<forall>vid mx st st'. same_by L st st' \<longrightarrow>
        alike L (rel_prod (=) (same_by L)) (fetch_page api vid mx st) (fetch_page api' vid mx st'))"

section \<open>The log is a ghost\<close>

lemma same_by_iff:
  "same_by L st st' \<longleftrightarrow>
     comments st = comments st' \<and> info st = info st' \<and>
     next_page_token st = next_page_token st' \<and> empty_response st = empty_response st' \<and>
     L (calls st) (calls st')"
  by (cases st; cases st') (auto simp: same_by_def forget_def)

lemma same_by_refl [simp]: "same_by any_log st st" "same_by (=) st st"
  by (simp_all add: same_by_def)

lemma same_by_weaken: "same_by L st st' \<Longrightarrow> same_by any_log st st'"
  by (simp add: same_by_def)

lemma same_by_log_call:
  assumes "appends L" and "same_by L st st'" and "\<not> is_ThreadsList c"
  shows "same_by L (log_call c st) (log_call c st')"
  using assms by (simp add: same_by_iff appends_def)

lemma sameD:
  assumes "same_by L st st'"
  shows "comments st = comments st'" and "info st = info st'"
    and "next_page_token st = next_page_token st'" and "empty_response st = empty_response st'"
    and "n_comments st = n_comments st'" and "L (calls st) (calls st')"
  using assms by (simp_all add: same_by_iff n_comments_def)

lemma same_by_updates [simp]:
  assumes "same_by L st st'"
  shows "same_by L (append_comment c st) (append_comment c st')"
    and "same_by L (add_reason x st) (add_reason x st')"
    and "same_by L (st\<lparr>next_page_token := t\<rparr>) (st'\<lparr>next_page_token := t\<rparr>)"
    and "same_by L (st\<lparr>empty_response := b\<rparr>) (st'\<lparr>empty_response := b\<rparr>)"
    and "same_by L (st\<lparr>info := f (info st)\<rparr>) (st'\<lparr>info := f (info st')\<rparr>)"
    and "same_by L (note_filter m r st) (note_filter m r st')"
  using assms by (simp_all add: same_by_iff append_comment_def add_reason_def note_filter_def)

lemma alike_simps [simp]:
  "alike L R (Inr x) (Inr x') \<longleftrightarrow> R x x'"
  "alike L R (Inl (e, st)) (Inl (e', st')) \<longleftrightarrow> e = e' \<and> same_by L st st'"
  "\<not> alike L R (Inr x) (Inl y)" "\<not> alike L R (Inl y) (Inr x')"
  by (simp_all add: alike_def)

lemma alikeE:
  assumes "alike L R r r'"
  obtains (raised) e st st' where "r = Inl (e, st)" "r' = Inl (e, st')" "same_by L st st'"
  | (returned) x x' where "r = Inr x" "r' = Inr x'" "R x x'"
  using assms unfolding alike_def by (auto elim!: rel_sum.cases rel_prod.cases)

text \<open>Like outcomes are continued alike: the rule for a \<open>case\<close> that passes an exception on.\<close>

lemma alike_bind:
  assumes "alike L R r r'" and "\<And>x x'. R x x' \<Longrightarrow> alike L S (f x) (g x')"
  shows "alike L S (case r of Inl x \<Rightarrow> Inl x | Inr x \<Rightarrow> f x) (case r' of Inl x \<Rightarrow> Inl x | Inr x \<Rightarrow> g x)"
  using assms(1) by (cases rule: alikeE) (simp_all add: assms(2))

lemma observable_eq_iff: "observable r = observable r' \<longleftrightarrow> same_outcome any_log r r'"
  by (cases r; cases r') (auto simp: observable_def same_by_def)

lemma same_outcome_weaken: "same_outcome L r r' \<Longrightarrow> same_outcome any_log r r'"
  by (erule alikeE) (simp_all add: same_by_weaken)

lemma same_outcome_calls:
  "same_outcome L r r' \<Longrightarrow> L (calls (state_of r)) (calls (state_of r'))"
  by (erule alikeE) (simp_all add: sameD)

lemma retry_log_simps [simp]:
  "retry_log [] = []" "retry_log (cs @ ds) = retry_log cs @ retry_log ds"
  "retry_log [ThreadsList req] = [ThreadsList req, ThreadsList (req\<lparr>extended := False\<rparr>)]"
  "\<not> is_ThreadsList c \<Longrightarrow> retry_log [c] = [c]"
  by (simp_all add: retry_log_def retried_def is_ThreadsList_def split: api_call.splits)

lemma appends_simps [simp]: "appends any_log" "appends (=)" "appends with_retries"
  by (simp_all add: appends_def with_retries_def)

lemma same_add_replies:
  "same_by L st st' \<Longrightarrow> same_by L (add_replies mx parent rs st) (add_replies mx parent rs st')"
proof (induction rs arbitrary: st st')
  case Nil
  then show ?case by simp
next
  case (Cons reply rs)
  from Cons.prems have "same_by L (append_comment c st) (append_comment c st')" for c by simp
  from this sameD(5) [OF this] Cons.IH Cons.prems show ?case
    by (simp add: Let_def split: option.splits)
qed

lemma same_fetch_replies:
  assumes "same_by L st st'" and "appends L" and "comments_list api' = comments_list api"
  shows "same_outcome L (fetch_replies api mx parent item st) (fetch_replies api' mx parent item st')"
proof -
  have "same_by L (log_call (CommentsList p n) st) (log_call (CommentsList p n) st')" for p n
    using assms(2,1) by (rule same_by_log_call) simp
  with assms(1,3) sameD(5) [OF assms(1)] show ?thesis
    by (auto simp: fetch_replies_def Let_def same_add_replies split: option.splits sum.splits)
qed

lemma same_process_thread:
  assumes "same_by L st st'" and "appends L" and "comments_list api' = comments_list api"
  shows "same_outcome L (process_thread api mx m r item st) (process_thread api' mx m r item st')"
proof -
  from assms(1) have "same_by L (append_comment c st) (append_comment c st')" for c by simp
  from this sameD(5) [OF this] sameD(5) [OF assms(1)] assms show ?thesis
    by (auto simp: process_thread_def Let_def same_fetch_replies split: option.splits)
qed

lemma same_process_items:
  assumes "appends L" and "comments_list api' = comments_list api"
  shows "same_by L st st' \<Longrightarrow>
    same_outcome L (process_items api mx m r items st) (process_items api' mx m r items st')"
proof (induction items arbitrary: st st')
  case Nil
  then show ?case by simp
next
  case (Cons item items)
  from same_process_thread [OF Cons.prems assms, of mx m r item] Cons.IH show ?case
    unfolding process_items.simps by (rule alike_bind)
qed

text \<open>The rest of an iteration of the loop, after the items of the page.\<close>

lemma same_next_page:
  assumes "same_by L st2 st2'"
    and "\<And>s s'. Suc pc < 10 \<Longrightarrow> same_by L s s' \<Longrightarrow>
      same_outcome L (paging_loop api vid mx m r (Suc pc) s) (paging_loop api' vid mx m r (Suc pc) s')"
  shows "same_outcome L
      (let st3 = st2\<lparr>next_page_token := t\<rparr>
       in if no_token (next_page_token st3) \<or> mx \<le> n_comments st3 then Inr st3
          else if 10 \<le> Suc pc then Inr (add_reason PageLimit st3)
          else paging_loop api vid mx m r (Suc pc) st3)
      (let st3 = st2'\<lparr>next_page_token := t\<rparr>
       in if no_token (next_page_token st3) \<or> mx \<le> n_comments st3 then Inr st3
          else if 10 \<le> Suc pc then Inr (add_reason PageLimit st3)
          else paging_loop api' vid mx m r (Suc pc) st3)"
  using assms(1) sameD(5) [OF assms(1)] assms(2) by (simp add: Let_def not_le)

lemma same_paging_loop:
  assumes "pages_alike L api api'"
  shows "same_by L st st' \<Longrightarrow>
    same_outcome L (paging_loop api vid mx m r pc st) (paging_loop api' vid mx m r pc st')"
proof (induction pc st arbitrary: st' rule: paging_loop_induct)
  case (page pc st)
  from assms have L: "appends L" and replies: "comments_list api' = comments_list api"
    and fetch: "\<And>s s'. same_by L s s' \<Longrightarrow>
      alike L (rel_prod (=) (same_by L)) (fetch_page api vid mx s) (fetch_page api' vid mx s')"
    by (simp_all add: pages_alike_def)
  from fetch [OF page.prems] show ?case
    unfolding paging_loop.simps [of _ vid mx m r pc] sameD(5) [OF page.prems]
    by (auto intro!: alike_bind same_next_page same_process_items L replies page.IH
        simp: page.prems)
qed

lemma same_check_availability:
  assumes "same_by L st st'" and "appends L" and "videos_list api' = videos_list api"
  shows "alike L (rel_prod (=) (rel_prod (=) (same_by L)))
    (check_availability api vid mx st) (check_availability api' vid mx st')"
proof -
  let ?c = "VideosList ''statistics'' vid"
  have st1: "same_by L (log_call ?c st) (log_call ?c st')"
    using assms(2,1) by (rule same_by_log_call) simp
  then have "same_by L ((log_call ?c st)\<lparr>info := (info (log_call ?c st))\<lparr>available := n\<rparr>\<rparr>)
      ((log_call ?c st')\<lparr>info := (info (log_call ?c st'))\<lparr>available := n\<rparr>\<rparr>)" for n
    by (rule same_by_updates(5))
  with st1 assms(3) show ?thesis
    by (auto simp: check_availability_def Let_def split: sum.splits option.splits list.splits)
qed

lemma same_add_search_items:
  "same_by L st st' \<Longrightarrow> same_by L (add_search_items items ids st) (add_search_items items ids st')"
  by (induction items ids st arbitrary: st' rule: add_search_items.induct)
    (simp_all split: option.splits)

lemma same_alternative_method:
  assumes "same_by L st st'" and "appends L" and "search_list api' = search_list api"
  shows "same_by L (alternative_method api vid mx v st) (alternative_method api' vid mx v st')"
proof -
  have "same_by L (log_call (SearchList c n i) st) (log_call (SearchList c n i) st')" for c n i
    using assms(2,1) by (rule same_by_log_call) simp
  with assms(1,3) sameD [OF assms(1)] show ?thesis
    by (auto simp: alternative_method_def Let_def same_add_search_items
        split: sum.splits option.splits)
qed

lemma same_finish:
  assumes "same_by L st st'" and "appends L" and "search_list api' = search_list api"
  shows "same_by L (finish api vid mx v st) (finish api' vid mx v st')"
proof -
  let ?report = "\<lambda>s. s\<lparr>info := (info s)\<lparr>extracted := n_comments s\<rparr>\<rparr>"
  have report: "same_by L (?report s) (?report s')" if "same_by L s s'" for s s'
    using that by (simp add: same_by_iff n_comments_def)
  have alt: "same_by L (alternative_method api vid mx v s) (alternative_method api' vid mx v s')"
    if "same_by L s s'" for s s'
    using that assms(2,3) by (rule same_alternative_method)
  define st2 where "st2 api s = (let st1 = ?report s in
      if n_comments st1 < mx \<and> \<not> empty_response st1 \<and> n_comments st1 < available (info s)
      then add_reason MaybeFiltered st1 else st1)" for api :: youtube and s
  define st3 where "st3 api s = (let s2 = st2 api s in
      if n_comments s2 < min mx (available (info s)) \<and> n_comments s2 < available (info s)
      then alternative_method api vid mx v (add_reason TryingAlternative s2) else s2)" for api s
  have 2: "same_by L (st2 api st) (st2 api' st')"
    using report [OF assms(1)] sameD [OF assms(1)] sameD [OF report [OF assms(1)]]
    by (simp add: st2_def Let_def)
  have 3: "same_by L (st3 api st) (st3 api' st')"
    using 2 sameD [OF 2] sameD(2) [OF assms(1)] by (simp add: st3_def Let_def alt)
  have "finish api vid mx v s = (let st4 = ?report (st3 api s) in
      if n_comments st4 < min mx (available (info s))
      then add_reason ApiLimitations (add_reason NotAllExtracted st4) else st4)" for api s
    by (simp only: finish_def st3_def st2_def Let_def)
  with report [OF 3] sameD [OF report [OF 3]] sameD(2) [OF assms(1)] show ?thesis
    by (simp add: Let_def)
qed

lemma same_extraction:
  assumes "pages_alike L api api'" and "same_by L st st'"
  shows "same_outcome L (extraction api vid mx m r st) (extraction api' vid mx m r st')"
proof -
  from assms(1) have L: "appends L"
    and eq: "videos_list api' = videos_list api" "search_list api' = search_list api"
    by (simp_all add: pages_alike_def)
  from same_check_availability [OF assms(2) L eq(1), of vid mx] show ?thesis
    unfolding extraction_def Let_def
    by (rule alike_bind)
      (auto intro!: alike_bind [where R = "same_by L"] same_paging_loop assms(1)
        simp: same_finish [OF _ L eq(2)])
qed

lemma same_get_comments:
  assumes "pages_alike L api api'" and "L [] []"
  shows "same_outcome L (get_comments api url mx m r) (get_comments api' url mx m r)"
proof (cases "extract_video_id url")
  case None
  with assms(2) show ?thesis by (simp add: get_comments_def same_by_iff)
next
  case (Some vid)
  from assms(2) have "same_by L (init_state mx) (init_state mx)" by (simp add: same_by_iff)
  from same_extraction [OF assms(1) this, of vid mx m r] show ?thesis
    by (cases rule: alikeE) (simp_all add: get_comments_def Some)
qed

text \<open>One service, two logs: what \<open>extraction\<close> computes does not depend on the log.\<close>

lemma pages_alike_refl: "pages_alike any_log api api"
proof -
  have "alike any_log (rel_prod (=) (same_by any_log))
      (fetch_page api vid mx st) (fetch_page api vid mx st')"
    if "same_by any_log st st'" for vid mx st st'
    using that sameD(3,5) [OF that]
    by (auto simp: fetch_page_def Let_def same_by_iff split: sum.splits)
  then show ?thesis by (simp add: pages_alike_def)
qed

lemma log_is_ghost:
  assumes "forget st = forget st'"
  shows "observable (extraction api vid mx m r st) = observable (extraction api vid mx m r st')"
  using same_extraction [OF pages_alike_refl, of st st' api vid mx m r] assms
  by (simp add: observable_eq_iff same_by_def)

section \<open>The retry\<close>

lemma pages_alike_retry:
  assumes "rejects_extended api api'"
  shows "pages_alike with_retries api api'"
  unfolding pages_alike_def
proof (intro conjI allI impI)
  fix vid mx st st'
  assume st: "same_by with_retries st st'"
  let ?req = "\<lambda>s b. \<lparr>videoId = vid, maxResults = min 100 (mx - n_comments s),
                 pageToken = next_page_token s, extended = b\<rparr>"
  have req: "?req st' b = ?req st b" for b
    using sameD [OF st] by simp
  from assms obtain msg where
    first: "commentThreads_list api' (?req st True) = raise (HttpError msg)"
      "contains ''moderationStatus'' msg"
    unfolding rejects_extended_def
    by (metis (no_types, lifting) threads_request.update_convs(4))
  from assms have second: "commentThreads_list api' (?req st False)
      = commentThreads_list api (?req st True)"
    unfolding rejects_extended_def
    by (metis (no_types, lifting) threads_request.update_convs(4))
  from assms have quiet: "\<not> (is_HttpError e \<and> contains ''moderationStatus'' (message e))"
    if "commentThreads_list api (?req st True) = Inl e" for e
    using that unfolding rejects_extended_def by (cases e) (auto simp: message_def)
  from first second quiet st
  show "alike with_retries (rel_prod (=) (same_by with_retries))
      (fetch_page api vid mx st) (fetch_page api' vid mx st')"
    by (auto simp: fetch_page_def req Let_def message_def same_by_iff with_retries_def
        split: sum.splits)
qed (use assms in \<open>simp_all add: rejects_extended_def\<close>)

lemma moderated_rejects: "rejects_extended sample_service moderated_service"
proof -
  have "contains ''moderationStatus'' ''unknown parameter moderationStatus''"
    by code_simp
  then show ?thesis
    by (simp add: rejects_extended_def sample_service_def moderated_service_def sample_page_def)
qed

text \<open>
  C8. A service that rejects the extra parameters of the first attempt for a page and
  answers the second attempt is, for the caller of \<open>get_comments\<close>, the service
  without the restriction: the same exception or return, the same rows, the same report.
  It is asked twice for every page: its log is the log of the other service with every
  request for a page followed by the reduced one.
\<close>

theorem retry_transparent:
  assumes "rejects_extended api api'"
  shows "observable (get_comments api' url mx m r) = observable (get_comments api url mx m r)
    \<and> calls (state_of (get_comments api' url mx m r))
        = retry_log (calls (state_of (get_comments api url mx m r)))"
proof -
  have "same_outcome with_retries (get_comments api url mx m r) (get_comments api' url mx m r)"
    using pages_alike_retry [OF assms] by (rule same_get_comments) (simp add: with_retries_def)
  from same_outcome_weaken [OF this] same_outcome_calls [OF this] show ?thesis
    by (simp add: observable_eq_iff [symmetric] with_retries_def)
qed

theorem retry_transparent_witness:
  "rejects_extended sample_service moderated_service
   \<and> observable (get_comments moderated_service ''https://youtu.be/abc'' 5 True True)
     = observable (get_comments sample_service ''https://youtu.be/abc'' 5 True True)
   \<and> calls (state_of (get_comments moderated_service ''https://youtu.be/abc'' 5 True True))
     = retry_log (calls (state_of (get_comments sample_service ''https://youtu.be/abc'' 5 True True)))"
  using retry_transparent [of sample_service moderated_service "''https://youtu.be/abc''" 5 True True]
    moderated_rejects
  by simp

end
