(* ===== verification/Response_Parser.thy ===== *)
theory Response_Parser
  imports Py_String "HOL-Library.AList"
begin

text \<open>
  The parsing of the model's answer in \<open>GeminiSentimentAnalyzer.analyze_sentiment\<close>
  (\<open>src/sentiment_analyzer.py\<close>, lines 89 to 176): the code fences are removed, the
  text is decoded as JSON, a text that does not decode is searched for a part in braces,
  then for the three fields, then for a keyword; missing fields get defaults, the label
  is normalised, and every exception on the way becomes a row with the label \<open>erro\<close>.
  \<open>json.loads\<close> is a parameter: a function from a text to the value it decodes to, or
  \<open>None\<close> for a \<open>JSONDecodeError\<close>.
\<close>

section \<open>Values\<close>

text \<open>
  A number is an \<open>int\<close> or a \<open>float\<close>; a float is kept as the decimal it was written
  as, \<open>DecNum m e\<close> for \<open>m / 10 ^ e\<close>. A dictionary is the list of its items in the order
  of insertion, with distinct keys.
\<close>

datatype number = IntNum int | DecNum int nat

datatype json =
    JNull
  | JBool bool
  | JNum number
  | JStr string
  | JList "json list"
  | JDict "(string \<times> json) list"

type_synonym pydict = "(string \<times> json) list"

text \<open>\<open>k in d\<close>, \<open>d[k] = v\<close> and \<open>d.get(k)\<close> on a dictionary.\<close>

definition has_key :: "string \<Rightarrow> pydict \<Rightarrow> bool" where
  "has_key k d \<longleftrightarrow> k \<in> set (map fst d)"

definition dict_set :: "string \<Rightarrow> json \<Rightarrow> pydict \<Rightarrow> pydict" where
  "dict_set k v d = AList.update k v d"

definition dict_get :: "string \<Rightarrow> pydict \<Rightarrow> json option" where
  "dict_get k d = map_of d k"

text \<open>The name of the type of a value, as the messages of \<open>TypeError\<close> print it.\<close>

definition type_name :: "json \<Rightarrow> string" where
  "type_name v = (case v of
      JNull \<Rightarrow> ''NoneType'' | JBool _ \<Rightarrow> ''bool'' | JNum (IntNum _) \<Rightarrow> ''int''
    | JNum (DecNum _ _) \<Rightarrow> ''float'' | JStr _ \<Rightarrow> ''str'' | JList _ \<Rightarrow> ''list''
    | JDict _ \<Rightarrow> ''dict'')"

section \<open>The text of the answer\<close>

text \<open>
  \<open>response.text.strip()\<close>, then
  \<open>.replace('```json', '').replace('```', '').strip()\<close>.
\<close>

definition fence :: string where
  "fence = [CHR 0x60, CHR 0x60, CHR 0x60]"

definition clean_response :: "string \<Rightarrow> string" where
  "clean_response text = strip (replace fence [] (replace (fence @ ''json'') [] (strip text)))"

text \<open>
  \<open>re.search(r'\{.*\}', json_str, re.DOTALL)\<close>: from the first opening brace to the
  last closing brace after it.
\<close>

definition brace_match :: "string \<Rightarrow> string option" where
  "brace_match s =
     (case dropWhile (\<lambda>c. c \<noteq> CHR ''{'') s of
        [] \<Rightarrow> None
      | _ # rest \<Rightarrow>
          (case rev (dropWhile (\<lambda>c. c \<noteq> CHR ''}'') (rev rest)) of
             [] \<Rightarrow> None
           | body \<Rightarrow> Some (CHR ''{'' # body)))"

section \<open>The fields by regular expression\<close>

definition quote :: char where
  "quote = CHR 0x22"

text \<open>\<open>"key"\s*:\s*\<close> at one position: the rest of the text after it.\<close>

definition after_key :: "string \<Rightarrow> string \<Rightarrow> string option" where
  "after_key key s =
     (case match_lit ([quote] @ key @ [quote]) s of
        None \<Rightarrow> None
      | Some r \<Rightarrow>
          (case dropWhile is_space r of
             [] \<Rightarrow> None
           | c # r' \<Rightarrow> if c = CHR '':'' then Some (dropWhile is_space r') else None))"

text \<open>\<open>"key"\s*:\s*"([^"]+)"\<close> at one position: the group.\<close>

definition match_string_field :: "string \<Rightarrow> string \<Rightarrow> string option" where
  "match_string_field key s =
     (case after_key key s of
        None \<Rightarrow> None
      | Some r \<Rightarrow>
          (case r of
             [] \<Rightarrow> None
           | c # r' \<Rightarrow>
               let v = takeWhile (\<lambda>x. x \<noteq> quote) r'
               in if c = quote \<and> v \<noteq> [] \<and> dropWhile (\<lambda>x. x \<noteq> quote) r' \<noteq> []
                  then Some v else None))"

text \<open>
  The group \<open>([-+]?\d*\.\d+|\d+)\<close> at one position. The first alternative needs the
  point and a digit after it; when it fails, the second takes a run of digits, which a
  sign in front rules out.
\<close>

definition match_number :: "string \<Rightarrow> string option" where
  "match_number s =
     (let (sign, r) = (case s of
             c # cs \<Rightarrow> if c = CHR ''-'' \<or> c = CHR ''+'' then ([c], cs) else ([], s)
           | [] \<Rightarrow> ([], s));
          whole = takeWhile is_digit r;
          after = dropWhile is_digit r;
          frac = takeWhile is_digit (tl after)
      in if after \<noteq> [] \<and> hd after = CHR ''.'' \<and> frac \<noteq> []
         then Some (sign @ whole @ ''.'' @ frac)
         else if takeWhile is_digit s \<noteq> [] then Some (takeWhile is_digit s) else None)"

text \<open>\<open>"score"\s*:\s*([-+]?\d*\.\d+|\d+)\<close> at one position: the group.\<close>

definition match_score_field :: "string \<Rightarrow> string option" where
  "match_score_field s = (case after_key ''score'' s of None \<Rightarrow> None | Some r \<Rightarrow> match_number r)"

text \<open>\<open>float(group)\<close> for a group of \<open>match_number\<close>.\<close>

definition py_float :: "string \<Rightarrow> number" where
  "py_float g =
     (let neg = (g \<noteq> [] \<and> hd g = CHR ''-'');
          frac = (if CHR ''.'' \<in> set g then tl (dropWhile (\<lambda>c. c \<noteq> CHR ''.'') g) else []);
          m = int (digits_nat g)
      in DecNum (if neg then - m else m) (length frac))"

definition no_explanation_found :: string where
  "no_explanation_found =
        ''N'' @ [CHR 0xC3, CHR 0xA3] @ ''o foi poss'' @ [CHR 0xC3, CHR 0xAD]
        @ ''vel extrair explica'' @ [CHR 0xC3, CHR 0xA7, CHR 0xC3, CHR 0xA3]
        @ ''o''"

text \<open>The dictionary rebuilt from the three searches.\<close>

definition regex_fields :: "string \<Rightarrow> pydict" where
  "regex_fields s =
     [(''sentiment'',
        JStr (case search (match_string_field ''sentiment'') s of None \<Rightarrow> ''neutro'' | Some v \<Rightarrow> v)),
      (''score'',
        JNum (case search match_score_field s of None \<Rightarrow> DecNum 0 1 | Some g \<Rightarrow> py_float g)),
      (''explanation'',
        JStr (case search (match_string_field ''explanation'') s of
                None \<Rightarrow> no_explanation_found | Some v \<Rightarrow> v))]"

section \<open>The label by keyword\<close>

definition unstructured_explanation :: string where
  "unstructured_explanation =
        ''An'' @ [CHR 0xC3, CHR 0xA1] @ ''lise baseada em texto n''
        @ [CHR 0xC3, CHR 0xA3] @ ''o estruturado devido a erro de formata''
        @ [CHR 0xC3, CHR 0xA7, CHR 0xC3, CHR 0xA3] @ ''o JSON''"

definition keyword_guess :: "string \<Rightarrow> string \<times> number" where
  "keyword_guess s =
     (if contains ''positivo'' (lower s) then (''positivo'', DecNum 7 1)
      else if contains ''negativo'' (lower s) then (''negativo'', DecNum (- 7) 1)
      else (''neutro'', DecNum 0 1))"

definition keyword_fields :: "string \<Rightarrow> pydict" where
  "keyword_fields s =
     (let (sentiment, score) = keyword_guess s
      in [(''sentiment'', JStr sentiment), (''score'', JNum score),
          (''explanation'', JStr unstructured_explanation)])"

section \<open>Decoding\<close>

text \<open>
  The handler of \<open>JSONDecodeError\<close>: the part in braces is decoded if there is one, and
  when that fails too the fields are searched; without braces the keyword decides.
\<close>

definition recover :: "(string \<Rightarrow> json option) \<Rightarrow> string \<Rightarrow> json" where
  "recover loads s =
     (case brace_match s of
        Some corrected_json \<Rightarrow>
          (case loads corrected_json of
             Some result \<Rightarrow> result
           | None \<Rightarrow> JDict (regex_fields s))
      | None \<Rightarrow> JDict (keyword_fields s))"

definition decode :: "(string \<Rightarrow> json option) \<Rightarrow> string \<Rightarrow> json" where
  "decode loads s = (case loads s of Some result \<Rightarrow> result | None \<Rightarrow> recover loads s)"

section \<open>Defaults and the label\<close>

definition not_iterable :: "json \<Rightarrow> exn" where
  "not_iterable v =
     TypeError (''argument of type '' @ [CHR 0x27] @ type_name v @ [CHR 0x27] @ '' is not iterable'')"

text \<open>\<open>k in result\<close> for any value.\<close>

definition py_in :: "string \<Rightarrow> json \<Rightarrow> bool result" where
  "py_in k result =
     (case result of
        JDict d \<Rightarrow> return (has_key k d)
      | JList xs \<Rightarrow> return (JStr k \<in> set xs)
      | JStr s \<Rightarrow> return (contains k s)
      | _ \<Rightarrow> raise (not_iterable result))"

definition no_explanation_given :: string where
  "no_explanation_given =
        ''N'' @ [CHR 0xC3, CHR 0xA3] @ ''o foi fornecida explica''
        @ [CHR 0xC3, CHR 0xA7, CHR 0xC3, CHR 0xA3] @ ''o''"

text \<open>
  The check for the three fields and the defaults. Only a dictionary takes an item by
  key: a list or a string raises \<open>TypeError\<close> at the first assignment, or, when it
  holds all three names, at \<open>result["sentiment"]\<close> of the normalisation.
\<close>

definition fill_defaults :: "json \<Rightarrow> pydict result" where
  "fill_defaults result =
     (case result of
        JDict d \<Rightarrow>
          let d1 = (if has_key ''sentiment'' d then d else dict_set ''sentiment'' (JStr ''neutro'') d);
              d2 = (if has_key ''score'' d1 then d1 else dict_set ''score'' (JNum (DecNum 0 1)) d1);
              d3 = (if has_key ''explanation'' d2 then d2
                    else dict_set ''explanation'' (JStr no_explanation_given) d2)
          in return d3
      | JList xs \<Rightarrow> raise (TypeError ''list indices must be integers or slices, not str'')
      | JStr s \<Rightarrow>
          if contains ''sentiment'' s \<and> contains ''score'' s \<and> contains ''explanation'' s
          then raise (TypeError (''string indices must be integers, not '' @ [CHR 0x27] @ ''str''
                 @ [CHR 0x27]))
          else raise (TypeError ([CHR 0x27] @ ''str'' @ [CHR 0x27]
                 @ '' object does not support item assignment''))
      | _ \<Rightarrow> raise (not_iterable result))"

text \<open>
  The normalisation of the label: \<open>result["sentiment"].lower()\<close> is an
  \<open>AttributeError\<close> when the label is not a string.
\<close>

definition normalize_label :: "string \<Rightarrow> string" where
  "normalize_label s =
     (if lower s \<in> set [''positivo'', ''positive''] then ''positivo''
      else if lower s \<in> set [''negativo'', ''negative''] then ''negativo''
      else ''neutro'')"

definition normalize :: "pydict \<Rightarrow> pydict result" where
  "normalize d =
     (case dict_get ''sentiment'' d of
        None \<Rightarrow> raise (KeyError ''sentiment'')
      | Some (JStr s) \<Rightarrow> return (dict_set ''sentiment'' (JStr (normalize_label s)) d)
      | Some v \<Rightarrow>
          raise (AttributeError ([CHR 0x27] @ type_name v @ [CHR 0x27]
            @ '' object has no attribute '' @ [CHR 0x27] @ ''lower'' @ [CHR 0x27])))"

section \<open>The row\<close>

definition error_prefix :: string where
  "error_prefix = ''Erro na an'' @ [CHR 0xC3, CHR 0xA1] @ ''lise: ''"

text \<open>The row of the outer \<open>except\<close>.\<close>

definition error_row :: "exn \<Rightarrow> pydict" where
  "error_row e =
     [(''sentiment'', JStr ''erro''), (''score'', JNum (IntNum 0)),
      (''explanation'', JStr (error_prefix @ message e))]"

text \<open>From the text of the answer to the row: lines 89 to 176.\<close>

definition parse_response :: "(string \<Rightarrow> json option) \<Rightarrow> string \<Rightarrow> pydict" where
  "parse_response loads text =
     (case fill_defaults (decode loads (clean_response text)) of
        Inl e \<Rightarrow> error_row e
      | Inr d \<Rightarrow> (case normalize d of Inl e \<Rightarrow> error_row e | Inr row \<Rightarrow> row))"

section \<open>Well-formed rows\<close>

text \<open>The four labels, and what every row of \<open>parse_response\<close> looks like.\<close>

definition labels :: "string list" where
  "labels = [''positivo'', ''negativo'', ''neutro'', ''erro'']"

definition result_ok :: "pydict \<Rightarrow> bool" where
  "result_ok row \<longleftrightarrow>
     has_key ''score'' row \<and> has_key ''explanation'' row \<and>
     (case dict_get ''sentiment'' row of Some (JStr s) \<Rightarrow> s \<in> set labels | _ \<Rightarrow> False)"

declare has_key_def [model_defs] dict_set_def [model_defs] dict_get_def [model_defs]
  fence_def [model_defs] clean_response_def [model_defs] brace_match_def [model_defs]
  quote_def [model_defs] after_key_def [model_defs] match_string_field_def [model_defs]
  match_number_def [model_defs] match_score_field_def [model_defs] py_float_def [model_defs]
  regex_fields_def [model_defs] keyword_guess_def [model_defs] keyword_fields_def [model_defs] recover_def [model_defs]
  decode_def [model_defs] fill_defaults_def [model_defs] normalize_label_def [model_defs]
  normalize_def [model_defs] error_row_def [model_defs] parse_response_def [model_defs]

section \<open>Lemmas\<close>

lemma has_key_dict_set [simp]: "has_key k (dict_set k' v d) \<longleftrightarrow> k = k' \<or> has_key k d"
  by (auto simp: has_key_def dict_set_def dom_update)

lemma dict_get_dict_set [simp]:
  "dict_get k (dict_set k' v d) = (if k = k' then Some v else dict_get k d)"
  by (simp add: dict_get_def dict_set_def update_conv')

lemma distinct_dict_set [simp]:
  "distinct (map fst d) \<Longrightarrow> distinct (map fst (dict_set k v d))"
  by (simp add: dict_set_def distinct_update)

lemma has_key_iff: "has_key k d \<longleftrightarrow> dict_get k d \<noteq> None"
  by (simp add: has_key_def dict_get_def map_of_eq_None_iff)

lemma dict_set_same: "dict_get k d = Some v \<Longrightarrow> distinct (map fst d) \<Longrightarrow> dict_set k v d = d"
  unfolding dict_get_def dict_set_def
  by (induction d) (auto simp: rev_image_eqI)

lemma normalize_label_labels [simp]: "normalize_label s \<in> set labels"
  by (simp add: normalize_label_def labels_def)

lemma normalize_label_not_erro [simp]: "normalize_label s \<noteq> ''erro''"
  by (simp add: normalize_label_def)

lemma normalize_label_fixed [simp]:
  "normalize_label ''positivo'' = ''positivo''" "normalize_label ''negativo'' = ''negativo''"
  "normalize_label ''neutro'' = ''neutro''"
  by code_simp+

lemma result_ok_error_row [simp]: "result_ok (error_row e)"
  by (simp add: result_ok_def error_row_def has_key_def dict_get_def labels_def)

lemma error_row_sentiment [simp]: "dict_get ''sentiment'' (error_row e) = Some (JStr ''erro'')"
  by (simp add: error_row_def dict_get_def)

lemma fill_defaults_Inr:
  assumes "fill_defaults v = Inr d"
  shows "has_key ''sentiment'' d" "has_key ''score'' d" "has_key ''explanation'' d"
  using assms by (auto simp: fill_defaults_def Let_def split: json.splits if_splits)

lemma fill_defaults_JDict:
  "fill_defaults (JDict d) = Inr d'
    \<Longrightarrow> dict_get ''sentiment'' d' = (if has_key ''sentiment'' d then dict_get ''sentiment'' d
          else Some (JStr ''neutro''))"
  by (auto simp: fill_defaults_def Let_def)

lemma fill_defaults_complete:
  "has_key ''sentiment'' d \<Longrightarrow> has_key ''score'' d \<Longrightarrow> has_key ''explanation'' d \<Longrightarrow>
     fill_defaults (JDict d) = Inr d"
  by (simp add: fill_defaults_def)

lemma fill_defaults_Inl: "(\<exists>e. fill_defaults v = Inl e) \<longleftrightarrow> (\<forall>d. v \<noteq> JDict d)"
  by (auto simp: fill_defaults_def Let_def split: json.splits)

lemma normalize_Inr:
  assumes "normalize d = Inr row"
  shows "\<exists>s. dict_get ''sentiment'' d = Some (JStr s)
    \<and> row = dict_set ''sentiment'' (JStr (normalize_label s)) d"
  using assms by (auto simp: normalize_def split: option.splits json.splits)

lemma normalize_sentiment:
  "normalize d = Inr row \<Longrightarrow> dict_get ''sentiment'' row \<noteq> Some (JStr ''erro'')"
  by (auto dest!: normalize_Inr)

lemma keyword_fields_eq:
  "keyword_fields s =
     [(''sentiment'', JStr (fst (keyword_guess s))), (''score'', JNum (snd (keyword_guess s))),
      (''explanation'', JStr unstructured_explanation)]"
  by (simp add: keyword_fields_def split: prod.splits)

lemma keyword_guess_label [simp]:
  "normalize_label (fst (keyword_guess s)) = fst (keyword_guess s)"
  by (simp add: keyword_guess_def)

lemma match_number_signed_integer:
  assumes "c = CHR ''-'' \<or> c = CHR ''+''"
    and "dropWhile is_digit cs = [] \<or> hd (dropWhile is_digit cs) \<noteq> CHR ''.''"
  shows "match_number (c # cs) = None"
  using assms by (auto simp: match_number_def Let_def char_eval)


lemma brace_match_SomeI:
  assumes "CHR ''{'' \<notin> set pre" and "CHR ''}'' \<notin> set post"
  shows "brace_match (pre @ CHR ''{'' # body @ CHR ''}'' # post) = Some (CHR ''{'' # body @ [CHR ''}''])"
proof -
  from assms(1) have first: "dropWhile (\<lambda>c. c \<noteq> CHR ''{'') (pre @ CHR ''{'' # body @ CHR ''}'' # post)
      = CHR ''{'' # body @ CHR ''}'' # post"
    by (simp add: dropWhile_append)
  from assms(2) have "dropWhile (\<lambda>c. c \<noteq> CHR ''}'') (rev post @ CHR ''}'' # rev body)
      = CHR ''}'' # rev body"
    by (simp add: dropWhile_append)
  with first show ?thesis by (simp add: brace_match_def split: list.splits)
qed

lemma brace_match_SomeD:
  assumes "brace_match s = Some m"
  shows "\<exists>pre body post. s = pre @ CHR ''{'' # body @ CHR ''}'' # post \<and>
    CHR ''{'' \<notin> set pre \<and> CHR ''}'' \<notin> set post \<and> m = CHR ''{'' # body @ [CHR ''}'']"
proof -
  let ?pre = "takeWhile (\<lambda>c. c \<noteq> CHR ''{'') s"
  from assms obtain c rest where rest: "dropWhile (\<lambda>c. c \<noteq> CHR ''{'') s = c # rest"
    by (auto simp: brace_match_def split: list.splits)
  from dropWhile_Cons_head [OF rest] have c: "c = CHR ''{''" by simp
  have s: "s = ?pre @ CHR ''{'' # rest"
    using takeWhile_dropWhile_id [of "\<lambda>c. c \<noteq> CHR ''{''" s] rest c by simp
  let ?d = "dropWhile (\<lambda>c. c \<noteq> CHR ''}'') (rev rest)"
  let ?post = "rev (takeWhile (\<lambda>c. c \<noteq> CHR ''}'') (rev rest))"
  from assms rest have ne: "?d \<noteq> []" and m: "m = CHR ''{'' # rev ?d"
    by (auto simp: brace_match_def simp del: dropWhile_eq_Nil_conv split: list.splits)
  then obtain x xs where d: "?d = x # xs" by (cases ?d) auto
  from dropWhile_Cons_head [OF d] have x: "x = CHR ''}''" by simp
  have "rest = rev ?d @ ?post" by (rule rev_dropWhile_rev)
  with d x have rest': "rest = rev xs @ CHR ''}'' # ?post" by simp
  have "CHR ''{'' \<notin> set ?pre" by (auto dest: set_takeWhileD)
  moreover have "CHR ''}'' \<notin> set ?post" by (auto dest: set_takeWhileD)
  ultimately show ?thesis
    using s rest' m d x by (intro exI [of _ ?pre] exI [of _ "rev xs"] exI [of _ ?post]) simp
qed

section \<open>The shape of the row\<close>

lemma result_ok_parse_response [simp]: "result_ok (parse_response loads text)"
proof (cases "fill_defaults (decode loads (clean_response text))")
  case (Inl e)
  then show ?thesis by (simp add: parse_response_def)
next
  case (Inr d)
  show ?thesis
  proof (cases "normalize d")
    case (Inl e)
    with Inr show ?thesis by (simp add: parse_response_def)
  next
    case row: (Inr row)
    from normalize_Inr [OF row] fill_defaults_Inr [OF Inr] Inr row show ?thesis
      by (auto simp: parse_response_def result_ok_def)
  qed
qed

text \<open>
  C10. \<open>parse_response\<close> is total and its row always has the three fields, with a
  label that is one of \<open>positivo\<close>, \<open>negativo\<close>, \<open>neutro\<close> and \<open>erro\<close>, whatever
  the decoder returns.
\<close>

theorem result_shape:
  "has_key ''sentiment'' (parse_response loads text) \<and>
   has_key ''score'' (parse_response loads text) \<and>
   has_key ''explanation'' (parse_response loads text) \<and>
   (\<exists>s. dict_get ''sentiment'' (parse_response loads text) = Some (JStr s) \<and> s \<in> set labels)"
  using result_ok_parse_response [of loads "text"]
  by (auto simp: result_ok_def has_key_iff split: option.splits json.splits)


text \<open>
  C32. The label is \<open>erro\<close> exactly when the decoded value is not a dictionary, or is a
  dictionary whose \<open>sentiment\<close> is not a string.
\<close>

theorem error_label_iff:
  "dict_get ''sentiment'' (parse_response loads text) = Some (JStr ''erro'') \<longleftrightarrow>
     (case decode loads (clean_response text) of
        JDict d \<Rightarrow> (case dict_get ''sentiment'' d of Some (JStr s) \<Rightarrow> False | Some _ \<Rightarrow> True
                    | None \<Rightarrow> False)
      | _ \<Rightarrow> True)"
proof (cases "decode loads (clean_response text)")
  case (JDict d)
  then obtain d' where d': "fill_defaults (JDict d) = Inr d'"
    by (auto simp: fill_defaults_def Let_def)
  note label = fill_defaults_JDict [OF d']
  show ?thesis
  proof (cases "normalize d'")
    case (Inl e)
    with JDict d' label show ?thesis
      by (auto simp: parse_response_def normalize_def has_key_iff
          split: option.splits json.splits if_splits)
  next
    case (Inr row)
    from normalize_Inr [OF Inr] normalize_sentiment [OF Inr] JDict d' label Inr show ?thesis
      by (auto simp: parse_response_def has_key_iff split: option.splits json.splits if_splits)
  qed
qed (simp_all add: parse_response_def fill_defaults_def)

section \<open>The tiers\<close>

text \<open>
  C33. An answer that decodes to a dictionary with the three fields and a string for a
  label is returned as it is, the label normalised: the score and the explanation are
  not looked at.
\<close>

theorem decoded_object:
  assumes "loads (clean_response text) = Some (JDict d)"
    and "dict_get ''sentiment'' d = Some (JStr s)"
    and "has_key ''score'' d" and "has_key ''explanation'' d"
  shows "parse_response loads text = dict_set ''sentiment'' (JStr (normalize_label s)) d"
  using assms
  by (simp add: parse_response_def decode_def fill_defaults_complete has_key_iff normalize_def)

definition canonical_answer :: string where
  "canonical_answer = ''{'' @ [quote] @ ''sentiment'' @ [quote] @ '':'' @ [quote] @ ''positive'' @ [quote] @ '','' @ [quote] @ ''score'' @ [quote] @ '':0.8,'' @ [quote] @ ''explanation'' @ [quote] @ '':'' @ [quote] @ ''x'' @ [quote] @ ''}''"

theorem decoded_object_witness:
  "parse_response
     (\<lambda>s. if s = canonical_answer
          then Some (JDict [(''sentiment'', JStr ''positive''), (''score'', JNum (DecNum 8 1)),
                            (''explanation'', JStr ''x'')])
          else None)
     (fence @ ''json'' @ [CHR 0x0A] @ canonical_answer @ [CHR 0x0A] @ fence)
   = [(''sentiment'', JStr ''positivo''), (''score'', JNum (DecNum 8 1)),
      (''explanation'', JStr ''x'')]"
proof -
  let ?d = "[(''sentiment'', JStr ''positive''), (''score'', JNum (DecNum 8 1)),
             (''explanation'', JStr ''x'')]"
  let ?loads = "\<lambda>s. if s = canonical_answer then Some (JDict ?d) else None"
  let ?text = "fence @ ''json'' @ [CHR 0x0A] @ canonical_answer @ [CHR 0x0A] @ fence"
  have clean: "clean_response ?text = canonical_answer" by code_simp
  have label: "normalize_label ''positive'' = ''positivo''" by code_simp
  have "parse_response ?loads ?text = dict_set ''sentiment'' (JStr (normalize_label ''positive'')) ?d"
    by (rule decoded_object [where d = ?d], unfold clean)
      (simp_all add: has_key_def dict_get_def)
  then show ?thesis by (simp add: label dict_set_def)
qed

text \<open>
  C34. A text that does not decode and has no part in braces is classified by keyword:
  the row is the keyword's label with the score 0.7, -0.7 or 0.0.
\<close>

theorem keyword_fallback:
  assumes "loads (clean_response text) = None" and "brace_match (clean_response text) = None"
  shows "parse_response loads text = keyword_fields (clean_response text)"
  using assms
  by (simp add: parse_response_def decode_def recover_def keyword_fields_eq fill_defaults_def
      has_key_def normalize_def dict_get_def dict_set_def)


theorem keyword_fallback_witness:
  "parse_response (\<lambda>s. None) ''Resultado: positivo, sem JSON valido''
     = [(''sentiment'', JStr ''positivo''), (''score'', JNum (DecNum 7 1)),
        (''explanation'', JStr unstructured_explanation)]"
proof -
  have "keyword_fields (clean_response ''Resultado: positivo, sem JSON valido'')
      = [(''sentiment'', JStr ''positivo''), (''score'', JNum (DecNum 7 1)),
         (''explanation'', JStr unstructured_explanation)]"
    by code_simp
  moreover have "brace_match (clean_response ''Resultado: positivo, sem JSON valido'') = None"
    by code_simp
  ultimately show ?thesis
    using keyword_fallback [of "\<lambda>s. None" "''Resultado: positivo, sem JSON valido''"] by simp
qed

text \<open>
  C35. A text with a part in braces that does not decode either is searched for the
  three fields, and the row is made of what the searches find and of the defaults for
  the rest: the keywords are not looked for.
\<close>

theorem regex_fallback:
  assumes "loads (clean_response text) = None"
    and "brace_match (clean_response text) = Some b" and "loads b = None"
  shows "parse_response loads text =
    (let s = clean_response text;
         label = (case search (match_string_field ''sentiment'') s of
                    None \<Rightarrow> ''neutro'' | Some v \<Rightarrow> v)
     in dict_set ''sentiment'' (JStr (normalize_label label)) (regex_fields s))"
  using assms
  by (simp add: parse_response_def decode_def recover_def regex_fields_def fill_defaults_def
      has_key_def normalize_def dict_get_def Let_def)

definition trailing_comma_answer :: string where
  "trailing_comma_answer = ''{'' @ [quote] @ ''sentiment'' @ [quote] @ '': '' @ [quote] @ ''negativo'' @ [quote] @ '', '' @ [quote] @ ''score'' @ [quote] @ '': '' @ ''-1'' @ '', '' @ [quote] @ ''explanation'' @ [quote] @ '': '' @ [quote] @ ''ruim'' @ [quote] @ '',}''"

theorem regex_fallback_witness:
  "parse_response (\<lambda>s. None) trailing_comma_answer
     = [(''sentiment'', JStr ''negativo''), (''score'', JNum (DecNum 0 1)),
        (''explanation'', JStr ''ruim'')]"
proof -
  have "brace_match (clean_response trailing_comma_answer) = Some trailing_comma_answer"
    by code_simp
  from regex_fallback [of "\<lambda>s. None" trailing_comma_answer, OF refl this refl]
  have "parse_response (\<lambda>s. None) trailing_comma_answer =
    (let s = clean_response trailing_comma_answer;
         label = (case search (match_string_field ''sentiment'') s of
                    None \<Rightarrow> ''neutro'' | Some v \<Rightarrow> v)
     in dict_set ''sentiment'' (JStr (normalize_label label)) (regex_fields s))" .
  also have "\<dots> = [(''sentiment'', JStr ''negativo''), (''score'', JNum (DecNum 0 1)),
        (''explanation'', JStr ''ruim'')]"
    by code_simp
  finally show ?thesis .
qed



section \<open>The part in braces\<close>

text \<open>
  \<open>brace_match\<close> finds the text from the first opening brace to the last closing
  brace after it, and nothing when no closing brace follows an opening one.
\<close>

theorem brace_match_spec:
  "brace_match s = Some m \<longleftrightarrow>
     (\<exists>pre body post. s = pre @ CHR ''{'' # body @ CHR ''}'' # post \<and>
        CHR ''{'' \<notin> set pre \<and> CHR ''}'' \<notin> set post \<and> m = CHR ''{'' # body @ [CHR ''}''])"
  by (auto dest: brace_match_SomeD simp: brace_match_SomeI)



end
