(* ===== verification/Sentiment_Analyzer.thy ===== *)
theory Sentiment_Analyzer
  imports Rate_Limiter Response_Parser
begin

text \<open>
  \<open>GeminiSentimentAnalyzer.analyze_sentiment\<close> and \<open>batch_analyze\<close>
  (\<open>src/sentiment_analyzer.py\<close>): the prompt, the call through the limiter, the
  model's answer turned into a row, and the loop over the comments in batches. The
  model, the decoder and the passing of time are the environment.
\<close>

section \<open>The prompt\<close>

text \<open>
  The two templates, as the bytes of the source's text. \<open>custom_head\<close> comes before
  the caller's prompt, \<open>custom_contract\<close> between it and the quoted comment,
  \<open>default_instructions\<close> before the quoted comment when there is no prompt of the
  caller's, \<open>prompt_tail\<close> after the closing quote.
\<close>

definition custom_head :: string where
  "custom_head =
       [CHR 0x0A] @ ''            ''"

definition custom_contract :: string where
  "custom_contract =
       [CHR 0x0A, CHR 0x0A] @ ''            IMPORTANTE: Independente da an''
       @ [CHR 0xC3, CHR 0xA1]
       @ ''lise solicitada, retorne SEMPRE um objeto JSON v''
       @ [CHR 0xC3, CHR 0xA1]
       @ ''lido com as seguintes chaves, sem nenhum texto adicional:''
       @ [CHR 0x0A] @ ''            - sentiment: '' @ [CHR 0x22] @ ''positivo''
       @ [CHR 0x22] @ '', '' @ [CHR 0x22] @ ''negativo'' @ [CHR 0x22] @ '' ou ''
       @ [CHR 0x22] @ ''neutro'' @ [CHR 0x22, CHR 0x0A]
       @ ''            - score: um n'' @ [CHR 0xC3, CHR 0xBA]
       @ ''mero entre -1 e 1 (sem aspas)'' @ [CHR 0x0A]
       @ ''            - explanation: uma breve explica''
       @ [CHR 0xC3, CHR 0xA7, CHR 0xC3, CHR 0xA3] @ ''o da classifica''
       @ [CHR 0xC3, CHR 0xA7, CHR 0xC3, CHR 0xA3] @ ''o baseada na sua an''
       @ [CHR 0xC3, CHR 0xA1] @ ''lise'' @ [CHR 0x0A, CHR 0x0A]
       @ ''            Formato exato esperado:'' @ [CHR 0x0A] @ ''            {''
       @ [CHR 0x0A] @ ''              '' @ [CHR 0x22] @ ''sentiment''
       @ [CHR 0x22] @ '': '' @ [CHR 0x22] @ ''positivo|negativo|neutro''
       @ [CHR 0x22] @ '','' @ [CHR 0x0A] @ ''              '' @ [CHR 0x22]
       @ ''score'' @ [CHR 0x22] @ '': 0.0,'' @ [CHR 0x0A] @ ''              ''
       @ [CHR 0x22] @ ''explanation'' @ [CHR 0x22] @ '': '' @ [CHR 0x22]
       @ ''Sua explica'' @ [CHR 0xC3, CHR 0xA7, CHR 0xC3, CHR 0xA3] @ ''o aqui''
       @ [CHR 0x22, CHR 0x0A] @ ''            }'' @ [CHR 0x0A, CHR 0x0A]
       @ ''            Coment'' @ [CHR 0xC3, CHR 0xA1] @ ''rio: ''"

definition default_instructions :: string where
  "default_instructions =
       [CHR 0x0A] @ ''            Analise o sentimento do seguinte coment''
       @ [CHR 0xC3, CHR 0xA1]
       @ ''rio e classifique-o como positivo, negativo ou neutro.'' @ [CHR 0x0A]
       @ ''            Al'' @ [CHR 0xC3, CHR 0xA9] @ ''m disso, forne''
       @ [CHR 0xC3, CHR 0xA7] @ ''a uma pontua''
       @ [CHR 0xC3, CHR 0xA7, CHR 0xC3, CHR 0xA3]
       @ ''o de sentimento entre -1 (muito negativo) e 1 (muito positiv''
       @ ''o).'' @ [CHR 0x0A, CHR 0x0A]
       @ ''            IMPORTANTE: Retorne APENAS um objeto JSON v''
       @ [CHR 0xC3, CHR 0xA1]
       @ ''lido com as seguintes chaves, sem nenhum texto adicional:''
       @ [CHR 0x0A] @ ''            - sentiment: '' @ [CHR 0x22] @ ''positivo''
       @ [CHR 0x22] @ '', '' @ [CHR 0x22] @ ''negativo'' @ [CHR 0x22] @ '' ou ''
       @ [CHR 0x22] @ ''neutro'' @ [CHR 0x22, CHR 0x0A]
       @ ''            - score: um n'' @ [CHR 0xC3, CHR 0xBA]
       @ ''mero entre -1 e 1 (sem aspas)'' @ [CHR 0x0A]
       @ ''            - explanation: uma breve explica''
       @ [CHR 0xC3, CHR 0xA7, CHR 0xC3, CHR 0xA3] @ ''o da classifica''
       @ [CHR 0xC3, CHR 0xA7, CHR 0xC3, CHR 0xA3] @ ''o'' @ [CHR 0x0A, CHR 0x0A]
       @ ''            Formato exato esperado:'' @ [CHR 0x0A] @ ''            {''
       @ [CHR 0x0A] @ ''              '' @ [CHR 0x22] @ ''sentiment''
       @ [CHR 0x22] @ '': '' @ [CHR 0x22] @ ''positivo|negativo|neutro''
       @ [CHR 0x22] @ '','' @ [CHR 0x0A] @ ''              '' @ [CHR 0x22]
       @ ''score'' @ [CHR 0x22] @ '': 0.0,'' @ [CHR 0x0A] @ ''              ''
       @ [CHR 0x22] @ ''explanation'' @ [CHR 0x22] @ '': '' @ [CHR 0x22]
       @ ''Sua explica'' @ [CHR 0xC3, CHR 0xA7, CHR 0xC3, CHR 0xA3] @ ''o aqui''
       @ [CHR 0x22, CHR 0x0A] @ ''            }'' @ [CHR 0x0A, CHR 0x0A]
       @ ''            Coment'' @ [CHR 0xC3, CHR 0xA1] @ ''rio: ''"

definition prompt_tail :: string where
  "prompt_tail =
       [CHR 0x0A] @ ''            ''"

text \<open>
  \<open>if custom_prompt:\<close> holds for a prompt that is neither \<open>None\<close> nor empty.
\<close>

definition build_prompt :: "string option \<Rightarrow> string \<Rightarrow> string" where
  "build_prompt custom_prompt text =
     (case custom_prompt of
        None \<Rightarrow> default_instructions @ [quote] @ text @ [quote] @ prompt_tail
      | Some c \<Rightarrow>
          if c = [] then default_instructions @ [quote] @ text @ [quote] @ prompt_tail
          else custom_head @ c @ custom_contract @ [quote] @ text @ [quote] @ prompt_tail)"

section \<open>The environment\<close>

text \<open>
  \<open>generate\<close> is \<open>self.model.generate_content(prompt)\<close> followed by \<open>.text\<close>: the
  answer, or the exception of either. \<open>loads\<close> is \<open>json.loads\<close>. \<open>pause\<close> and
  \<open>lag\<close> say, for the call with a given number, how long after the last reading of
  the clock the limiter reads it, and how long after the end of the sleep the timestamp
  is taken.
\<close>

record environment =
  generate :: "string \<Rightarrow> string result"
  loads :: "string \<Rightarrow> json option"
  pause :: "nat \<Rightarrow> nat"
  lag :: "nat \<Rightarrow> nat"

section \<open>\<open>analyze_sentiment\<close>\<close>

text \<open>
  The limiter is called before the \<open>try\<close>: an exception of the limiter leaves
  \<open>analyze_sentiment\<close>. Everything after it is inside: the timestamp is appended, the
  model is asked, and an exception of the model becomes the row of the \<open>except\<close>.
\<close>

definition analyze_sentiment ::
    "environment \<Rightarrow> string \<Rightarrow> string option \<Rightarrow> world \<Rightarrow> (pydict \<times> world) result" where
  "analyze_sentiment env text custom_prompt w =
     (let n = length (dispatched w)
      in case acquire (pause env n) (lag env n) w of
           Inl e \<Rightarrow> raise e
         | Inr w' \<Rightarrow>
             let prompt = build_prompt custom_prompt text
             in return
                  (case generate env prompt of
                     Inl e \<Rightarrow> error_row e
                   | Inr answer \<Rightarrow> parse_response (loads env) answer,
                   w'))"

text \<open>The row of one comment: what the model's answer, or its exception, is turned into.\<close>

definition answer_row :: "environment \<Rightarrow> string \<Rightarrow> string option \<Rightarrow> pydict" where
  "answer_row env text custom_prompt =
     (case generate env (build_prompt custom_prompt text) of
        Inl e \<Rightarrow> error_row e
      | Inr answer \<Rightarrow> parse_response (loads env) answer)"

section \<open>\<open>batch_analyze\<close>\<close>

text \<open>The inner loop: the comments of one batch, in order.\<close>

fun analyze_batch ::
    "environment \<Rightarrow> string option \<Rightarrow> string list \<Rightarrow> world \<Rightarrow> (pydict list \<times> world) result" where
  "analyze_batch env custom_prompt [] w = return ([], w)"
| "analyze_batch env custom_prompt (text # batch) w =
     (case analyze_sentiment env text custom_prompt w of
        Inl e \<Rightarrow> raise e
      | Inr (result, w') \<Rightarrow>
          (case analyze_batch env custom_prompt batch w' of
             Inl e \<Rightarrow> raise e
           | Inr (batch_results, w'') \<Rightarrow> return (result # batch_results, w'')))"

text \<open>
  The outer loop, \<open>for i in range(0, total, batch_size)\<close> with a positive step:
  \<open>texts\<close> are the comments from \<open>i\<close> on, \<open>results\<close> the rows so far.
\<close>

function batch_loop ::
    "environment \<Rightarrow> string option \<Rightarrow> nat \<Rightarrow> string list \<Rightarrow> pydict list \<Rightarrow> world
      \<Rightarrow> (pydict list \<times> world) result" where
  "batch_loop env custom_prompt batch_size texts results w =
     (if texts = [] \<or> batch_size = 0 then return (results, w)
      else
        case analyze_batch env custom_prompt (take batch_size texts) w of
          Inl e \<Rightarrow> raise e
        | Inr (batch_results, w') \<Rightarrow>
            batch_loop env custom_prompt batch_size (drop batch_size texts)
              (results @ batch_results) w')"
  by pat_completeness auto
termination
  by (relation "measure (\<lambda>(env, custom_prompt, batch_size, texts, results, w). length texts)")
    auto

text \<open>
  A row of the frame that \<open>batch_analyze\<close> returns: the comment with the three new
  columns, \<open>r.get\<close> with its default for each.
\<close>

record analysed =
  comment_text :: string
  sentiment :: json
  score :: json
  explanation :: json

definition merge_row :: "string \<Rightarrow> pydict \<Rightarrow> analysed" where
  "merge_row text r =
     \<lparr>comment_text = text,
      sentiment = (case dict_get ''sentiment'' r of None \<Rightarrow> JStr ''erro'' | Some v \<Rightarrow> v),
      score = (case dict_get ''score'' r of None \<Rightarrow> JNum (IntNum 0) | Some v \<Rightarrow> v),
      explanation = (case dict_get ''explanation'' r of None \<Rightarrow> JStr [] | Some v \<Rightarrow> v)\<rparr>"

text \<open>
  \<open>batch_analyze\<close> on the texts of the comments. A step of zero is the \<open>ValueError\<close>
  of \<open>range\<close>; with a negative step the loop does not run, and the empty columns fit
  only an empty frame.
\<close>

definition batch_analyze ::
    "environment \<Rightarrow> string list \<Rightarrow> int \<Rightarrow> string option \<Rightarrow> world
      \<Rightarrow> (analysed list \<times> world) result" where
  "batch_analyze env texts batch_size custom_prompt w =
     (if batch_size = 0 then raise (ValueError ''range() arg 3 must not be zero'')
      else
        case batch_loop env custom_prompt (nat batch_size) texts [] w of
          Inl e \<Rightarrow> raise e
        | Inr (results, w') \<Rightarrow>
            if length results = length texts
            then return (map (\<lambda>(text, r). merge_row text r) (zip texts results), w')
            else raise (ValueError ''Length of values does not match length of index''))"

section \<open>The calls of a batch, as the limiter sees them\<close>

text \<open>
  The delays of \<open>n\<close> consecutive calls, the first of which is the call number \<open>k\<close> of
  its analyzer.
\<close>

definition schedule :: "environment \<Rightarrow> nat \<Rightarrow> nat \<Rightarrow> (nat \<times> nat) list" where
  "schedule env k n = map (\<lambda>i. (pause env i, lag env i)) [k..<k + n]"

section \<open>A sample environment\<close>

text \<open>
  A model that answers a short prompt with praise and is out of quota for a long one
  (the default prompt of a comment of ten bytes or more), a decoder that rejects
  everything, a second between calls.
\<close>

definition sample_environment :: environment where
  "sample_environment =
     \<lparr>generate = (\<lambda>p. if length p < 775 then return ''Sentimento: POSITIVO''
                      else raise (OtherError ''quota'')),
      loads = (\<lambda>s. None), pause = (\<lambda>n. 1000000), lag = (\<lambda>n. 0)\<rparr>"

declare batch_loop.simps [simp del]

declare build_prompt_def [model_defs] analyze_sentiment_def [model_defs]
  answer_row_def [model_defs] merge_row_def [model_defs] batch_analyze_def [model_defs]
  sample_environment_def [model_defs] schedule_def [model_defs]

section \<open>One call\<close>

lemma acquire_length:
  "acquire d1 d2 w = Inr w' \<Longrightarrow> length (dispatched w') = Suc (length (dispatched w))"
  by (auto simp: acquire_def Let_def split: sum.splits)

lemma result_ok_answer_row [simp]: "result_ok (answer_row env text custom_prompt)"
  by (simp add: answer_row_def split: sum.splits)

lemma analyze_sentiment_Inr:
  assumes "analyze_sentiment env text custom_prompt w = Inr (row, w')"
  shows "step w w'" and "row = answer_row env text custom_prompt"
    and "length (dispatched w') = Suc (length (dispatched w))"
proof -
  from assms have a: "acquire (pause env (length (dispatched w))) (lag env (length (dispatched w))) w
      = Inr w'" and row: "row = answer_row env text custom_prompt"
    by (auto simp: analyze_sentiment_def answer_row_def Let_def split: sum.splits)
  from acquire_step [OF a] acquire_length [OF a] row
  show "step w w'" and "row = answer_row env text custom_prompt"
    and "length (dispatched w') = Suc (length (dispatched w))"
    by simp_all
qed

lemma analyze_sentiment_ok:
  "limiter_inv w \<Longrightarrow> is_ok (analyze_sentiment env text custom_prompt w)"
  using acquire_ok [of w "pause env (length (dispatched w))" "lag env (length (dispatched w))"]
  by (auto simp: analyze_sentiment_def Let_def is_ok_iff)

lemma steps_reachable: "step\<^sup>*\<^sup>* w w' \<Longrightarrow> reachable w \<Longrightarrow> reachable w'"
  by (induction rule: rtranclp_induct) (auto intro: reachable.later)

lemma steps_inv: "step\<^sup>*\<^sup>* w w' \<Longrightarrow> limiter_inv w \<Longrightarrow> limiter_inv w'"
  by (induction rule: rtranclp_induct) (auto intro: limiter_inv_step)

lemma analyze_batch_Inr:
  assumes "analyze_batch env custom_prompt batch w = Inr (rs, w')"
  shows "rs = map (\<lambda>text. answer_row env text custom_prompt) batch
    \<and> length (dispatched w') = length (dispatched w) + length batch \<and> step\<^sup>*\<^sup>* w w'"
  using assms
proof (induction batch arbitrary: w rs)
  case Nil
  then show ?case by simp
next
  case (Cons t batch)
  from Cons.prems obtain r w1 rs' where a1: "analyze_sentiment env t custom_prompt w = Inr (r, w1)"
    and a2: "analyze_batch env custom_prompt batch w1 = Inr (rs', w')" and rs: "rs = r # rs'"
    by (auto split: sum.splits)
  from analyze_sentiment_Inr [OF a1] Cons.IH [OF a2] rs show ?case
    by (auto intro: converse_rtranclp_into_rtranclp)
qed

lemma analyze_batch_ok:
  "limiter_inv w \<Longrightarrow> is_ok (analyze_batch env custom_prompt batch w)"
proof (induction batch arbitrary: w)
  case Nil
  then show ?case by simp
next
  case (Cons t batch)
  from analyze_sentiment_ok [OF Cons.prems, of env t custom_prompt]
  obtain r w1 where a1: "analyze_sentiment env t custom_prompt w = Inr (r, w1)"
    by (auto simp: is_ok_iff)
  from analyze_sentiment_Inr(1) [OF a1] Cons.prems have "limiter_inv w1"
    by (rule limiter_inv_step)
  from Cons.IH [OF this] a1 show ?case by (auto simp: is_ok_iff)
qed

lemma analyze_batch_append:
  "analyze_batch env custom_prompt (xs @ ys) w =
     (case analyze_batch env custom_prompt xs w of
        Inl e \<Rightarrow> raise e
      | Inr (rs, w1) \<Rightarrow>
          (case analyze_batch env custom_prompt ys w1 of
             Inl e \<Rightarrow> raise e
           | Inr (rs', w2) \<Rightarrow> return (rs @ rs', w2)))"
  by (induction xs arbitrary: w) (auto split: sum.splits)

lemma batch_loop_eq:
  assumes "0 < batch_size"
  shows "batch_loop env custom_prompt batch_size texts results w =
     (case analyze_batch env custom_prompt texts w of
        Inl e \<Rightarrow> raise e
      | Inr (rs, w') \<Rightarrow> return (results @ rs, w'))"
  using assms
proof (induction env custom_prompt batch_size texts results w rule: batch_loop.induct)
  case (1 env custom_prompt batch_size texts results w)
  show ?case
  proof (cases "texts = []")
    case True
    then show ?thesis by (simp add: batch_loop.simps)
  next
    case False
    have whole: "analyze_batch env custom_prompt texts w =
      (case analyze_batch env custom_prompt (take batch_size texts) w of
         Inl e \<Rightarrow> raise e
       | Inr (rs, w1) \<Rightarrow>
           (case analyze_batch env custom_prompt (drop batch_size texts) w1 of
              Inl e \<Rightarrow> raise e
            | Inr (rs', w2) \<Rightarrow> return (rs @ rs', w2)))"
      using analyze_batch_append [of env custom_prompt "take batch_size texts"
          "drop batch_size texts" w] by simp
    show ?thesis
    proof (cases "analyze_batch env custom_prompt (take batch_size texts) w")
      case (Inl e)
      with False "1.prems" show ?thesis
        by (subst batch_loop.simps) (simp add: whole)
    next
      case (Inr p)
      obtain rs w1 where p: "p = (rs, w1)" by (cases p)
      from "1.IH" [OF _ Inr [unfolded p] refl "1.prems"] False "1.prems"
      have "batch_loop env custom_prompt batch_size (drop batch_size texts) (results @ rs) w1 =
        (case analyze_batch env custom_prompt (drop batch_size texts) w1 of
           Inl e \<Rightarrow> raise e | Inr (rs', w') \<Rightarrow> return ((results @ rs) @ rs', w'))"
        by simp
      with False "1.prems" Inr p show ?thesis
        by (subst batch_loop.simps) (simp add: whole split: sum.splits)
    qed
  qed
qed

lemma batch_analyze_eq:
  assumes "0 < batch_size"
  shows "batch_analyze env texts batch_size custom_prompt w =
     (case analyze_batch env custom_prompt texts w of
        Inl e \<Rightarrow> raise e
      | Inr (rs, w') \<Rightarrow>
          return (map (\<lambda>t. merge_row t (answer_row env t custom_prompt)) texts, w'))"
proof (cases "analyze_batch env custom_prompt texts w")
  case (Inl e)
  with assms show ?thesis by (simp add: batch_analyze_def batch_loop_eq)
next
  case (Inr p)
  obtain rs w' where p: "p = (rs, w')" by (cases p)
  from analyze_batch_Inr [OF Inr [unfolded p]]
  have rs: "rs = map (\<lambda>t. answer_row env t custom_prompt) texts" by simp
  have "map (\<lambda>(t, r). merge_row t r) (zip texts rs)
      = map (\<lambda>t. merge_row t (answer_row env t custom_prompt)) texts"
    unfolding rs by (induction texts) simp_all
  with assms Inr p rs show ?thesis by (simp add: batch_analyze_def batch_loop_eq)
qed

lemma batch_analyze_steps:
  assumes "limiter_inv w" and "0 < batch_size"
  obtains w' where "batch_analyze env texts batch_size custom_prompt w
        = Inr (map (\<lambda>t. merge_row t (answer_row env t custom_prompt)) texts, w')"
    and "step\<^sup>*\<^sup>* w w'"
    and "length (dispatched w') = length (dispatched w) + length texts"
proof -
  from analyze_batch_ok [OF assms(1), of env custom_prompt texts]
  obtain rs w' where a: "analyze_batch env custom_prompt texts w = Inr (rs, w')"
    by (auto simp: is_ok_iff)
  from analyze_batch_Inr [OF a] assms a that [of w'] show ?thesis
    by (simp add: batch_analyze_eq)
qed

section \<open>The world after a batch\<close>

lemma schedule_simps [simp]:
  "schedule env k 0 = []"
  "schedule env k (Suc n) = (pause env k, lag env k) # schedule env (Suc k) n"
  by (simp_all add: schedule_def upt_conv_Cons del: upt_Suc)

lemma analyze_sentiment_acquire:
  "analyze_sentiment env t p w =
     (case acquire (pause env (length (dispatched w))) (lag env (length (dispatched w))) w of
        Inl e \<Rightarrow> raise e
      | Inr w' \<Rightarrow> return (answer_row env t p, w'))"
  by (simp add: analyze_sentiment_def answer_row_def Let_def split: sum.splits)

text \<open>
  The rows do not influence the calls: the world after a batch is the world after the
  calls of the limiter with the delays of the environment.
\<close>

lemma analyze_batch_run_calls:
  "analyze_batch env p texts w =
     (case run_calls (schedule env (length (dispatched w)) (length texts)) w of
        Inl e \<Rightarrow> raise e
      | Inr w' \<Rightarrow> return (map (\<lambda>t. answer_row env t p) texts, w'))"
proof (induction texts arbitrary: w)
  case Nil
  then show ?case by simp
next
  case (Cons t texts)
  show ?case
  proof (cases "acquire (pause env (length (dispatched w))) (lag env (length (dispatched w))) w")
    case (Inl e)
    then show ?thesis by (simp add: analyze_sentiment_acquire)
  next
    case (Inr w1)
    from acquire_length [OF Inr] Cons.IH [of w1] Inr show ?thesis
      by (simp add: analyze_sentiment_acquire split: sum.splits)
  qed
qed

section \<open>Evaluating the sample\<close>

lemmas limiter_eval = acquire_def init_world_def init_analyzer_def apply_rate_limiting_def
  record_request_def deque_append_def minute_def Let_def

lemma build_prompt_length: "length (build_prompt None t) = length t + 765"
  by (simp add: build_prompt_def default_instructions_def prompt_tail_def quote_def)

lemma sample_praise:
  "parse_response (\<lambda>s. None) ''Sentimento: POSITIVO''
     = [(''sentiment'', JStr ''positivo''), (''score'', JNum (DecNum 7 1)),
        (''explanation'', JStr unstructured_explanation)]"
  by code_simp

lemma sample_row:
  "answer_row sample_environment t None =
     (if length t < 10
      then [(''sentiment'', JStr ''positivo''), (''score'', JNum (DecNum 7 1)),
            (''explanation'', JStr unstructured_explanation)]
      else error_row (OtherError ''quota''))"
  by (simp add: answer_row_def sample_environment_def build_prompt_length sample_praise)

section \<open>Theorems\<close>

text \<open>
  C13. From a reachable world \<open>analyze_sentiment\<close> always returns: a well-formed row,
  which is the row of the model's answer or of its exception, and a world that is
  reachable again and has one more dispatch, whether the model answered or not.
\<close>

theorem analyze_sentiment_total:
  assumes "reachable w"
  shows "\<exists>w'. analyze_sentiment env t custom_prompt w = Inr (answer_row env t custom_prompt, w')
    \<and> result_ok (answer_row env t custom_prompt) \<and> reachable w'
    \<and> length (dispatched w') = Suc (length (dispatched w))"
proof -
  from reachable_inv [OF assms] have "limiter_inv w" by simp
  from analyze_sentiment_ok [OF this, of env t custom_prompt]
  obtain row w' where a: "analyze_sentiment env t custom_prompt w = Inr (row, w')"
    by (auto simp: is_ok_iff)
  from analyze_sentiment_Inr [OF a] assms a show ?thesis
    by (auto intro: reachable.later)
qed

theorem analyze_sentiment_total_witness:
  "\<exists>w'. analyze_sentiment sample_environment ''ruim'' None (init_world 0)
       = Inr (answer_row sample_environment ''ruim'' None, w')
    \<and> result_ok (answer_row sample_environment ''ruim'' None) \<and> reachable w'
    \<and> length (dispatched w') = Suc (length (dispatched (init_world 0)))"
  by (rule analyze_sentiment_total) (rule reachable.start)

text \<open>
  C12. The batches are invisible: for every positive batch size \<open>batch_analyze\<close> is the
  analysis of the comments one after the other, and its rows are the comments in their
  order, each with the fields of its own row.
\<close>

theorem batching_invisible:
  assumes "0 < batch_size"
  shows "batch_analyze env texts batch_size custom_prompt w =
     (case analyze_batch env custom_prompt texts w of
        Inl e \<Rightarrow> raise e
      | Inr (rs, w') \<Rightarrow>
          return (map (\<lambda>t. merge_row t (answer_row env t custom_prompt)) texts, w'))"
  using assms by (simp add: batch_analyze_eq)

theorem batching_invisible_witness:
  "batch_analyze sample_environment [''bom'', ''muito ruim mesmo'', ''otimo''] 2 None (init_world 0) =
     (case analyze_batch sample_environment None [''bom'', ''muito ruim mesmo'', ''otimo'']
             (init_world 0) of
        Inl e \<Rightarrow> raise e
      | Inr (rs, w') \<Rightarrow>
          return (map (\<lambda>t. merge_row t (answer_row sample_environment t None))
                    [''bom'', ''muito ruim mesmo'', ''otimo''], w'))"
  by (rule batching_invisible) simp

text \<open>
  C11. From a reachable world and with a positive batch size \<open>batch_analyze\<close> always
  returns: one row per comment, in order, after exactly one dispatch per comment, in a
  world that is reachable again.
\<close>

theorem batch_analyze_total:
  assumes "reachable w" and "0 < batch_size"
  shows "\<exists>w'. batch_analyze env texts batch_size custom_prompt w
        = Inr (map (\<lambda>t. merge_row t (answer_row env t custom_prompt)) texts, w')
    \<and> reachable w' \<and> length (dispatched w') = length (dispatched w) + length texts"
proof -
  from reachable_inv [OF assms(1)] have "limiter_inv w" by simp
  from this assms(2) obtain w' where "batch_analyze env texts batch_size custom_prompt w
        = Inr (map (\<lambda>t. merge_row t (answer_row env t custom_prompt)) texts, w')"
    and "step\<^sup>*\<^sup>* w w'"
    and "length (dispatched w') = length (dispatched w) + length texts"
    by (rule batch_analyze_steps)
  with steps_reachable [of w w'] assms(1) show ?thesis by blast
qed

theorem batch_analyze_total_witness:
  "\<exists>w'. batch_analyze sample_environment [''bom'', ''muito ruim mesmo''] 10 None (init_world 0)
        = Inr (map (\<lambda>t. merge_row t (answer_row sample_environment t None))
                 [''bom'', ''muito ruim mesmo''], w')
    \<and> reachable w'
    \<and> length (dispatched w') = length (dispatched (init_world 0)) + length [''bom'', ''muito ruim mesmo'']"
  by (rule batch_analyze_total) (rule reachable.start, simp)

text \<open>
  The rows of the sample: the praise is found by keyword, the exception of the model
  becomes a row with the label \<open>erro\<close> and the analysis goes on with the next
  comment, and the three calls are a second apart.
\<close>

theorem batch_analyze_sample:
  "map_sum id (\<lambda>(rows, w). (map sentiment rows, map score rows, dispatched w))
     (batch_analyze sample_environment [''bom'', ''muito ruim mesmo'', ''otimo''] 2 None
        (init_world 0))
   = Inr ([JStr ''positivo'', JStr ''erro'', JStr ''positivo''],
          [JNum (DecNum 7 1), JNum (IntNum 0), JNum (DecNum 7 1)],
          [1000000, 2000000, 3000000])"
proof -
  have "\<exists>rs a. analyze_batch sample_environment None [''bom'', ''muito ruim mesmo'', ''otimo'']
      (init_world 0)
    = Inr (rs, \<lparr>lim = a, clock = 3000000, dispatched = [1000000, 2000000, 3000000]\<rparr>)"
    by (simp add: analyze_sentiment_def limiter_eval sample_environment_def)
  then obtain rs a where
    run: "analyze_batch sample_environment None [''bom'', ''muito ruim mesmo'', ''otimo'']
        (init_world 0)
      = Inr (rs, \<lparr>lim = a, clock = 3000000, dispatched = [1000000, 2000000, 3000000]\<rparr>)"
    by blast
  show ?thesis
    by (subst batch_analyze_eq, simp, subst run)
      (simp add: sample_row merge_row_def dict_get_def error_row_def)
qed

text \<open>
  Without comments \<open>batch_analyze\<close> returns the empty frame and leaves the world
  as it is, for every batch size but zero.
\<close>

theorem batch_empty:
  assumes "batch_size \<noteq> 0"
  shows "batch_analyze env [] batch_size custom_prompt w = return ([], w)"
  using assms by (simp add: batch_analyze_def batch_loop.simps)

theorem batch_empty_witness:
  "batch_analyze sample_environment [] 10 None (init_world 0) = return ([], init_world 0)"
  by (rule batch_empty) simp

text \<open>
  A batch size that is not positive is an error as soon as there is a comment: the
  \<open>ValueError\<close> of \<open>range\<close> for zero, and of the columns that do not fit the frame
  for a negative size, in which case no comment has been analysed.
\<close>

theorem batch_size_not_positive:
  assumes "batch_size \<le> 0" and "texts \<noteq> []"
  shows "\<exists>m. batch_analyze env texts batch_size custom_prompt w = raise (ValueError m)"
  using assms by (auto simp: batch_analyze_def batch_loop.simps)

theorem batch_size_not_positive_witness:
  "\<exists>m. batch_analyze sample_environment [''bom''] (- 1) None (init_world 0) = raise (ValueError m)"
  by (rule batch_size_not_positive) simp_all

text \<open>
  The prompt ends with the comment between quotes, as it is, and with the same tail
  whatever the instructions; an empty prompt of the caller's is no prompt; a prompt of
  the caller's that is not empty is followed by the contract for the answer.
\<close>

theorem prompt_shape:
  "(\<exists>pre. build_prompt custom_prompt t = pre @ [quote] @ t @ [quote] @ prompt_tail) \<and>
   build_prompt (Some []) t = build_prompt None t \<and>
   (\<exists>c. build_prompt custom_prompt t = default_instructions @ [quote] @ t @ [quote] @ prompt_tail \<or>
        (custom_prompt = Some c \<and> sublist (c @ custom_contract) (build_prompt custom_prompt t)))"
proof (cases custom_prompt)
  case None
  then show ?thesis by (auto simp: build_prompt_def)
next
  case (Some c)
  have "sublist (c @ custom_contract) (custom_head @ (c @ custom_contract) @ [quote] @ t @ [quote]
      @ prompt_tail)"
    by (rule sublist_appendI)
  then have "sublist (c @ custom_contract) (custom_head @ c @ custom_contract @ [quote] @ t
      @ [quote] @ prompt_tail)"
    by simp
  with Some show ?thesis
    by (cases "c = []") (auto simp: build_prompt_def simp del: append_assoc)
qed

end
