(* ===== verification/Session.thy ===== *)
theory Session
  imports Extractor_Report Sentiment_Analyzer
begin

text \<open>
  The dashboard's script (\<open>src/app.py\<close>) as far as it changes state: the settings read
  from the sidebar, the session state with the detection of a new URL, the function
  \<open>extract_and_analyze\<close>, which runs the extractor and then a new analyzer, and the
  two buttons. One execution of the script is \<open>rerun\<close>; the sessions that the script can
  leave behind are \<open>reachable_app\<close>. The creation of the file \<open>.env\<close> at the start is
  \<open>ensure_dotenv\<close>.
\<close>

section \<open>Frames\<close>

text \<open>
  A \<open>DataFrame\<close> of comments with the columns of the analysis: the names of its
  columns and its rows. A cell of a column that the frame does not have is never read.
\<close>

record frame =
  columns :: "string list"
  rows :: "(comment \<times> analysed) list"

text \<open>
  The columns of \<open>pd.DataFrame(comments)\<close> at the end of \<open>get_comments\<close>: the keys of
  the rows in the order of their first appearance, and none at all without a row. Every
  row has its \<open>type\<close>, so the column is never added afterwards.
\<close>

definition comment_columns :: "comment list \<Rightarrow> string list" where
  "comment_columns cs =
     (if cs = [] then []
      else [''author'', ''text'', ''likes'', ''published_at'', ''type'']
           @ (if list_ex (\<lambda>c. parent_author c \<noteq> None) cs then [''parent_author''] else []))"

text \<open>The three assignments at the end of \<open>batch_analyze\<close>, seen from the frame.\<close>

definition analysed_frame :: "comment list \<Rightarrow> analysed list \<Rightarrow> frame" where
  "analysed_frame cs rs =
     \<lparr>columns = comment_columns cs @ [''sentiment'', ''score'', ''explanation''],
      rows = zip cs rs\<rparr>"

text \<open>The frame of \<open>get_example_data\<close>.\<close>

definition example_row ::
    "string \<Rightarrow> string \<Rightarrow> int \<Rightarrow> string \<Rightarrow> string \<Rightarrow> int \<Rightarrow> string \<Rightarrow> comment \<times> analysed" where
  "example_row a t l p s tenths e =
     (\<lparr>author = a, content = t, likes = l, published_at = p, kind = principal,
       parent_author = None\<rparr>,
      \<lparr>comment_text = t, sentiment = JStr s, score = JNum (DecNum tenths 1),
       explanation = JStr e\<rparr>)"

definition example_url :: string where
  "example_url = ''https://www.youtube.com/watch?v=exemplo''"

definition get_example_data :: frame where
  "get_example_data =
     \<lparr>columns = [''author'', ''text'', ''likes'', ''published_at'', ''sentiment'', ''score'',
                 ''explanation''],
      rows =
     [example_row
        (''Usu'' @ [CHR 0xC3, CHR 0xA1] @ ''rio 1'')
        (''Adorei esse v'' @ [CHR 0xC3, CHR 0xAD]
         @ ''deo! Muito informativo e bem produzido.'')
        15 ''2023-01-01'' ''positivo'' 8
        (''O coment'' @ [CHR 0xC3, CHR 0xA1]
         @ ''rio expressa entusiasmo e elogia a qualidade do v'' @ [CHR 0xC3, CHR 0xAD]
         @ ''deo.''),
      example_row
        (''Usu'' @ [CHR 0xC3, CHR 0xA1] @ ''rio 2'')
        (''N'' @ [CHR 0xC3, CHR 0xA3] @ ''o gostei do conte'' @ [CHR 0xC3, CHR 0xBA]
         @ ''do, achei muito superficial.'')
        2 ''2023-01-02'' ''negativo'' (- 6)
        (''O coment'' @ [CHR 0xC3, CHR 0xA1] @ ''rio expressa insatisfa''
         @ [CHR 0xC3, CHR 0xA7, CHR 0xC3, CHR 0xA3] @ ''o com o conte''
         @ [CHR 0xC3, CHR 0xBA] @ ''do do v'' @ [CHR 0xC3, CHR 0xAD] @ ''deo.''),
      example_row
        (''Usu'' @ [CHR 0xC3, CHR 0xA1] @ ''rio 3'')
        (''Interessante, mas poderia ter mais exemplos pr'' @ [CHR 0xC3, CHR 0xA1]
         @ ''ticos.'')
        8 ''2023-01-03'' ''neutro'' 1
        (''O coment'' @ [CHR 0xC3, CHR 0xA1]
         @ ''rio reconhece aspectos positivos, mas tamb'' @ [CHR 0xC3, CHR 0xA9]
         @ ''m sugere melhorias.''),
      example_row
        (''Usu'' @ [CHR 0xC3, CHR 0xA1] @ ''rio 4'')
        (''P'' @ [CHR 0xC3, CHR 0xA9] @ ''ssimo v'' @ [CHR 0xC3, CHR 0xAD]
         @ ''deo, perda de tempo.'')
        1 ''2023-01-04'' ''negativo'' (- 9)
        (''O coment'' @ [CHR 0xC3, CHR 0xA1] @ ''rio expressa forte insatisfa''
         @ [CHR 0xC3, CHR 0xA7, CHR 0xC3, CHR 0xA3] @ ''o e frustra''
         @ [CHR 0xC3, CHR 0xA7, CHR 0xC3, CHR 0xA3] @ ''o.''),
      example_row
        (''Usu'' @ [CHR 0xC3, CHR 0xA1] @ ''rio 5'')
        (''Conte'' @ [CHR 0xC3, CHR 0xBA] @ ''do excelente, j'' @ [CHR 0xC3, CHR 0xA1]
         @ '' compartilhei com meus amigos!'')
        20 ''2023-01-05'' ''positivo'' 9
        (''O coment'' @ [CHR 0xC3, CHR 0xA1]
         @ ''rio expressa entusiasmo e indica que o usu'' @ [CHR 0xC3, CHR 0xA1]
         @ ''rio recomendou o conte'' @ [CHR 0xC3, CHR 0xBA] @ ''do.'')]\<rparr>"

section \<open>The environment file\<close>

text \<open>
  The start of the script: when \<open>find_dotenv\<close> finds no file (its result is empty),
  the file \<open>.env\<close> beside the script is created with three lines, unless it exists.
  The files are a map from paths to contents.
\<close>

definition path_join :: "string \<Rightarrow> string \<Rightarrow> string" where
  "path_join d f = (if d = [] then f else if last d = CHR ''/'' then d @ f else d @ ''/'' @ f)"

definition env_template :: string where
  "env_template =
     ''# Chaves de API'' @ [CHR 0x0A] @ ''YOUTUBE_API_KEY='' @ [CHR 0x0A]
       @ ''GEMINI_API_KEY='' @ [CHR 0x0A]"

definition ensure_dotenv ::
    "string \<Rightarrow> string \<Rightarrow> (string \<rightharpoonup> string) \<Rightarrow> string \<times> (string \<rightharpoonup> string)" where
  "ensure_dotenv found dir files =
     (if found \<noteq> [] then (found, files)
      else
        let dotenv_path = path_join dir ''.env''
        in if files dotenv_path \<noteq> None then (dotenv_path, files)
           else (dotenv_path, files(dotenv_path \<mapsto> env_template)))"

section \<open>The sidebar\<close>

text \<open>
  What the script reads in one execution: the two keys of the environment, the widgets
  of the sidebar, and which button was clicked. \<open>idle\<close> is not a widget: it is the time
  that has passed since the script ran last.
\<close>

datatype comment_filter = AllComments | MainOnly | RepliesOnly

record widgets =
  use_example_data :: bool
  url_input :: string
  slider :: int
  comment_type_filter :: comment_filter
  use_custom_prompt :: bool
  prompt_area :: string
  start_clicked :: bool
  clear_clicked :: bool
  idle :: nat

text \<open>The keys of the environment and the two services behind them.\<close>

record installation =
  env_youtube_key :: string
  env_gemini_key :: string
  service :: youtube
  language_model :: environment

text \<open>
  The module's variables after the sidebar has been read: with example data the keys,
  the URL, the number of comments and the prompt are fixed.
\<close>

record settings =
  youtube_api_key :: string
  gemini_api_key :: string
  video_url :: string
  max_comments :: int
  custom_prompt :: "string option"

definition read_settings :: "installation \<Rightarrow> widgets \<Rightarrow> settings" where
  "read_settings inst wd =
     (if use_example_data wd
      then \<lparr>youtube_api_key = ''exemplo'', gemini_api_key = ''exemplo'',
            video_url = example_url, max_comments = 30, custom_prompt = None\<rparr>
      else \<lparr>youtube_api_key = env_youtube_key inst, gemini_api_key = env_gemini_key inst,
            video_url = url_input wd, max_comments = slider wd,
            custom_prompt = (if use_custom_prompt wd then Some (prompt_area wd) else None)\<rparr>)"

text \<open>The slider's range, and one click at most in an execution.\<close>

definition widgets_ok :: "widgets \<Rightarrow> bool" where
  "widgets_ok wd \<longleftrightarrow> 10 \<le> slider wd \<and> slider wd \<le> 300 \<and> \<not> (start_clicked wd \<and> clear_clicked wd)"

text \<open>The two flags of \<open>get_comments\<close> for the choice of the radio buttons.\<close>

definition filter_flags :: "comment_filter \<Rightarrow> bool \<times> bool" where
  "filter_flags f =
     (if f = MainOnly then (True, False)
      else if f = RepliesOnly then (False, True)
      else (True, True))"

section \<open>The session\<close>

text \<open>
  \<open>st.session_state\<close>: \<open>analyzed\<close> is only ever set to \<open>True\<close>, so the flag stands for
  the presence of the key; the other two keys are present when they are not \<open>None\<close>.
\<close>

record session =
  last_video_url :: string
  analyzed :: bool
  results :: "frame option"
  extraction_info :: "extraction_info option"

text \<open>
  The session with what the script does not store: the time, the times of all requests
  sent to the language model since the start, by any analyzer, and the URL whose
  analysis the stored results are.
\<close>

record app =
  state :: session
  time :: timestamp
  requests :: "timestamp list"
  analysed_url :: string

definition init_app :: "timestamp \<Rightarrow> app" where
  "init_app t0 =
     \<lparr>state = \<lparr>last_video_url = [], analyzed = False, results = None, extraction_info = None\<rparr>,
      time = t0, requests = [], analysed_url = []\<rparr>"

text \<open>The three deletions, of the new URL and of the button.\<close>

definition clear_data :: "session \<Rightarrow> session" where
  "clear_data s = s\<lparr>analyzed := False, results := None, extraction_info := None\<rparr>"

text \<open>The detection of a new URL, which the script does unless it uses example data.\<close>

definition url_changed :: "string \<Rightarrow> session \<Rightarrow> session" where
  "url_changed url s =
     (if url \<noteq> last_video_url s \<and> url \<noteq> []
      then (clear_data s)\<lparr>last_video_url := url\<rparr>
      else s)"

section \<open>\<open>extract_and_analyze\<close>\<close>

text \<open>
  The second half: a new analyzer, whose window is empty, analyses the texts of the rows
  in batches of ten. An exception is caught and the result is \<open>None\<close>.
\<close>

definition analyse :: "environment \<Rightarrow> string option \<Rightarrow> comment list \<Rightarrow> app \<Rightarrow> frame option \<times> app" where
  "analyse env prompt cs a =
     (case batch_analyze env (map content cs) 10 prompt (init_world (time a)) of
        Inl e \<Rightarrow> (None, a)
      | Inr (rs, w') \<Rightarrow>
          (Some (analysed_frame cs rs),
           a\<lparr>time := clock w', requests := requests a @ dispatched w'\<rparr>))"

text \<open>
  The first half: the checks of the keys and of the URL, the example data, and within
  the \<open>try\<close> the identifier, the details of the video, which are only displayed, and the
  comments, whose report is stored in the session before the analysis starts. Every
  exception is caught and the result is \<open>None\<close>.
\<close>

definition extract_and_analyze :: "installation \<Rightarrow> widgets \<Rightarrow> app \<Rightarrow> frame option \<times> app" where
  "extract_and_analyze inst wd a =
     (let s = read_settings inst wd; (extract_main, extract_replies) = filter_flags (comment_type_filter wd)
      in if youtube_api_key s = [] \<or> gemini_api_key s = [] then (None, a)
         else if use_example_data wd then (Some get_example_data, a)
         else if video_url s = [] then (None, a)
         else
           case extract_video_id (video_url s) of
             None \<Rightarrow> (None, a)
           | Some video_id \<Rightarrow>
               (case get_video_details (service inst) video_id of
                  Inl e \<Rightarrow> (None, a)
                | Inr video_details \<Rightarrow>
                    (case get_comments (service inst) (video_url s) (max_comments s)
                            extract_main extract_replies of
                       Inl (e, st) \<Rightarrow> (None, a)
                     | Inr st \<Rightarrow>
                         analyse (language_model inst) (custom_prompt s) (comments st)
                           (a\<lparr>state := (state a)\<lparr>extraction_info := Some (info st)\<rparr>\<rparr>))))"

section \<open>The script\<close>

text \<open>The button that starts the analysis: a result that is not \<open>None\<close> is stored.\<close>

definition start_analysis :: "installation \<Rightarrow> widgets \<Rightarrow> app \<Rightarrow> app" where
  "start_analysis inst wd a =
     (case extract_and_analyze inst wd a of
        (None, a') \<Rightarrow> a'
      | (Some results_df, a') \<Rightarrow>
          a'\<lparr>state := (state a')\<lparr>results := Some results_df, analyzed := True,
                                 last_video_url := video_url (read_settings inst wd)\<rparr>,
             analysed_url := video_url (read_settings inst wd)\<rparr>)"

text \<open>
  One execution of the script, from the top: the time has passed, a new URL clears the
  session, then the two buttons in the order of the script.
\<close>

definition rerun :: "installation \<Rightarrow> widgets \<Rightarrow> app \<Rightarrow> app" where
  "rerun inst wd a =
     (let a0 = a\<lparr>time := time a + int (idle wd)\<rparr>;
          a1 = (if use_example_data wd then a0
                else a0\<lparr>state := url_changed (url_input wd) (state a0)\<rparr>);
          a2 = (if start_clicked wd then start_analysis inst wd a1 else a1)
      in if clear_clicked wd then a2\<lparr>state := clear_data (state a2)\<rparr> else a2)"

text \<open>What the script displays below the buttons: the stored results, when there are any.\<close>

definition displayed :: "app \<Rightarrow> frame option result" where
  "displayed a =
     (if analyzed (state a)
      then (case results (state a) of
              None \<Rightarrow> raise (AttributeError ''results'')
            | Some results_df \<Rightarrow> return (Some results_df))
      else return None)"

text \<open>The sessions of an installation: the script runs again after every interaction.\<close>

inductive reachable_app :: "installation \<Rightarrow> app \<Rightarrow> bool" for inst where
  fresh: "reachable_app inst (init_app t0)"
| again: "reachable_app inst a \<Longrightarrow> widgets_ok wd \<Longrightarrow> reachable_app inst (rerun inst wd a)"

section \<open>Invariants\<close>

text \<open>The row of the analysis that belongs to a row of the extraction.\<close>

definition analysed_row :: "environment \<Rightarrow> string option \<Rightarrow> comment \<Rightarrow> analysed" where
  "analysed_row env prompt c = merge_row (content c) (answer_row env (content c) prompt)"


text \<open>
  What holds of a stored frame: every row carries the text that was analysed and one of
  the four labels, and a frame with a row has the columns that the table displays.
\<close>

definition frame_ok :: "frame \<Rightarrow> bool" where
  "frame_ok df \<longleftrightarrow>
     list_all (\<lambda>(c, r). comment_text r = content c \<and>
                 (case sentiment r of JStr s \<Rightarrow> s \<in> set labels | _ \<Rightarrow> False)) (rows df) \<and>
     (rows df = [] \<or>
        set [''author'', ''text'', ''sentiment'', ''score'', ''explanation''] \<subseteq> set (columns df))"

text \<open>
  What holds of a session: the flag is set only with stored results, which are well
  formed and are the analysis of the remembered URL; the requests lie in the past.
\<close>

definition session_inv :: "app \<Rightarrow> bool" where
  "session_inv a \<longleftrightarrow>
     (analyzed (state a) \<longrightarrow>
        results (state a) \<noteq> None \<and> analysed_url a = last_video_url (state a)) \<and>
     (case results (state a) of None \<Rightarrow> True | Some df \<Rightarrow> frame_ok df) \<and>
     list_all (\<lambda>t. t \<le> time a) (requests a)"

section \<open>A sample installation\<close>

text \<open>
  The sample service and the sample model behind two keys, and a click on the button
  that starts the analysis of a video, with the sidebar as it is at the start.
\<close>

definition sample_installation :: installation where
  "sample_installation =
     \<lparr>env_youtube_key = ''key-1'', env_gemini_key = ''key-2'', service = sample_service,
      language_model = sample_environment\<rparr>"

definition sidebar :: widgets where
  "sidebar =
     \<lparr>use_example_data = False, url_input = [], slider = 30,
      comment_type_filter = AllComments, use_custom_prompt = False, prompt_area = [],
      start_clicked = False, clear_clicked = False, idle = 0\<rparr>"

definition start_click :: "string \<Rightarrow> widgets" where
  "start_click url = sidebar\<lparr>url_input := url, start_clicked := True\<rparr>"

section \<open>Lemmas\<close>

declare comment_columns_def [model_defs] analysed_frame_def [model_defs]
  example_row_def [model_defs] example_url_def [model_defs] get_example_data_def [model_defs]
  read_settings_def [model_defs] widgets_ok_def [model_defs] filter_flags_def [model_defs]
  init_app_def [model_defs] clear_data_def [model_defs] url_changed_def [model_defs]
  analyse_def [model_defs] extract_and_analyze_def [model_defs] start_analysis_def [model_defs]
  rerun_def [model_defs] displayed_def [model_defs] sample_installation_def [model_defs]
  path_join_def [model_defs] env_template_def [model_defs] ensure_dotenv_def [model_defs]
  sidebar_def [model_defs] start_click_def [model_defs]

subsection \<open>The environment file\<close>

lemma ensure_dotenv_keeps:
  "files p \<noteq> None \<Longrightarrow> snd (ensure_dotenv found dir files) p = files p"
  by (auto simp: ensure_dotenv_def Let_def)

lemma ensure_dotenv_exists:
  "snd (ensure_dotenv found dir files) (fst (ensure_dotenv found dir files)) \<noteq> None
     \<or> found \<noteq> []"
  by (auto simp: ensure_dotenv_def Let_def)

lemma ensure_dotenv_idem:
  "ensure_dotenv found dir (snd (ensure_dotenv found dir files)) = ensure_dotenv found dir files"
  by (auto simp: ensure_dotenv_def Let_def)

subsection \<open>Time and the log of a limiter\<close>

lemma step_clock: "step w w' \<Longrightarrow> clock w \<le> clock w'"
  by (auto elim!: step_cases dest: apply_rate_limiting_Inr(3))

lemma steps_clock: "step\<^sup>*\<^sup>* w w' \<Longrightarrow> clock w \<le> clock w'"
  by (induction rule: rtranclp_induct) (auto dest: step_clock)

lemma reachable_past: "reachable w \<Longrightarrow> list_all (\<lambda>t. t \<le> clock w) (dispatched w)"
  by (drule reachable_inv) (simp add: limiter_inv_def Let_def)

subsection \<open>Frames\<close>

lemma merge_row_label:
  assumes "result_ok r"
  shows "\<exists>s. sentiment (merge_row t r) = JStr s \<and> s \<in> set labels"
  using assms by (auto simp: result_ok_def merge_row_def split: option.splits json.splits)

lemma comment_text_merge_row [simp]: "comment_text (merge_row t r) = t"
  by (simp add: merge_row_def)

lemma analysed_frame_rows:
  "analysed_frame cs (map (\<lambda>t. merge_row t (answer_row env t p)) (map content cs)) =
     \<lparr>columns = comment_columns cs @ [''sentiment'', ''score'', ''explanation''],
      rows = map (\<lambda>c. (c, analysed_row env p c)) cs\<rparr>"
  by (simp add: analysed_frame_def analysed_row_def) (induction cs, simp_all)

lemma frame_ok_analysed [simp]:
  "frame_ok \<lparr>columns = comment_columns cs @ [''sentiment'', ''score'', ''explanation''],
             rows = map (\<lambda>c. (c, analysed_row env p c)) cs\<rparr>"
proof -
  have "case sentiment (analysed_row env p c) of JStr s \<Rightarrow> s \<in> set labels | _ \<Rightarrow> False" for c
    using merge_row_label [OF result_ok_answer_row, of "content c" env "content c" p]
    by (auto simp: analysed_row_def)
  then show ?thesis
    by (auto simp: frame_ok_def list_all_iff comment_columns_def analysed_row_def)
qed

lemma frame_ok_example [simp]: "frame_ok get_example_data"
  by (simp add: frame_ok_def get_example_data_def example_row_def labels_def)

subsection \<open>The analysis\<close>

text \<open>
  The analysis never fails: it returns the frame of the rows, after one request for each
  row, sent by a limiter that started with an empty window at the time of the call.
\<close>

lemma analyse_cases:
  obtains w' where
    "analyse env p cs a =
       (Some \<lparr>columns = comment_columns cs @ [''sentiment'', ''score'', ''explanation''],
              rows = map (\<lambda>c. (c, analysed_row env p c)) cs\<rparr>,
        a\<lparr>time := clock w', requests := requests a @ dispatched w'\<rparr>)"
    and "step\<^sup>*\<^sup>* (init_world (time a)) w'" and "length (dispatched w') = length cs"
proof -
  have "limiter_inv (init_world (time a))" by (rule limiter_inv_init)
  then obtain w' where "batch_analyze env (map content cs) 10 p (init_world (time a))
        = Inr (map (\<lambda>t. merge_row t (answer_row env t p)) (map content cs), w')"
    and "step\<^sup>*\<^sup>* (init_world (time a)) w'"
    and "length (dispatched w') = length (dispatched (init_world (time a))) + length (map content cs)"
    by (rule batch_analyze_steps [where batch_size = 10 and env = env
          and texts = "map content cs" and custom_prompt = p]) simp
  then show ?thesis
    by (intro that [of w'])
      (simp_all add: analyse_def init_world_def analysed_frame_rows del: map_map)
qed

lemma analyse_inv:
  assumes "analyse env p cs a = (r, a')" and "list_all (\<lambda>t. t \<le> time a) (requests a)"
  shows "state a' = state a" and "analysed_url a' = analysed_url a" and "time a \<le> time a'"
    and "list_all (\<lambda>t. t \<le> time a') (requests a')" and "prefix (requests a) (requests a')"
    and "\<exists>df. r = Some df \<and> frame_ok df \<and> length (rows df) = length cs"
proof -
  obtain w' where eq: "analyse env p cs a =
       (Some \<lparr>columns = comment_columns cs @ [''sentiment'', ''score'', ''explanation''],
              rows = map (\<lambda>c. (c, analysed_row env p c)) cs\<rparr>,
        a\<lparr>time := clock w', requests := requests a @ dispatched w'\<rparr>)"
    and steps: "step\<^sup>*\<^sup>* (init_world (time a)) w'"
    by (rule analyse_cases)
  from steps have "reachable w'" by (rule steps_reachable) (rule reachable.start)
  from reachable_past [OF this] steps_clock [OF steps] assms(2)
  have "time a \<le> clock w'" and "list_all (\<lambda>t. t \<le> clock w') (requests a @ dispatched w')"
    by (auto simp: init_world_def list_all_iff)
  with assms(1) eq show "state a' = state a" and "analysed_url a' = analysed_url a"
    and "time a \<le> time a'" and "list_all (\<lambda>t. t \<le> time a') (requests a')"
    and "prefix (requests a) (requests a')"
    and "\<exists>df. r = Some df \<and> frame_ok df \<and> length (rows df) = length cs"
    by auto
qed

subsection \<open>The ways \<open>extract_and_analyze\<close> ends\<close>

lemma extract_and_analyze_cases [case_names nothing example analysed]:
  obtains (nothing) "extract_and_analyze inst wd a = (None, a)"
  | (example) "use_example_data wd" and "extract_and_analyze inst wd a = (Some get_example_data, a)"
  | (analysed) st w' where "\<not> use_example_data wd" and "url_input wd \<noteq> []"
      and "get_comments (service inst) (url_input wd) (slider wd)
             (fst (filter_flags (comment_type_filter wd)))
             (snd (filter_flags (comment_type_filter wd))) = Inr st"
      and "extract_and_analyze inst wd a =
         (Some \<lparr>columns = comment_columns (comments st) @ [''sentiment'', ''score'', ''explanation''],
                rows = map (\<lambda>c. (c, analysed_row (language_model inst)
                         (custom_prompt (read_settings inst wd)) c)) (comments st)\<rparr>,
          a\<lparr>state := (state a)\<lparr>extraction_info := Some (info st)\<rparr>,
            time := clock w', requests := requests a @ dispatched w'\<rparr>)"
      and "step\<^sup>*\<^sup>* (init_world (time a)) w'"
      and "length (dispatched w') = length (comments st)"
proof (cases "extract_and_analyze inst wd a = (None, a)")
  case True
  then show ?thesis by (rule nothing)
next
  case False
  show ?thesis
  proof (cases "use_example_data wd")
    case True
    with False have "extract_and_analyze inst wd a = (Some get_example_data, a)"
      by (auto simp: extract_and_analyze_def read_settings_def Let_def split: prod.splits if_splits)
    with True show ?thesis by (rule example)
  next
    case no_example: False
    let ?a = "a\<lparr>state := (state a)\<lparr>extraction_info := Some (info st)\<rparr>\<rparr>"
    from False no_example obtain st where url: "url_input wd \<noteq> []"
      and get: "get_comments (service inst) (url_input wd) (slider wd)
             (fst (filter_flags (comment_type_filter wd)))
             (snd (filter_flags (comment_type_filter wd))) = Inr st"
      and eq: "extract_and_analyze inst wd a =
         analyse (language_model inst) (custom_prompt (read_settings inst wd)) (comments st)
           (a\<lparr>state := (state a)\<lparr>extraction_info := Some (info st)\<rparr>\<rparr>)"
      by (auto simp: extract_and_analyze_def read_settings_def Let_def
          split: prod.splits if_splits option.splits sum.splits)
    obtain w' where "analyse (language_model inst) (custom_prompt (read_settings inst wd))
          (comments st) (a\<lparr>state := (state a)\<lparr>extraction_info := Some (info st)\<rparr>\<rparr>) =
       (Some \<lparr>columns = comment_columns (comments st) @ [''sentiment'', ''score'', ''explanation''],
              rows = map (\<lambda>c. (c, analysed_row (language_model inst)
                       (custom_prompt (read_settings inst wd)) c)) (comments st)\<rparr>,
        a\<lparr>state := (state a)\<lparr>extraction_info := Some (info st)\<rparr>,
          time := clock w', requests := requests a @ dispatched w'\<rparr>)"
      and "step\<^sup>*\<^sup>* (init_world (time a)) w'" and "length (dispatched w') = length (comments st)"
      by (rule analyse_cases [of "language_model inst" "custom_prompt (read_settings inst wd)"
            "comments st" "a\<lparr>state := (state a)\<lparr>extraction_info := Some (info st)\<rparr>\<rparr>"]) simp
    with no_example url get eq show ?thesis by (intro analysed [of st w']) simp_all
  qed
qed

subsection \<open>The invariant\<close>

lemma session_inv_init [inv_intros]: "session_inv (init_app t0)"
  by (simp add: session_inv_def init_app_def)

lemma past_later: "list_all (\<lambda>t. t \<le> x) ts \<Longrightarrow> x \<le> y \<Longrightarrow> list_all (\<lambda>t. t \<le> (y::int)) ts"
  by (auto simp: list_all_iff)

lemma session_inv_wait [inv_intros]:
  "session_inv a \<Longrightarrow> session_inv (a\<lparr>time := time a + int n\<rparr>)"
  by (auto simp: session_inv_def list_all_iff)

lemma session_inv_url_changed [inv_intros]:
  "session_inv a \<Longrightarrow> session_inv (a\<lparr>state := url_changed url (state a)\<rparr>)"
  by (simp add: session_inv_def url_changed_def clear_data_def)

lemma session_inv_clear [inv_intros]:
  "session_inv a \<Longrightarrow> session_inv (a\<lparr>state := clear_data (state a)\<rparr>)"
  by (simp add: session_inv_def clear_data_def)

lemma session_inv_start [inv_intros]:
  assumes "session_inv a"
  shows "session_inv (start_analysis inst wd a)"
proof (cases inst wd a rule: extract_and_analyze_cases)
  case nothing
  with assms show ?thesis by (simp add: start_analysis_def)
next
  case example
  with assms show ?thesis by (simp add: start_analysis_def session_inv_def)
next
  case (analysed st w')
  from analysed(5) have "reachable w'" by (rule steps_reachable) (rule reachable.start)
  from reachable_past [OF this] steps_clock [OF analysed(5)] assms
  have "list_all (\<lambda>t. t \<le> clock w') (requests a @ dispatched w')"
    by (auto simp: init_world_def list_all_iff session_inv_def)
  with analysed(4) show ?thesis by (simp add: start_analysis_def session_inv_def)
qed

lemma session_inv_rerun:
  assumes "session_inv a"
  shows "session_inv (rerun inst wd a)"
proof -
  let ?a0 = "a\<lparr>time := time a + int (idle wd)\<rparr>"
  let ?a1 = "if use_example_data wd then ?a0
             else ?a0\<lparr>state := url_changed (url_input wd) (state ?a0)\<rparr>"
  let ?a2 = "if start_clicked wd then start_analysis inst wd ?a1 else ?a1"
  from assms have "session_inv ?a0" by (rule session_inv_wait)
  then have "session_inv ?a1" by (simp only: session_inv_url_changed simp_thms split: if_split)
  then have "session_inv ?a2" by (simp only: session_inv_start simp_thms split: if_split)
  then show ?thesis unfolding rerun_def Let_def
    by (simp only: session_inv_clear simp_thms split: if_split)
qed

lemma reachable_app_inv: "reachable_app inst a \<Longrightarrow> session_inv a"
  by (induction rule: reachable_app.induct) (simp_all add: session_inv_init session_inv_rerun)

subsection \<open>One execution\<close>

lemma extract_video_id_empty [simp]: "extract_video_id [] = None"
  by code_simp

lemma extract_and_analyze_run:
  assumes "\<not> use_example_data wd" and "env_youtube_key inst \<noteq> []" and "env_gemini_key inst \<noteq> []"
    and "extract_video_id (url_input wd) = Some vid"
    and "is_ok (get_video_details (service inst) vid)"
    and "get_comments (service inst) (url_input wd) (slider wd)
           (fst (filter_flags (comment_type_filter wd)))
           (snd (filter_flags (comment_type_filter wd))) = Inr st"
  shows "extract_and_analyze inst wd a =
     analyse (language_model inst) (custom_prompt (read_settings inst wd)) (comments st)
       (a\<lparr>state := (state a)\<lparr>extraction_info := Some (info st)\<rparr>\<rparr>)"
proof -
  from assms(4) have "url_input wd \<noteq> []" by auto
  with assms show ?thesis
    by (auto simp: extract_and_analyze_def read_settings_def Let_def is_ok_iff split: prod.splits)
qed

lemma extract_and_analyze_last_url [simp]:
  "last_video_url (state (snd (extract_and_analyze inst wd a))) = last_video_url (state a)"
  by (cases inst wd a rule: extract_and_analyze_cases) simp_all

lemma rerun_last_url:
  assumes "\<not> use_example_data wd" and "url_input wd \<noteq> []"
  shows "last_video_url (state (rerun inst wd a)) = url_input wd"
proof -
  let ?a1 = "a\<lparr>time := time a + int (idle wd), state := url_changed (url_input wd) (state a)\<rparr>"
  from assms have first: "last_video_url (state ?a1) = url_input wd"
    by (simp add: url_changed_def clear_data_def)
  have "last_video_url (state (start_analysis inst wd ?a1)) = url_input wd"
    using first extract_and_analyze_last_url [of inst wd ?a1] assms(1)
    by (cases "extract_and_analyze inst wd ?a1")
      (auto simp: start_analysis_def read_settings_def split: option.splits)
  with first assms(1) show ?thesis
    by (simp add: rerun_def Let_def clear_data_def)
qed

lemma analyse_run_calls:
  "analyse env p cs a =
     (case run_calls (schedule env 0 (length cs)) (init_world (time a)) of
        Inl e \<Rightarrow> (None, a)
      | Inr w' \<Rightarrow>
          (Some \<lparr>columns = comment_columns cs @ [''sentiment'', ''score'', ''explanation''],
                 rows = map (\<lambda>c. (c, analysed_row env p c)) cs\<rparr>,
           a\<lparr>time := clock w', requests := requests a @ dispatched w'\<rparr>))"
  by (simp add: analyse_def batch_analyze_eq analyze_batch_run_calls init_world_def
      analysed_frame_rows split: sum.splits del: map_map)

text \<open>The button after an extraction that succeeds.\<close>

lemma start_analysis_run:
  assumes "\<not> use_example_data wd" and "env_youtube_key inst \<noteq> []" and "env_gemini_key inst \<noteq> []"
    and "extract_video_id (url_input wd) = Some vid"
    and "is_ok (get_video_details (service inst) vid)"
    and "get_comments (service inst) (url_input wd) (slider wd)
           (fst (filter_flags (comment_type_filter wd)))
           (snd (filter_flags (comment_type_filter wd))) = Inr st"
  obtains w' where
    "start_analysis inst wd a =
       a\<lparr>state := \<lparr>last_video_url = url_input wd, analyzed = True,
            results = Some \<lparr>columns = comment_columns (comments st)
                               @ [''sentiment'', ''score'', ''explanation''],
                             rows = map (\<lambda>c. (c, analysed_row (language_model inst)
                               (custom_prompt (read_settings inst wd)) c)) (comments st)\<rparr>,
            extraction_info = Some (info st)\<rparr>,
         time := clock w', requests := requests a @ dispatched w',
         analysed_url := url_input wd\<rparr>"
    and "step\<^sup>*\<^sup>* (init_world (time a)) w'"
    and "length (dispatched w') = length (comments st)"
proof (rule analyse_cases [of "language_model inst" "custom_prompt (read_settings inst wd)"
      "comments st" "a\<lparr>state := (state a)\<lparr>extraction_info := Some (info st)\<rparr>\<rparr>"])
  fix w' :: world
  let ?a = "a\<lparr>state := (state a)\<lparr>extraction_info := Some (info st)\<rparr>\<rparr>"
  assume eq: "analyse (language_model inst) (custom_prompt (read_settings inst wd)) (comments st) ?a =
       (Some \<lparr>columns = comment_columns (comments st) @ [''sentiment'', ''score'', ''explanation''],
              rows = map (\<lambda>c. (c, analysed_row (language_model inst)
                       (custom_prompt (read_settings inst wd)) c)) (comments st)\<rparr>,
        ?a\<lparr>time := clock w', requests := requests ?a @ dispatched w'\<rparr>)"
    and steps: "step\<^sup>*\<^sup>* (init_world (time ?a)) w'"
    and len: "length (dispatched w') = length (comments st)"
  from extract_and_analyze_run [OF assms, of a] eq assms(1)
  have "start_analysis inst wd a =
       a\<lparr>state := \<lparr>last_video_url = url_input wd, analyzed = True,
            results = Some \<lparr>columns = comment_columns (comments st)
                               @ [''sentiment'', ''score'', ''explanation''],
                             rows = map (\<lambda>c. (c, analysed_row (language_model inst)
                               (custom_prompt (read_settings inst wd)) c)) (comments st)\<rparr>,
            extraction_info = Some (info st)\<rparr>,
         time := clock w', requests := requests a @ dispatched w',
         analysed_url := url_input wd\<rparr>"
    by (simp add: start_analysis_def read_settings_def)
  with steps len show thesis by (intro that [of w']) simp_all
qed

section \<open>Properties\<close>

text \<open>
  C14. In every session that the script can leave behind the flag \<open>analyzed\<close> is set only
  with stored results, so the display finds what it reads; the stored frame is well
  formed and is the analysis of the remembered URL.
\<close>

theorem session_invariant:
  assumes "reachable_app inst a"
  shows "session_inv a \<and> is_ok (displayed a)"
proof -
  from assms have "session_inv a" by (rule reachable_app_inv)
  then show ?thesis by (auto simp: session_inv_def displayed_def split: option.splits)
qed

theorem session_invariant_witness:
  "reachable_app sample_installation
     (rerun sample_installation (sidebar\<lparr>use_example_data := True, start_clicked := True\<rparr>) (init_app 0)) \<and>
   session_inv (rerun sample_installation
     (sidebar\<lparr>use_example_data := True, start_clicked := True\<rparr>) (init_app 0)) \<and>
   is_ok (displayed (rerun sample_installation
     (sidebar\<lparr>use_example_data := True, start_clicked := True\<rparr>) (init_app 0)))"
proof -
  have "reachable_app sample_installation
     (rerun sample_installation (sidebar\<lparr>use_example_data := True, start_clicked := True\<rparr>) (init_app 0))"
    by (rule reachable_app.again [OF reachable_app.fresh]) (simp add: widgets_ok_def sidebar_def)
  from this session_invariant [OF this] show ?thesis by simp
qed

text \<open>
  A new URL in the sidebar clears the session: when the script runs with a URL that
  is not empty and is not the remembered one, and no button is clicked, nothing is
  displayed afterwards and the new URL is remembered.
\<close>

theorem new_url_clears:
  assumes "\<not> use_example_data wd" and "url_input wd \<noteq> []"
    and "url_input wd \<noteq> last_video_url (state a)" and "\<not> start_clicked wd"
  shows "state (rerun inst wd a) =
      \<lparr>last_video_url = url_input wd, analyzed = False, results = None, extraction_info = None\<rparr>
    \<and> displayed (rerun inst wd a) = return None"
  using assms by (simp add: rerun_def url_changed_def clear_data_def displayed_def Let_def)

theorem new_url_clears_witness:
  "state (rerun sample_installation (sidebar\<lparr>url_input := ''https://youtu.be/xyz''\<rparr>)
      (rerun sample_installation (sidebar\<lparr>use_example_data := True, start_clicked := True\<rparr>)
         (init_app 0))) =
      \<lparr>last_video_url = ''https://youtu.be/xyz'', analyzed = False, results = None,
       extraction_info = None\<rparr>
    \<and> displayed (rerun sample_installation (sidebar\<lparr>url_input := ''https://youtu.be/xyz''\<rparr>)
      (rerun sample_installation (sidebar\<lparr>use_example_data := True, start_clicked := True\<rparr>)
         (init_app 0))) = return None"
  using new_url_clears [of "sidebar\<lparr>url_input := ''https://youtu.be/xyz''\<rparr>"
      "rerun sample_installation (sidebar\<lparr>use_example_data := True, start_clicked := True\<rparr>)
         (init_app 0)" sample_installation]
  by (simp add: sidebar_def rerun_def start_analysis_def extract_and_analyze_def
      read_settings_def example_url_def init_app_def url_changed_def clear_data_def
      displayed_def filter_flags_def Let_def)

text \<open>
  C16. The results on display are never those of another video: after the script has run
  with a URL in the sidebar, whatever is displayed is the analysis of that URL.
\<close>

theorem results_belong_to_url:
  assumes "reachable_app inst a" and "widgets_ok wd"
    and "\<not> use_example_data wd" and "url_input wd \<noteq> []"
  shows "displayed (rerun inst wd a) = return None \<or>
     analysed_url (rerun inst wd a) = url_input wd"
proof -
  from assms(1,2) have "reachable_app inst (rerun inst wd a)" by (rule reachable_app.again)
  then have "session_inv (rerun inst wd a)" by (rule reachable_app_inv)
  with rerun_last_url [OF assms(3,4), of inst a] show ?thesis
    by (auto simp: session_inv_def displayed_def)
qed

theorem results_belong_to_url_witness:
  "displayed (rerun sample_installation (start_click ''https://youtu.be/abc'') (init_app 0))
      = return None \<or>
   analysed_url (rerun sample_installation (start_click ''https://youtu.be/abc'') (init_app 0))
      = url_input (start_click ''https://youtu.be/abc'')"
  by (rule results_belong_to_url [OF reachable_app.fresh])
    (simp_all add: widgets_ok_def start_click_def sidebar_def)

text \<open>
  C15. The button that starts the analysis, when the extraction succeeds: the stored frame
  has one row for every extracted comment, in the order of the extraction, each with the
  analysis of its own text; the report of the extraction is stored with it, and the
  language model has received one request for each row.
\<close>

theorem start_stores_analysis:
  assumes "\<not> use_example_data wd" and "env_youtube_key inst \<noteq> []" and "env_gemini_key inst \<noteq> []"
    and "extract_video_id (url_input wd) = Some vid"
    and "is_ok (get_video_details (service inst) vid)"
    and "get_comments (service inst) (url_input wd) (slider wd)
           (fst (filter_flags (comment_type_filter wd)))
           (snd (filter_flags (comment_type_filter wd))) = Inr st"
  shows "results (state (start_analysis inst wd a)) =
       Some \<lparr>columns = comment_columns (comments st) @ [''sentiment'', ''score'', ''explanation''],
              rows = map (\<lambda>c. (c, analysed_row (language_model inst)
                       (custom_prompt (read_settings inst wd)) c)) (comments st)\<rparr>
    \<and> analyzed (state (start_analysis inst wd a))
    \<and> extraction_info (state (start_analysis inst wd a)) = Some (info st)
    \<and> last_video_url (state (start_analysis inst wd a)) = url_input wd
    \<and> length (requests (start_analysis inst wd a)) = length (requests a) + length (comments st)"
proof (rule start_analysis_run [OF assms, of a])
  fix w' :: world
  assume "start_analysis inst wd a =
       a\<lparr>state := \<lparr>last_video_url = url_input wd, analyzed = True,
            results = Some \<lparr>columns = comment_columns (comments st)
                               @ [''sentiment'', ''score'', ''explanation''],
                             rows = map (\<lambda>c. (c, analysed_row (language_model inst)
                               (custom_prompt (read_settings inst wd)) c)) (comments st)\<rparr>,
            extraction_info = Some (info st)\<rparr>,
         time := clock w', requests := requests a @ dispatched w',
         analysed_url := url_input wd\<rparr>"
    and "length (dispatched w') = length (comments st)"
  then show ?thesis by simp
qed

theorem start_stores_analysis_witness:
  "results (state (start_analysis sample_installation (start_click ''https://youtu.be/abc'') (init_app 0))) =
       Some \<lparr>columns = comment_columns (comments (projr (get_comments sample_service
                  ''https://youtu.be/abc'' 30 True True)))
                @ [''sentiment'', ''score'', ''explanation''],
              rows = map (\<lambda>c. (c, analysed_row sample_environment None c))
                (comments (projr (get_comments sample_service ''https://youtu.be/abc'' 30 True True)))\<rparr>
    \<and> length (requests (start_analysis sample_installation (start_click ''https://youtu.be/abc'')
          (init_app 0))) = 4"
proof -
  have run: "get_comments sample_service ''https://youtu.be/abc'' 30 True True =
      Inr (projr (get_comments sample_service ''https://youtu.be/abc'' 30 True True))"
    by code_simp
  have vid: "extract_video_id ''https://youtu.be/abc'' = Some ''abc''" by code_simp
  have n: "length (comments (projr (get_comments sample_service ''https://youtu.be/abc'' 30 True True))) = 4"
    by code_simp
  from start_stores_analysis [of "start_click ''https://youtu.be/abc''" sample_installation "''abc''"
      "projr (get_comments sample_service ''https://youtu.be/abc'' 30 True True)" "init_app 0"]
    run vid n video_details_sample
  show ?thesis
    by (simp add: start_click_def sidebar_def sample_installation_def filter_flags_def
        read_settings_def init_app_def)
qed

text \<open>
  An extraction that fails leaves everything as it was: without a key, without a URL
  or an identifier in it, and when the request for the details of the video or the
  extraction of the comments raises, the button stores nothing, so the results of an
  earlier analysis stay on display.
\<close>

theorem failed_extraction_keeps_session:
  assumes "\<not> use_example_data wd"
    and "env_youtube_key inst = [] \<or> env_gemini_key inst = [] \<or>
         extract_video_id (url_input wd) = None \<or>
         isl (get_video_details (service inst) (the (extract_video_id (url_input wd)))) \<or>
         isl (get_comments (service inst) (url_input wd) (slider wd)
                (fst (filter_flags (comment_type_filter wd)))
                (snd (filter_flags (comment_type_filter wd))))"
  shows "start_analysis inst wd a = a"
proof -
  have "extract_and_analyze inst wd a = (None, a)"
  proof (cases "url_input wd = []")
    case True
    with assms(1) show ?thesis
      by (simp add: extract_and_analyze_def read_settings_def Let_def split: prod.splits)
  next
    case False
    with assms show ?thesis
      by (auto simp: extract_and_analyze_def read_settings_def Let_def
          split: prod.splits option.splits sum.splits)
  qed
  then show ?thesis by (simp add: start_analysis_def)
qed

theorem failed_extraction_keeps_session_witness:
  "start_analysis (sample_installation\<lparr>service := exhausted_service\<rparr>)
      (start_click ''https://youtu.be/abc'') (init_app 0) = init_app 0"
proof -
  have "isl (get_comments exhausted_service ''https://youtu.be/abc'' 30 True True)"
    by code_simp
  with failed_extraction_keeps_session [of "start_click ''https://youtu.be/abc''"
      "sample_installation\<lparr>service := exhausted_service\<rparr>" "init_app 0"]
  show ?thesis
    by (simp add: start_click_def sidebar_def sample_installation_def filter_flags_def)
qed

end
