(* ===== verification/Display.thy ===== *)
theory Display
  imports Session "HOL-Library.List_Lexorder" "HOL-Library.Char_ord"
begin

text \<open>
  What the script computes from the stored results below the buttons (\<open>src/app.py\<close>,
  lines 289 to 397): the three metrics, the counts of the chart, the options of the two
  select boxes, the columns of the table and its rows after the three filters. The
  result is the record \<open>view\<close>, or the exception that ends the script. The regular
  expression of the text search is a parameter: a function from the pattern to the test
  it compiles to, or to the exception of a pattern that does not compile.
\<close>

section \<open>The widgets below the results\<close>

text \<open>The two select boxes and the search field.\<close>

record selections =
  tipo_selecionado :: string
  sentimento_selecionado :: string
  texto_busca :: string

definition todos :: string where
  "todos = ''Todos''"

text \<open>What is drawn: the metrics, the chart, the boxes and the table.\<close>

record view =
  total_positivos :: nat
  total_neutros :: nat
  total_negativos :: nat
  sentiment_counts :: "(json \<times> nat) list"
  tipos_comentarios :: "string list option"
  sentimentos :: "string list"
  display_columns :: "string list"
  filtered_df :: "(comment \<times> analysed) list"

section \<open>Columns\<close>

text \<open>The cell of the column \<open>type\<close>, as the extractor writes it.\<close>

definition type_cell :: "comment_type \<Rightarrow> string" where
  "type_cell k = (case k of principal \<Rightarrow> ''principal'' | resposta \<Rightarrow> ''resposta''
                  | alternativo \<Rightarrow> ''alternativo'')"

text \<open>\<open>len(results_df[results_df['sentiment'] == label])\<close>.\<close>

definition count_label :: "string \<Rightarrow> frame \<Rightarrow> nat" where
  "count_label l df = length (filter (\<lambda>(c, r). sentiment r = JStr l) (rows df))"

text \<open>
  \<open>value_counts()\<close>: every value of the column with the number of its rows. The order
  of the segments of the chart, by falling count, is not modelled: the values come in
  the order of their last appearance.
\<close>

definition value_counts :: "json list \<Rightarrow> (json \<times> nat) list" where
  "value_counts xs = map (\<lambda>v. (v, count_list xs v)) (remdups xs)"

text \<open>The colours of the chart.\<close>

definition color_discrete_map :: "(string \<times> string) list" where
  "color_discrete_map =
     [(''positivo'', ''#4CAF50''), (''neutro'', ''#FFC107''), (''negativo'', ''#F44336''),
      (''erro'', ''#9E9E9E'')]"

text \<open>\<open>sorted(column.unique().tolist())\<close> on strings.\<close>

definition sorted_unique :: "string list \<Rightarrow> string list" where
  "sorted_unique xs = sort (remdups xs)"

text \<open>
  The options of the box of sentiments. The cells are strings in every frame that the
  script stores; for cells that are not, the model raises the \<open>TypeError\<close> that
  Python raises when it compares values of different or unordered types.
\<close>

definition label_options :: "json list \<Rightarrow> string list result" where
  "label_options cells =
     (if list_all (\<lambda>v. case v of JStr s \<Rightarrow> True | _ \<Rightarrow> False) cells
      then return (todos # sorted_unique (map (\<lambda>v. case v of JStr s \<Rightarrow> s | _ \<Rightarrow> []) cells))
      else raise (TypeError ''< not supported''))"

text \<open>\<open>list.insert(i, x)\<close>.\<close>

definition list_insert :: "nat \<Rightarrow> 'a \<Rightarrow> 'a list \<Rightarrow> 'a list" where
  "list_insert i x xs = take i xs @ [x] @ drop i xs"

text \<open>
  The columns of the table: the five fixed ones, with \<open>type\<close> and \<open>parent_author\<close>
  inserted when the frame has them.
\<close>

definition table_columns :: "frame \<Rightarrow> string list" where
  "table_columns df =
     (let cols = [''author'', ''text'', ''sentiment'', ''score'', ''explanation''];
          cols1 = (if ''type'' \<in> set (columns df) then list_insert 1 ''type'' cols else cols)
      in if ''parent_author'' \<in> set (columns df) then list_insert 2 ''parent_author'' cols1
         else cols1)"

text \<open>\<open>filtered_df[display_columns]\<close>: every column must be one of the frame's.\<close>

definition select_columns :: "string list \<Rightarrow> frame \<Rightarrow> unit result" where
  "select_columns cols df =
     (case filter (\<lambda>c. c \<notin> set (columns df)) cols of
        [] \<Rightarrow> return ()
      | missing # _ \<Rightarrow> raise (KeyError missing))"

section \<open>The filters\<close>

text \<open>The box of types, which is drawn only for a frame with the column \<open>type\<close>.\<close>

definition filter_type :: "string \<Rightarrow> frame \<Rightarrow> (comment \<times> analysed) list" where
  "filter_type sel df =
     (if ''type'' \<in> set (columns df) \<and> sel \<noteq> todos
      then filter (\<lambda>(c, r). type_cell (kind c) = sel) (rows df)
      else rows df)"

definition filter_sentiment ::
    "string \<Rightarrow> (comment \<times> analysed) list \<Rightarrow> (comment \<times> analysed) list" where
  "filter_sentiment sel rs =
     (if sel \<noteq> todos then filter (\<lambda>(c, r). sentiment r = JStr sel) rs else rs)"

text \<open>
  The search: without a text the rows stay as they are; with one the column \<open>text\<close>
  is read and the pattern is compiled before any row is tested.
\<close>

definition filter_text ::
    "(string \<Rightarrow> (string \<Rightarrow> bool) result) \<Rightarrow> string \<Rightarrow> frame \<Rightarrow> (comment \<times> analysed) list
      \<Rightarrow> (comment \<times> analysed) list result" where
  "filter_text compile pat df rs =
     (if pat = [] then return rs
      else if ''text'' \<notin> set (columns df) then raise (KeyError ''text'')
      else case compile pat of
             Inl e \<Rightarrow> raise e
           | Inr found \<Rightarrow> return (filter (\<lambda>(c, r). found (content c)) rs))"

section \<open>The display\<close>

text \<open>The part of the script below the buttons, in its order.\<close>

definition display ::
    "(string \<Rightarrow> (string \<Rightarrow> bool) result) \<Rightarrow> selections \<Rightarrow> frame \<Rightarrow> view result" where
  "display compile sel results_df =
     (if ''sentiment'' \<notin> set (columns results_df) then raise (KeyError ''sentiment'')
      else
        case label_options (map (\<lambda>(c, r). sentiment r) (rows results_df)) of
          Inl e \<Rightarrow> raise e
        | Inr options \<Rightarrow>
            (case filter_text compile (texto_busca sel) results_df
                    (filter_sentiment (sentimento_selecionado sel)
                       (filter_type (tipo_selecionado sel) results_df)) of
               Inl e \<Rightarrow> raise e
             | Inr filtered \<Rightarrow>
                 (case select_columns (table_columns results_df) results_df of
                    Inl e \<Rightarrow> raise e
                  | Inr _ \<Rightarrow>
                      return
                        \<lparr>total_positivos = count_label ''positivo'' results_df,
                         total_neutros = count_label ''neutro'' results_df,
                         total_negativos = count_label ''negativo'' results_df,
                         sentiment_counts =
                           value_counts (map (\<lambda>(c, r). sentiment r) (rows results_df)),
                         tipos_comentarios =
                           (if ''type'' \<in> set (columns results_df)
                            then Some (todos # sorted_unique
                                   (map (\<lambda>(c, r). type_cell (kind c)) (rows results_df)))
                            else None),
                         sentimentos = options,
                         display_columns = table_columns results_df,
                         filtered_df = filtered\<rparr>)))"

text \<open>The script from the stored session to what it draws: nothing without results.\<close>

definition show_results ::
    "(string \<Rightarrow> (string \<Rightarrow> bool) result) \<Rightarrow> selections \<Rightarrow> app \<Rightarrow> view option result" where
  "show_results compile sel a =
     (case displayed a of
        Inl e \<Rightarrow> raise e
      | Inr None \<Rightarrow> return None
      | Inr (Some results_df) \<Rightarrow>
          (case display compile sel results_df of
             Inl e \<Rightarrow> raise e
           | Inr v \<Rightarrow> return (Some v)))"

text \<open>A search that looks for the text as it is, in any case of the letters.\<close>

definition literal_search :: "string \<Rightarrow> (string \<Rightarrow> bool) result" where
  "literal_search pat = return (\<lambda>t. contains (lower pat) (lower t))"

definition no_selection :: selections where
  "no_selection = \<lparr>tipo_selecionado = todos, sentimento_selecionado = todos, texto_busca = []\<rparr>"

section \<open>The filters, specified\<close>

text \<open>The three filters as one test on a row.\<close>

definition selected :: "(string \<Rightarrow> bool) \<Rightarrow> selections \<Rightarrow> frame \<Rightarrow> comment \<times> analysed \<Rightarrow> bool" where
  "selected found sel df row \<longleftrightarrow>
     (''type'' \<in> set (columns df) \<and> tipo_selecionado sel \<noteq> todos
        \<longrightarrow> type_cell (kind (fst row)) = tipo_selecionado sel) \<and>
     (sentimento_selecionado sel \<noteq> todos
        \<longrightarrow> sentiment (snd row) = JStr (sentimento_selecionado sel)) \<and>
     (texto_busca sel \<noteq> [] \<longrightarrow> found (content (fst row)))"

section \<open>Lemmas\<close>

declare todos_def [model_defs] type_cell_def [model_defs] count_label_def [model_defs]
  value_counts_def [model_defs] color_discrete_map_def [model_defs] sorted_unique_def [model_defs]
  label_options_def [model_defs] list_insert_def [model_defs] table_columns_def [model_defs]
  select_columns_def [model_defs] filter_type_def [model_defs] filter_sentiment_def [model_defs]
  filter_text_def [model_defs] display_def [model_defs] show_results_def [model_defs]
  selected_def [model_defs]
  literal_search_def [model_defs] no_selection_def [model_defs]

subsection \<open>Counting\<close>

lemma sum_count_list_remdups:
  "sum_list (map (count_list xs) (remdups xs)) = length xs"
proof -
  have "sum_list (map (count_list xs) (remdups xs)) = (\<Sum>x\<in>set xs. count_list xs x)"
    by (simp add: sum_list_distinct_conv_sum_set)
  then show ?thesis by (simp add: sum_count_set)
qed

lemma value_counts_total: "sum_list (map snd (value_counts xs)) = length xs"
  by (simp add: value_counts_def comp_def sum_count_list_remdups)

lemma value_counts_positive: "(v, n) \<in> set (value_counts xs) \<Longrightarrow> v \<in> set xs \<and> 0 < n"
  using count_list_0_iff [of xs v] by (auto simp: value_counts_def)

lemma value_counts_distinct: "distinct (map fst (value_counts xs))"
  by (simp add: value_counts_def comp_def)

text \<open>Rows with four possible labels fall into four classes.\<close>

lemma four_labels:
  assumes "list_all (\<lambda>(c, r). case sentiment r of JStr s \<Rightarrow> s \<in> set labels | _ \<Rightarrow> False) rs"
  shows "length (filter (\<lambda>(c, r). sentiment r = JStr ''positivo'') rs)
       + length (filter (\<lambda>(c, r). sentiment r = JStr ''neutro'') rs)
       + length (filter (\<lambda>(c, r). sentiment r = JStr ''negativo'') rs)
       + length (filter (\<lambda>(c, r). sentiment r = JStr ''erro'') rs) = length rs"
  using assms
proof (induction rs)
  case Nil
  then show ?case by simp
next
  case (Cons x rs)
  obtain c r where x: "x = (c, r)" by (cases x)
  from Cons.prems x obtain s where s: "sentiment r = JStr s" and "s \<in> set labels"
    by (auto split: json.splits)
  then have "s = ''positivo'' \<or> s = ''neutro'' \<or> s = ''negativo'' \<or> s = ''erro''"
    by (auto simp: labels_def)
  with Cons x s show ?case by auto
qed

subsection \<open>The boxes and the columns\<close>

lemma sorted_unique_spec:
  "sorted (sorted_unique xs) \<and> distinct (sorted_unique xs) \<and> set (sorted_unique xs) = set xs"
  by (simp add: sorted_unique_def)

lemma label_options_ok:
  assumes "list_all (\<lambda>(c, r). case sentiment r of JStr s \<Rightarrow> s \<in> set labels | _ \<Rightarrow> False) rs"
  shows "label_options (map (\<lambda>(c, r). sentiment r) rs)
    = return (todos # sorted_unique (map (\<lambda>(c, r). case sentiment r of JStr s \<Rightarrow> s | _ \<Rightarrow> []) rs))"
  using assms
  by (auto simp: label_options_def list_all_iff comp_def case_prod_unfold split: json.splits)

lemma table_columns_subset:
  assumes "set [''author'', ''text'', ''sentiment'', ''score'', ''explanation''] \<subseteq> set (columns df)"
  shows "set (table_columns df) \<subseteq> set (columns df)"
  using assms by (auto simp: table_columns_def list_insert_def Let_def)

lemma filter_Cons_head: "filter P xs = y # ys \<Longrightarrow> y \<in> set xs \<and> P y"
proof -
  assume "filter P xs = y # ys"
  then have "y \<in> set (filter P xs)" by simp
  then show ?thesis by simp
qed

lemma select_columns_ok: "set cols \<subseteq> set (columns df) \<Longrightarrow> select_columns cols df = return ()"
  by (auto simp: select_columns_def split: list.splits dest: filter_Cons_head)

lemma select_columns_missing:
  assumes "c \<in> set cols" and "c \<notin> set (columns df)"
  shows "\<exists>m. select_columns cols df = raise (KeyError m) \<and> m \<in> set cols \<and> m \<notin> set (columns df)"
proof (cases "filter (\<lambda>c. c \<notin> set (columns df)) cols")
  case Nil
  with assms show ?thesis by (auto simp: filter_empty_conv)
next
  case (Cons m ms)
  from filter_Cons_head [OF this] Cons show ?thesis by (simp add: select_columns_def)
qed

subsection \<open>The filters\<close>

lemma filters_as_one:
  assumes "texto_busca sel = [] \<or> ''text'' \<in> set (columns df) \<and> compile (texto_busca sel) = Inr found"
  shows "filter_text compile (texto_busca sel) df
           (filter_sentiment (sentimento_selecionado sel) (filter_type (tipo_selecionado sel) df))
       = return (filter (selected found sel df) (rows df))"
proof -
  have "filter (selected found sel df) (rows df) =
      filter (\<lambda>row. texto_busca sel \<noteq> [] \<longrightarrow> found (content (fst row)))
        (filter_sentiment (sentimento_selecionado sel) (filter_type (tipo_selecionado sel) df))"
    by (auto simp: filter_sentiment_def filter_type_def selected_def case_prod_unfold
        intro!: filter_cong)
  with assms show ?thesis
    by (auto simp: filter_text_def case_prod_unfold)
qed

subsection \<open>The view of a well-formed frame\<close>

lemma frame_ok_columns:
  assumes "frame_ok df" and "rows df \<noteq> []"
  shows "set [''author'', ''text'', ''sentiment'', ''score'', ''explanation''] \<subseteq> set (columns df)"
  using assms by (simp add: frame_ok_def)

lemma frame_ok_labels:
  "frame_ok df \<Longrightarrow>
     list_all (\<lambda>(c, r). case sentiment r of JStr s \<Rightarrow> s \<in> set labels | _ \<Rightarrow> False) (rows df)"
  by (auto simp: frame_ok_def list_all_iff)

lemma frame_ok_label:
  assumes "frame_ok df" and "(c, r) \<in> set (rows df)"
  shows "\<exists>s. sentiment r = JStr s \<and> s \<in> set labels"
  using assms by (cases "sentiment r") (auto simp: frame_ok_def list_all_iff)

lemma display_eq:
  assumes "frame_ok df" and "rows df \<noteq> []"
    and "texto_busca sel = [] \<or> compile (texto_busca sel) = Inr found"
  shows "display compile sel df = return
     \<lparr>total_positivos = count_label ''positivo'' df,
      total_neutros = count_label ''neutro'' df,
      total_negativos = count_label ''negativo'' df,
      sentiment_counts = value_counts (map (\<lambda>(c, r). sentiment r) (rows df)),
      tipos_comentarios =
        (if ''type'' \<in> set (columns df)
         then Some (todos # sorted_unique (map (\<lambda>(c, r). type_cell (kind c)) (rows df)))
         else None),
      sentimentos = todos # sorted_unique
        (map (\<lambda>(c, r). case sentiment r of JStr s \<Rightarrow> s | _ \<Rightarrow> []) (rows df)),
      display_columns = table_columns df,
      filtered_df = filter (selected found sel df) (rows df)\<rparr>"
proof -
  note cols = frame_ok_columns [OF assms(1,2)]
  from cols assms(3)
  have "texto_busca sel = [] \<or> ''text'' \<in> set (columns df) \<and> compile (texto_busca sel) = Inr found"
    by auto
  from filters_as_one [where sel = sel and df = df and compile = compile and found = found, OF this]
    cols label_options_ok [OF frame_ok_labels [OF assms(1)]]
    select_columns_ok [OF table_columns_subset [OF cols]]
  show ?thesis by (simp add: display_def)
qed

text \<open>
  The frame of an extraction without rows has the three columns of the analysis only:
  the script ends with a \<open>KeyError\<close> at the search or at the table.
\<close>

lemma display_empty_frame:
  "\<exists>m. display compile sel (analysed_frame [] rs) = raise (KeyError m)"
proof (cases "texto_busca sel = []")
  case True
  then show ?thesis
    by (simp add: display_def analysed_frame_def comment_columns_def label_options_def
        filter_text_def filter_sentiment_def filter_type_def select_columns_def
        table_columns_def)
next
  case False
  then show ?thesis
    by (simp add: display_def analysed_frame_def comment_columns_def label_options_def
        filter_text_def)
qed

section \<open>Properties\<close>

text \<open>
  C21. A stored frame with at least one row is always displayed: the script does not raise
  whatever is selected, as long as the pattern of the search compiles; the table has
  only columns of the frame; the three metrics and the rows with the label \<open>erro\<close>
  add up to the number of rows, and so do the counts of the chart.
\<close>

theorem display_total:
  assumes "frame_ok df" and "rows df \<noteq> []"
    and "texto_busca sel = [] \<or> is_ok (compile (texto_busca sel))"
  shows "\<exists>v. display compile sel df = return v
    \<and> set (display_columns v) \<subseteq> set (columns df)
    \<and> total_positivos v + total_neutros v + total_negativos v + count_label ''erro'' df
        = length (rows df)
    \<and> sum_list (map snd (sentiment_counts v)) = length (rows df)"
proof -
  from assms(3) obtain found where "texto_busca sel = [] \<or> compile (texto_busca sel) = Inr found"
    by (auto simp: is_ok_iff)
  from display_eq [where sel = sel and compile = compile and found = found, OF assms(1,2) this]
    four_labels [OF frame_ok_labels [OF assms(1)]]
    table_columns_subset [OF frame_ok_columns [OF assms(1,2)]]
  show ?thesis by (simp add: count_label_def value_counts_total)
qed

theorem display_total_witness:
  "\<exists>v. display literal_search (no_selection\<lparr>texto_busca := ''video''\<rparr>) get_example_data = return v
    \<and> set (display_columns v) \<subseteq> set (columns get_example_data)
    \<and> total_positivos v + total_neutros v + total_negativos v + count_label ''erro'' get_example_data
        = length (rows get_example_data)
    \<and> sum_list (map snd (sentiment_counts v)) = length (rows get_example_data)"
  by (rule display_total, rule frame_ok_example)
    (simp_all add: get_example_data_def no_selection_def literal_search_def)

text \<open>
  C22. The three filters are one test on each row: the table shows, in the order of the
  frame, the rows of the selected type and sentiment in whose text the search finds
  something, where a selection of \<open>Todos\<close> and an empty search select every row.
\<close>

theorem filters_refine:
  assumes "frame_ok df" and "rows df \<noteq> []"
    and "texto_busca sel = [] \<or> compile (texto_busca sel) = Inr found"
  shows "\<exists>v. display compile sel df = return v
    \<and> filtered_df v = filter (selected found sel df) (rows df)"
  using display_eq [where sel = sel and compile = compile and found = found, OF assms] by simp

theorem filters_refine_witness:
  "\<exists>v. display literal_search
          \<lparr>tipo_selecionado = todos, sentimento_selecionado = ''negativo'', texto_busca = ''VIDEO''\<rparr>
          get_example_data = return v
    \<and> filtered_df v = filter (selected (\<lambda>t. contains (lower ''VIDEO'') (lower t))
          \<lparr>tipo_selecionado = todos, sentimento_selecionado = ''negativo'', texto_busca = ''VIDEO''\<rparr>
          get_example_data) (rows get_example_data)"
  by (rule filters_refine, rule frame_ok_example)
    (simp_all add: get_example_data_def literal_search_def)

text \<open>
  Every segment of the chart has its colour: the values that are counted in a stored
  frame are among the four labels of the colour map.
\<close>

theorem palette_covers_labels:
  assumes "frame_ok df" and "(v, n) \<in> set (value_counts (map (\<lambda>(c, r). sentiment r) (rows df)))"
  shows "\<exists>s colour. v = JStr s \<and> map_of color_discrete_map s = Some colour"
proof -
  from value_counts_positive [OF assms(2)] obtain c r where "(c, r) \<in> set (rows df)"
    and v: "v = sentiment r"
    by auto
  with frame_ok_label [OF assms(1)] obtain s where "v = JStr s" and "s \<in> set labels"
    by blast
  then show ?thesis by (auto simp: labels_def color_discrete_map_def)
qed

theorem palette_covers_labels_witness:
  "\<exists>s colour. JStr ''neutro'' = JStr s \<and> map_of color_discrete_map s = Some colour"
  by (rule palette_covers_labels [where df = get_example_data and n = 1], rule frame_ok_example)
    (simp add: get_example_data_def example_row_def value_counts_def)


end
