(* ===== verification/Spec2Isabelle.thy ===== *)
theory Spec2Isabelle
  imports Prelude Py_String Video_Id Rate_Limiter Youtube_Api Comment_Extractor Extractor_Loops
    Sample_Service Extractor_Budget Extractor_Rows Extractor_Report Extractor_Retry
    Response_Parser Sentiment_Analyzer Session Display
begin

text \<open>
  \<^bold>\<open>The program.\<close> A Streamlit dashboard (\<open>src/app.py\<close>) takes the URL of a YouTube
  video, has \<open>YouTubeCommentExtractor\<close> (\<open>src/youtube_extractor.py\<close>) fetch its
  comments through the YouTube Data API, and has \<open>GeminiSentimentAnalyzer\<close>
  (\<open>src/sentiment_analyzer.py\<close>) classify each comment with a language model, at most
  15 requests a minute. The extractor resolves the video identifier from the URL, asks
  for the number of comments, pages through the comment threads within a budget of rows
  and a limit of ten pages, asks for the replies of each thread, tries a search when it
  found too little, and returns the rows with a report: what was requested, extracted
  and available, and the reasons for a shortfall.

  \<^bold>\<open>The theories.\<close>

  \<^item> \<open>Prelude\<close>: the exceptions of the sources as a datatype \<open>exn\<close>, results as
    \<open>exn + 'a\<close>, the fact collections, and the list lemmas on evenly spaced timestamps
    and sliding windows.
  \<^item> \<open>Py_String\<close>: the string operations the sources call (\<open>strip\<close>, \<open>lower\<close>,
    \<open>in\<close>, \<open>replace\<close>, \<open>int\<close>, \<open>re.search\<close>) on strings of bytes.
  \<^item> \<open>Video_Id\<close>: \<open>extract_video_id\<close>, with \<open>patterns\<close> as in the source and
    \<open>first_match\<close> for its loop. The lemmas characterise when an identifier is found
    and what it is.
  \<^item> \<open>Rate_Limiter\<close>: the record \<open>analyzer\<close> holds the limiter fields of
    \<open>GeminiSentimentAnalyzer.__init__\<close>; \<open>apply_rate_limiting\<close> is
    \<open>_apply_rate_limiting\<close>, \<open>evict_old\<close> its eviction loop, \<open>record_request\<close> the
    append of \<open>analyze_sentiment\<close> on a deque with \<open>maxlen\<close>. The clock and
    \<open>time.sleep\<close> are an environment: the inductive relation \<open>step\<close> lets time pass
    or dispatches a call no earlier than the limiter allows, \<open>reachable\<close> is its
    closure from a fresh analyzer, \<open>acquire\<close> and \<open>run_calls\<close> run a schedule of
    calls. The invariant \<open>limiter_inv\<close> is kept by every step; from it follow the
    spacing of dispatches, the quota of a window, and that the limiter never raises.
  \<^item> \<open>Youtube_Api\<close>: the responses of the four endpoints as records whose fields
    are the keys the code reads (\<open>None\<close> for a missing key), the requests as the
    datatype \<open>api_call\<close>, the service as a record \<open>youtube\<close> of four functions.
  \<^item> \<open>Comment_Extractor\<close>: \<open>get_comments\<close> and \<open>get_video_details\<close>. The local
    variables of \<open>get_comments\<close> are the record \<open>xstate\<close>, which also logs every
    call; an operation that can raise returns the exception with the state at the
    raise. \<open>check_availability\<close>, \<open>note_filter\<close>, \<open>paging_loop\<close> (with
    \<open>fetch_page\<close>, \<open>process_items\<close>, \<open>process_thread\<close>, \<open>fetch_replies\<close>,
    \<open>add_replies\<close>), \<open>finish\<close> (with \<open>alternative_method\<close>,
    \<open>add_search_items\<close>) follow the source's text in its order; \<open>extraction\<close> is
    the body of its \<open>try\<close>.
  \<^item> \<open>Extractor_Loops\<close>: case rules for one iteration of the loop and for the ways
    \<open>get_comments\<close> ends, induction over the pages left, and the frame \<open>extends\<close>:
    rows, calls and reasons are only appended.
  \<^item> \<open>Sample_Service\<close>: small services on which the theorems are applied.
  \<^item> \<open>Extractor_Budget\<close>: the number of rows against the budget, through every
    operation, and the number of requests for threads.
  \<^item> \<open>Extractor_Rows\<close>: a rule for properties of all rows, and that rows are well
    formed.
  \<^item> \<open>Extractor_Report\<close>: the counters and the reasons of the report, and the errors.
  \<^item> \<open>Extractor_Retry\<close>: the second attempt of \<open>fetch_page\<close>. Two runs of
    \<open>get_comments\<close> are compared by a simulation: \<open>same_by L\<close> relates two states
    that agree on the variables of the code and whose logs \<open>L\<close> relates, \<open>alike\<close>
    two outcomes, \<open>pages_alike\<close> two services whose requests for a page keep the
    relation, and every operation of the extractor keeps it. With any two logs this shows
    that the log does not influence the code (\<open>log_is_ghost\<close>); with \<open>retry_log\<close>
    it shows that a service that rejects the extra parameters (\<open>rejects_extended\<close>)
    gives what \<open>observable\<close> keeps of the outcome of the service that accepts them,
    for two requests a page.
  \<^item> \<open>Response_Parser\<close>: lines 89 to 176 of \<open>analyze_sentiment\<close> as
    \<open>parse_response\<close>, from the text of the model's answer to the row. The values of
    \<open>json.loads\<close> are the datatype \<open>json\<close>, a dictionary an association list in
    the order of insertion. \<open>clean_response\<close> strips the code fences, \<open>decode\<close> is
    the \<open>json.loads\<close> with its handler \<open>recover\<close>: a second attempt on the part in
    braces (\<open>brace_match\<close>), the fields by regular expression (\<open>regex_fields\<close>),
    the label by keyword (\<open>keyword_fields\<close>). \<open>fill_defaults\<close> and \<open>normalize\<close>
    are the two steps after it, \<open>error_row\<close> the handler of every other exception.
    The lemmas show that a row always has the three fields and one of four labels, and
    say on every branch what the row is.
  \<^item> \<open>Sentiment_Analyzer\<close>: \<open>build_prompt\<close> with the bytes of the two templates,
    \<open>analyze_sentiment\<close> as the limiter's \<open>acquire\<close> followed by the row of the
    model's answer or of its exception, and \<open>batch_analyze\<close> with its two loops
    \<open>batch_loop\<close> and \<open>analyze_batch\<close>. The model, the decoder and the passing of
    time are the record \<open>environment\<close>. The lemmas show that the analysis of a comment
    and of a frame always returns from a reachable world, one dispatch and one row per
    comment, and that the batches do not change the result.

  \<^item> \<open>Session\<close>: the script of the dashboard as far as it changes state. The widgets
    of the sidebar are the record \<open>widgets\<close>, the module's variables after the sidebar
    \<open>read_settings\<close>, \<open>st.session_state\<close> the record \<open>session\<close>; \<open>app\<close> adds what the
    script does not store: the time, the requests sent to the language model by all
    analyzers, and the URL whose analysis is stored. \<open>url_changed\<close> is the detection of
    a new URL, \<open>extract_and_analyze\<close> the function of that name with \<open>analyse\<close> for
    its second half, \<open>start_analysis\<close> and \<open>clear_data\<close> the two buttons, \<open>rerun\<close> one
    execution of the script and \<open>reachable_app\<close> the sessions it can leave behind;
    \<open>ensure_dotenv\<close> is the creation of the file \<open>.env\<close>. The lemmas show the
    invariant \<open>session_inv\<close> of these sessions, what the button stores when the
    extraction succeeds, and that it stores nothing when it fails.
  \<^item> \<open>Display\<close>: what the script computes from the stored results below the
    buttons, as the function \<open>display\<close> from the selections and the frame to the record
    \<open>view\<close> or to an exception: the metrics (\<open>count_label\<close>), the counts of the chart
    (\<open>value_counts\<close>), the options of the boxes, the columns of the table
    (\<open>table_columns\<close>, \<open>select_columns\<close>) and the three filters. The lemmas show that
    a frame with a row is displayed without an exception, that the counts add up, that
    the three filters are one test on each row (\<open>selected\<close>), and that a frame without
    rows is not displayed.
  \<^item> This theory: the properties that span components. The requests of one analysis
    keep the quota, the requests of several analyses do not (\<open>clicks\<close> is a session
    that shows it), a call waits for a minute at most while an analysis of \<open>n\<close> rows
    takes \<open>(n - 1) div 15\<close> minutes at least, and an extraction without rows breaks the
    display.

  \<^bold>\<open>Bounds and assumptions.\<close> Time is an integer number of microseconds, the resolution
  of \<open>datetime\<close>; the clock never goes back and \<open>time.sleep\<close> never returns early.
  Strings are lists of bytes: the character classes are those of ASCII. A response of
  the API that has a key has it with the documented type. The service is a function of
  the request, so a retry of the same request gets the same answer; the theorems hold
  for every service, or for every service that honours \<open>maxResults\<close> where they say
  so. The paging loop needs no fuel: it terminates by the measure \<open>10 - page_count\<close>,
  the limit of the source; the loop over the batches terminates by the number of
  comments left. The language model is a function from the prompt to an answer or an
  exception, and \<open>json.loads\<close> a function from a text to a value or nothing: the
  theorems on the parser hold for every such decoder, so none of them depends on what
  JSON is. A number is an integer or a decimal with its digits, which is what the
  pattern for the score can match; no theorem rounds it to a binary float. The
  dashboard runs its script once for every interaction, with at most one button
  clicked; between two executions any time may pass (\<open>idle\<close>), during the extraction
  none does. The regular expression of the search in the table is a parameter of
  \<open>display\<close>. The order in which \<open>value_counts\<close> lists the values is not modelled.

  \<^bold>\<open>Not modelled.\<close> What the dashboard only draws: the texts of the sidebar, the
  details of the video, the messages, the chart itself and the download of the table as
  CSV; the connection test (\<open>src/app_test.py\<close>); \<open>print\<close>, the progress bar and the
  spinner; the reading of the keys from the environment; the client libraries behind
  \<open>self.youtube\<close> and \<open>self.model\<close>, whose constructors are assumed not to raise.
\<close>

section \<open>A sample session\<close>


section \<open>Lemmas across the components\<close>

lemma reachable_window: "reachable w \<Longrightarrow> count_in_window t minute (dispatched w) \<le> 15"
  using reachable_spaced [of w] by (simp add: window_bound)

lemma reachable_deque_past:
  assumes "reachable w" and "clock w \<le> now"
  shows "list_all (\<lambda>t. t \<le> now) (request_timestamps (lim w))"
proof -
  from reachable_inv [OF assms(1)]
  have "suffix (request_timestamps (lim w)) (dispatched w)"
    and "list_all (\<lambda>x. x \<le> clock w) (dispatched w)"
    by (simp_all add: limiter_inv_def Let_def)
  with assms(2) show ?thesis by (fastforce simp: list_all_iff dest: set_mono_suffix)
qed




lemma sample_video_id: "extract_video_id ''https://youtu.be/abc'' = Some ''abc''"
  by code_simp


text \<open>Spaced timestamps, \<open>k\<close> windows apart; and the requests of a run lie after its start.\<close>

lemma spaced_far:
  assumes "spaced q m xs"
  shows "i + q * k < length xs \<Longrightarrow> xs ! i + int k * m \<le> xs ! (i + q * k)"
proof (induction k)
  case 0
  then show ?case by simp
next
  case (Suc k)
  then have "i + q * k + q < length xs" by (simp add: add.assoc)
  from spacedD [OF assms this] Suc show ?case by (simp add: algebra_simps)
qed

lemma steps_after:
  "step\<^sup>*\<^sup>* w w' \<Longrightarrow>
     \<exists>ds. dispatched w' = dispatched w @ ds \<and> list_all (\<lambda>x. clock w \<le> x) ds"
proof (induction rule: rtranclp_induct)
  case base
  then show ?case by simp
next
  case (step w1 w2)
  then obtain ds where ds: "dispatched w1 = dispatched w @ ds" "list_all (\<lambda>x. clock w \<le> x) ds"
    by blast
  from step.hyps(1) have "clock w \<le> clock w1" by (rule steps_clock)
  with step.hyps(2) ds show ?case
    by (auto elim!: step_cases dest: apply_rate_limiting_Inr(3))
qed




section \<open>Properties across the components\<close>

text \<open>
  C17. The requests of one analysis keep the quota: the analysis of a frame sends one
  request for each row, and no window of one minute holds more than fifteen of them.
\<close>

theorem analysis_quota:
  "\<exists>ds. requests (snd (analyse env p cs a)) = requests a @ ds \<and> length ds = length cs \<and>
     (\<forall>t. count_in_window t minute ds \<le> 15)"
proof (rule analyse_cases [of env p cs a])
  fix w' :: world
  assume eq: "analyse env p cs a =
       (Some \<lparr>columns = comment_columns cs @ [''sentiment'', ''score'', ''explanation''],
              rows = map (\<lambda>c. (c, analysed_row env p c)) cs\<rparr>,
        a\<lparr>time := clock w', requests := requests a @ dispatched w'\<rparr>)"
    and steps: "step\<^sup>*\<^sup>* (init_world (time a)) w'"
    and len: "length (dispatched w') = length cs"
  from steps have "reachable w'" by (rule steps_reachable) (rule reachable.start)
  then have "\<forall>t. count_in_window t minute (dispatched w') \<le> 15"
    by (simp add: reachable_window)
  with eq len show ?thesis by (intro exI [of _ "dispatched w'"]) simp
qed

text \<open>
  C18. An analysis takes its time: the limiter lets fifteen requests pass in a minute, so
  the analysis of \<open>n\<close> rows ends no earlier than \<open>(n - 1) div 15\<close> minutes after it
  started; for the 300 comments that the slider allows, that is 19 minutes.
\<close>

theorem analysis_duration:
  "time a + int ((length cs - 1) div 15) * minute \<le> time (snd (analyse env p cs a))"
proof (rule analyse_cases [of env p cs a])
  fix w' :: world
  assume eq: "analyse env p cs a =
       (Some \<lparr>columns = comment_columns cs @ [''sentiment'', ''score'', ''explanation''],
              rows = map (\<lambda>c. (c, analysed_row env p c)) cs\<rparr>,
        a\<lparr>time := clock w', requests := requests a @ dispatched w'\<rparr>)"
    and steps: "step\<^sup>*\<^sup>* (init_world (time a)) w'"
    and len: "length (dispatched w') = length cs"
  from steps have r: "reachable w'" by (rule steps_reachable) (rule reachable.start)
  show ?thesis
  proof (cases "cs = []")
    case True
    with steps_clock [OF steps] eq show ?thesis by (simp add: init_world_def)
  next
    case False
    let ?k = "(length cs - 1) div 15"
    have "15 * ?k \<le> length cs - 1" by simp
    with False len have k: "0 + 15 * ?k < length (dispatched w')"
      by (cases cs) simp_all
    from steps_after [OF steps] False len have "time a \<le> dispatched w' ! 0"
      by (cases "dispatched w'") (auto simp: init_world_def)
    moreover from reachable_spaced [OF r] spaced_far [OF _ k, of minute]
    have "dispatched w' ! 0 + int ?k * minute \<le> dispatched w' ! (15 * ?k)" by simp
    moreover from reachable_past [OF r] k have "dispatched w' ! (15 * ?k) \<le> clock w'"
      by (simp add: list_all_length)
    ultimately show ?thesis using eq by simp
  qed
qed


text \<open>
  C23. A call is never kept waiting for more than a minute: from every state the limiter
  can be in, a call returns, and its request is sent at most one minute after the call
  was made and the delays of the environment.
\<close>

theorem call_dispatched_within_minute:
  assumes "reachable w"
  shows "\<exists>w'. acquire d1 d2 w = Inr w' \<and> step w w' \<and>
     dispatched w' = dispatched w @ [clock w'] \<and>
     clock w' \<le> clock w + int d1 + minute + int d2"
proof -
  from reachable_inv [OF assms] have "limiter_inv w" by simp
  from acquire_ok [OF this, of d1 d2] obtain w' where a: "acquire d1 d2 w = Inr w'"
    by (auto simp: is_ok_iff)
  then obtain wait a' where arl: "apply_rate_limiting (clock w + int d1) (lim w) = Inr (wait, a')"
    and w': "clock w' = clock w + int d1 + wait + int d2"
      "dispatched w' = dispatched w @ [clock w + int d1 + wait + int d2]"
    by (auto simp: acquire_def Let_def split: sum.splits)
  from wait_bounds [OF arl reachable_deque_past [OF assms]] have "wait \<le> minute" by simp
  with a acquire_step [OF a] w' show ?thesis by simp
qed

theorem call_dispatched_within_minute_witness:
  "\<exists>w'. acquire 0 0 \<lparr>lim = \<lparr>rate_limit = 15, request_timestamps = replicate 14 0 @ [60000000]\<rparr>,
          clock = 60000000, dispatched = replicate 15 0 @ [60000000]\<rparr> = Inr w' \<and>
     step \<lparr>lim = \<lparr>rate_limit = 15, request_timestamps = replicate 14 0 @ [60000000]\<rparr>,
          clock = 60000000, dispatched = replicate 15 0 @ [60000000]\<rparr> w' \<and>
     dispatched w' = dispatched \<lparr>lim = \<lparr>rate_limit = 15, request_timestamps = replicate 14 0 @ [60000000]\<rparr>,
          clock = 60000000, dispatched = replicate 15 0 @ [60000000]\<rparr> @ [clock w'] \<and>
     clock w' \<le> clock \<lparr>lim = \<lparr>rate_limit = 15, request_timestamps = replicate 14 0 @ [60000000]\<rparr>,
          clock = 60000000, dispatched = replicate 15 0 @ [60000000]\<rparr> + int 0 + minute + int 0"
  by (rule call_dispatched_within_minute [OF burst_reachable])

text \<open>
  C19. An extraction without rows breaks the display: the button stores the empty frame
  of the analysis, which has none of the columns of the comments, and from then on the
  script ends with a \<open>KeyError\<close> below the buttons, whatever is selected there.
\<close>

theorem empty_extraction_breaks_display:
  assumes "\<not> use_example_data wd" and "env_youtube_key inst \<noteq> []" and "env_gemini_key inst \<noteq> []"
    and "extract_video_id (url_input wd) = Some vid"
    and "is_ok (get_video_details (service inst) vid)"
    and "get_comments (service inst) (url_input wd) (slider wd)
           (fst (filter_flags (comment_type_filter wd)))
           (snd (filter_flags (comment_type_filter wd))) = Inr st"
    and "comments st = []"
  shows "\<exists>m. show_results compile sel (start_analysis inst wd a) = raise (KeyError m)"
proof (rule start_analysis_run [OF assms(1-6), of a])
  fix w' :: world
  assume "start_analysis inst wd a =
       a\<lparr>state := \<lparr>last_video_url = url_input wd, analyzed = True,
            results = Some \<lparr>columns = comment_columns (comments st)
                               @ [''sentiment'', ''score'', ''explanation''],
                             rows = map (\<lambda>c. (c, analysed_row (language_model inst)
                               (custom_prompt (read_settings inst wd)) c)) (comments st)\<rparr>,
            extraction_info = Some (info st)\<rparr>,
         time := clock w', requests := requests a @ dispatched w',
         analysed_url := url_input wd\<rparr>"
  with assms(7) display_empty_frame [of compile sel "[]"] show ?thesis
    by (auto simp: show_results_def displayed_def analysed_frame_def)
qed

theorem empty_extraction_breaks_display_witness:
  "\<exists>m. show_results literal_search no_selection
      (start_analysis (sample_installation\<lparr>service := silent_service\<rparr>)
         (start_click ''https://youtu.be/abc'') (init_app 0)) = raise (KeyError m)"
proof -
  have "get_comments silent_service ''https://youtu.be/abc'' 30 True True =
     Inr (projr (get_comments silent_service ''https://youtu.be/abc'' 30 True True))"
    and "comments (projr (get_comments silent_service ''https://youtu.be/abc'' 30 True True)) = []"
    and "is_ok (get_video_details silent_service ''abc'')"
    by code_simp+
  then show ?thesis
    by (intro empty_extraction_breaks_display [where vid = "''abc''"
          and st = "projr (get_comments silent_service ''https://youtu.be/abc'' 30 True True)"])
      (simp_all add: start_click_def sidebar_def sample_installation_def filter_flags_def
        sample_video_id)
qed

end
